theory Spec2Isabelle
  imports Complex_Main "HOL-Library.Option_ord" "HOL-Library.Multiset"
begin

section \<open>The serial leaf-wise tree learner (serial\_tree\_learner.cpp)\<close>

text \<open>
  A shallow embedding of \<^verbatim>\<open>SerialTreeLearner\<close>. The learner is a record of its members
  (the member \<^verbatim>\<open>x_\<close> of the class is the field \<open>x_'\<close>), and every method takes the learner
  and returns the updated one. Doubles are modelled as reals; the sentinel \<^verbatim>\<open>kMinScore\<close>
  (minus infinity) is the value \<open>None\<close> of \<open>real option\<close>, which the order on options
  places below every \<open>Some x\<close>. Rounding and NaN are not modelled. Leaf ids are \<open>int\<close>, as
  in the source, where \<open>-1\<close> means "no leaf". A failed \<^verbatim>\<open>CHECK\<close> and the use of a null
  histogram pointer are error values.

  The classes the source file only uses (\<^verbatim>\<open>Tree\<close>, \<^verbatim>\<open>DataPartition\<close>, \<^verbatim>\<open>HistogramPool\<close>,
  \<^verbatim>\<open>LeafSplits\<close>, \<^verbatim>\<open>SplitInfo\<close>) are modelled from the specification; the kernels it
  calls (threshold search, sampling, the bin of an example) are the fields of the
  record \<open>Env\<close>, left open.
\<close>

subsection \<open>Data model\<close>

datatype error = CheckFailed | NullPointer

type_synonym score = "real option"

abbreviation kMinScore :: score where
  "kMinScore \<equiv> None"

definition kEpsilon :: real where
  \<comment> \<open>Modelled from the spec: the constant \<^verbatim>\<open>kEpsilon\<close> is declared outside the source
      file (meta.h); the spec calls it "a small epsilon". Only \<open>0 < kEpsilon < 1\<close> is used.\<close>
  "kEpsilon = 1 / 10 ^ 15"

record Config =
  num_leaves :: int
  max_depth :: int
  min_data_in_leaf :: int
  feature_fraction :: real
  feature_fraction_bynode :: real
  lambda_l1 :: real
  lambda_l2 :: real
  max_delta_step :: real
  refit_decay_rate :: real
  histogram_pool_size :: real

definition int32_mul :: "int \<Rightarrow> int \<Rightarrow> int" where
  \<comment> \<open>The product of two \<^verbatim>\<open>int\<close>s as the 32-bit machine computes it: the mathematical
      product wrapped around into \<open>-2^31 .. 2^31 - 1\<close>. (C++ leaves a signed overflow
      undefined; the two's-complement result is taken.)\<close>
  "int32_mul a b = (a * b + 2147483648) mod 4294967296 - 2147483648"

record SplitInfo =
  \<comment> \<open>Modelled from the spec (section 3): the fields of \<^verbatim>\<open>SplitInfo\<close>; \<open>feature\<close> is the
      real feature index, \<open>num_cat_threshold\<close> is the length of \<open>cat_threshold\<close>.\<close>
  feature :: int
  threshold :: nat
  default_left :: bool
  gain :: score
  left_output :: real
  right_output :: real
  left_count :: int
  right_count :: int
  left_sum_gradient :: real
  left_sum_hessian :: real
  right_sum_gradient :: real
  right_sum_hessian :: real
  monotone_type :: int
  cat_threshold :: "nat list"

definition SplitInfo_new :: SplitInfo where
  \<comment> \<open>Modelled from the spec: a default-constructed \<^verbatim>\<open>SplitInfo\<close>; no feature, and the
      sentinel gain "no viable split".\<close>
  "SplitInfo_new = \<lparr>feature = -1, threshold = 0, default_left = True, gain = kMinScore,
     left_output = 0, right_output = 0, left_count = 0, right_count = 0,
     left_sum_gradient = 0, left_sum_hessian = 0, right_sum_gradient = 0,
     right_sum_hessian = 0, monotone_type = 0, cat_threshold = []\<rparr>"

definition SplitInfo_Reset :: "SplitInfo \<Rightarrow> SplitInfo" where
  \<comment> \<open>Modelled from the spec: \<^verbatim>\<open>SplitInfo::Reset\<close> returns the entry to "no viable split".\<close>
  "SplitInfo_Reset si = si\<lparr>feature := -1, gain := kMinScore\<rparr>"

definition SplitInfo_gt :: "SplitInfo \<Rightarrow> SplitInfo \<Rightarrow> bool" where
  \<comment> \<open>Modelled from the spec: \<^verbatim>\<open>SplitInfo::operator>\<close> is declared outside the source file.
      Section 4.5: strictly greater under the lexicographic order
      \<open>(gain, - feature_index, threshold)\<close>.\<close>
  "SplitInfo_gt a b =
     (if gain a \<noteq> gain b then gain a > gain b
      else if feature a \<noteq> feature b then feature a < feature b
      else threshold a > threshold b)"

fun ArgMax_scan :: "SplitInfo list \<Rightarrow> SplitInfo list \<Rightarrow> nat \<Rightarrow> nat \<Rightarrow> nat" where
  "ArgMax_scan array [] i cur = cur"
| "ArgMax_scan array (x # rest) i cur =
     ArgMax_scan array rest (Suc i) (if SplitInfo_gt x (array ! cur) then i else cur)"

definition ArgMax :: "SplitInfo list \<Rightarrow> nat" where
  \<comment> \<open>Modelled from the spec: \<^verbatim>\<open>ArrayArgs::ArgMax\<close> is declared outside the source file.
      A left-to-right scan from entry 1 that moves to an entry only when it is strictly
      greater than the current one, so the first of several greatest entries is
      returned (0 for an empty array).\<close>
  "ArgMax array = (case array of [] \<Rightarrow> 0 | x # rest \<Rightarrow> ArgMax_scan array rest 1 0)"

record Tree =
  \<comment> \<open>Modelled from the spec: the class \<^verbatim>\<open>Tree\<close> is an external collaborator. Kept are the
      attributes the learner reads and writes, per leaf id, and the list of the splits
      applied so far, as pairs (leaf that was split, real feature).\<close>
  tree_num_leaves :: int
  leaf_value :: "int \<Rightarrow> real"
  leaf_depth :: "int \<Rightarrow> int"
  shrinkage :: real
  tree_splits :: "(int \<times> int) list"

definition Tree_new :: "int \<Rightarrow> Tree" where
  \<comment> \<open>Modelled from the spec: \<^verbatim>\<open>new Tree(max_leaves)\<close>, a single root leaf of depth 0.\<close>
  "Tree_new max_leaves = \<lparr>tree_num_leaves = 1, leaf_value = (\<lambda>l. 0), leaf_depth = (\<lambda>l. 0),
     shrinkage = 1, tree_splits = []\<rparr>"

definition LeafOutput :: "Tree \<Rightarrow> int \<Rightarrow> real" where
  "LeafOutput t i = leaf_value t i"

definition SetLeafOutput :: "int \<Rightarrow> real \<Rightarrow> Tree \<Rightarrow> Tree" where
  "SetLeafOutput i v t = t\<lparr>leaf_value := (leaf_value t)(i := v)\<rparr>"

definition NextLeafId :: "Tree \<Rightarrow> int" where
  "NextLeafId t = tree_num_leaves t"

definition Tree_Split :: "Tree \<Rightarrow> int \<Rightarrow> int \<Rightarrow> real \<Rightarrow> real \<Rightarrow> int \<times> Tree" where
  \<comment> \<open>Modelled from the spec (section 3): splitting leaf \<open>p\<close> of a tree with \<open>k\<close> leaves
      creates leaf \<open>k\<close>; the left child keeps the id \<open>p\<close>, the right child is \<open>k\<close>, and the
      call returns \<open>k\<close>. \<^verbatim>\<open>Tree::Split\<close> and \<^verbatim>\<open>Tree::SplitCategorical\<close> act alike on the
      attributes kept here. Nothing in the spec bounds \<open>k\<close> inside the tree.\<close>
  "Tree_Split t leaf real_feature left_value right_value =
     (let new_leaf = tree_num_leaves t; depth = leaf_depth t leaf + 1
      in (new_leaf,
          t\<lparr>tree_num_leaves := tree_num_leaves t + 1,
            leaf_value := (leaf_value t)(leaf := left_value, new_leaf := right_value),
            leaf_depth := (leaf_depth t)(leaf := depth, new_leaf := depth),
            tree_splits := tree_splits t @ [(leaf, real_feature)]\<rparr>))"

record DataPartition =
  \<comment> \<open>Modelled from the spec: \<^verbatim>\<open>DataPartition\<close> maps a leaf id to its run of example
      indices; the count of a leaf is the length of its run. \<open>used_data_indices\<close> is
      the bagged subset, when there is one.\<close>
  dp_num_data :: int
  dp_num_leaves :: int
  leaf_run :: "int \<Rightarrow> nat list"
  used_data_indices :: "nat list option"

definition GetIndexOnLeaf :: "DataPartition \<Rightarrow> int \<Rightarrow> nat list" where
  "GetIndexOnLeaf dp leaf = leaf_run dp leaf"

definition leaf_count :: "DataPartition \<Rightarrow> int \<Rightarrow> int" where
  "leaf_count dp leaf = int (length (leaf_run dp leaf))"

definition DataPartition_Init :: "DataPartition \<Rightarrow> DataPartition" where
  \<comment> \<open>Modelled from the spec: every example (or every bagged example) is in leaf 0.\<close>
  "DataPartition_Init dp =
     dp\<lparr>leaf_run := (\<lambda>l. if l = 0
        then (case used_data_indices dp of None \<Rightarrow> [0 ..< nat (dp_num_data dp)] | Some used \<Rightarrow> used)
        else [])\<rparr>"

definition ResetLeaves :: "int \<Rightarrow> DataPartition \<Rightarrow> DataPartition" where
  \<comment> \<open>Modelled from the spec: the per-leaf arrays are resized to the new number of leaves.\<close>
  "ResetLeaves n dp = dp\<lparr>dp_num_leaves := n, leaf_run := (\<lambda>l. if l < n then leaf_run dp l else [])\<rparr>"

definition DataPartition_Split ::
  "DataPartition \<Rightarrow> int \<Rightarrow> (nat \<Rightarrow> bool) \<Rightarrow> int \<Rightarrow> DataPartition" where
  \<comment> \<open>Modelled from the spec (section 4.2): the run of \<open>leaf\<close> is divided; the indices
      that go left stay under \<open>leaf\<close>, the others are keyed under the new leaf id.\<close>
  "DataPartition_Split dp leaf goes_to_left new_leaf =
     dp\<lparr>leaf_run := (leaf_run dp)
        (leaf := filter goes_to_left (leaf_run dp leaf),
         new_leaf := filter (\<lambda>i. \<not> goes_to_left i) (leaf_run dp leaf))\<rparr>"

record LeafSplits =
  \<comment> \<open>Modelled from the spec (section 3): leaf id or \<open>-1\<close>, the count, the two sums, and
      the indices of the leaf's examples.\<close>
  leaf_index :: int
  num_data_in_leaf :: int
  sum_gradients :: real
  sum_hessians :: real
  data_indices :: "nat list"

definition LeafSplits_Init_none :: "LeafSplits \<Rightarrow> LeafSplits" where
  \<comment> \<open>\<^verbatim>\<open>Init()\<close>: no leaf.\<close>
  "LeafSplits_Init_none ls = ls\<lparr>leaf_index := -1, data_indices := []\<rparr>"

definition LeafSplits_Init_leaf ::
  "int \<Rightarrow> DataPartition \<Rightarrow> (nat \<Rightarrow> real) \<Rightarrow> (nat \<Rightarrow> real) \<Rightarrow> LeafSplits \<Rightarrow> LeafSplits" where
  \<comment> \<open>\<^verbatim>\<open>Init(leaf, data_partition, gradients, hessians)\<close>: the sums are taken over the run
      of the leaf. \<^verbatim>\<open>Init(gradients, hessians)\<close> is this for the whole root.\<close>
  "LeafSplits_Init_leaf leaf dp g h ls =
     \<lparr>leaf_index = leaf, num_data_in_leaf = leaf_count dp leaf,
      sum_gradients = sum_list (map g (leaf_run dp leaf)),
      sum_hessians = sum_list (map h (leaf_run dp leaf)),
      data_indices = leaf_run dp leaf\<rparr>"

definition LeafSplits_Init_sums ::
  "int \<Rightarrow> DataPartition \<Rightarrow> real \<Rightarrow> real \<Rightarrow> LeafSplits \<Rightarrow> LeafSplits" where
  \<comment> \<open>\<^verbatim>\<open>Init(leaf, data_partition, sum_gradients, sum_hessians)\<close>: the sums are given.\<close>
  "LeafSplits_Init_sums leaf dp sum_g sum_h ls =
     \<lparr>leaf_index = leaf, num_data_in_leaf = leaf_count dp leaf,
      sum_gradients = sum_g, sum_hessians = sum_h, data_indices = leaf_run dp leaf\<rparr>"

type_synonym hist_entry = "real \<times> real \<times> int"

record FeatureHistogram =
  \<comment> \<open>Modelled from the spec (section 3): per bin the triple (sum of gradients, sum of
      hessians, count), and the flag "splittable". The two sentinel bins hold no
      example and are left out.\<close>
  hist_data :: "hist_entry list"
  is_splittable :: bool

definition hist_sub :: "hist_entry \<Rightarrow> hist_entry \<Rightarrow> hist_entry" where
  "hist_sub a b = (fst a - fst b, fst (snd a) - fst (snd b), snd (snd a) - snd (snd b))"

definition Subtract :: "FeatureHistogram \<Rightarrow> FeatureHistogram \<Rightarrow> FeatureHistogram" where
  \<comment> \<open>Modelled from the spec (glossary, subtract trick): \<^verbatim>\<open>FeatureHistogram::Subtract\<close>
      subtracts the other histogram bin by bin, in place.\<close>
  "Subtract this other = this\<lparr>hist_data := map2 hist_sub (hist_data this) (hist_data other)\<rparr>"

type_synonym ConstraintEntry = "real option \<times> real option"

datatype CostEfficientGradientBoosting = CEGB "bool list"

type_synonym Random = nat

record HistogramPool =
  \<comment> \<open>Modelled from the spec (sections 3, 4.1, 9): an arena of \<open>cache_size\<close> buffers, each
      an array of histograms over the features; \<open>slot_leaf\<close> gives the leaf a buffer is
      bound to (\<open>-1\<close>: none), \<open>last_used_time\<close> orders the buffers by recency.\<close>
  cache_size :: int
  total_size :: int
  pool_config :: Config
  slots :: "FeatureHistogram list list"
  slot_leaf :: "int list"
  last_used_time :: "nat list"
  cur_time :: nat

record SerialTreeLearner =
  config_' :: Config
  num_data_' :: int
  num_features_' :: int
  gradients_' :: "nat \<Rightarrow> real"
  hessians_' :: "nat \<Rightarrow> real"
  is_constant_hessian_' :: bool
  random_' :: Random
  is_feature_used_' :: "bool list"
  used_feature_indices_' :: "int list"
  valid_feature_indices_' :: "int list"
  histogram_pool_' :: HistogramPool
  parent_leaf_histogram_array_' :: "nat option"
  smaller_leaf_histogram_array_' :: "nat option"
  larger_leaf_histogram_array_' :: "nat option"
  best_split_per_leaf_' :: "SplitInfo list"
  constraints_' :: "int \<Rightarrow> ConstraintEntry"
  smaller_leaf_splits_' :: LeafSplits
  larger_leaf_splits_' :: LeafSplits
  data_partition_' :: DataPartition
  cegb_' :: "CostEfficientGradientBoosting option"

subsection \<open>The collaborators the source file calls\<close>

text \<open>
  The dataset, the threshold search of a feature histogram, the sampler, the
  cost-efficient boosting hooks, the constraint update and the thread of a loop
  iteration are not in the source file. They are the fields of \<open>Env\<close>; no property below
  unfolds them, and a property that needs a contract of one states it as a premise.
  The three histogram pointers of the learner are handles into the arena of the pool.
\<close>

record Env =
  kHistEntrySize :: nat
  FeatureNumBin :: "nat \<Rightarrow> nat"
  InnerFeatureIndex :: "int \<Rightarrow> int"
  RealFeatureIndex :: "nat \<Rightarrow> int"
  is_numerical_bin :: "int \<Rightarrow> bool"
  BinThreshold :: "int \<Rightarrow> real \<Rightarrow> nat"
  RealThreshold :: "int \<Rightarrow> nat \<Rightarrow> real"
  feature_bin :: "nat \<Rightarrow> nat \<Rightarrow> nat"
  goes_left :: "int \<Rightarrow> nat list \<Rightarrow> bool \<Rightarrow> nat \<Rightarrow> bool"
  FixHistogram :: "nat \<Rightarrow> real \<Rightarrow> real \<Rightarrow> hist_entry list \<Rightarrow> hist_entry list"
  FindBestThreshold ::
    "nat \<Rightarrow> FeatureHistogram \<Rightarrow> real \<Rightarrow> real \<Rightarrow> int \<Rightarrow> ConstraintEntry \<Rightarrow> SplitInfo \<times> bool"
  GatherInfoForThreshold ::
    "int \<Rightarrow> FeatureHistogram \<Rightarrow> real \<Rightarrow> real \<Rightarrow> nat \<Rightarrow> int \<Rightarrow> SplitInfo"
  ConstructBitset :: "nat list \<Rightarrow> nat list"
  Sample :: "Random \<Rightarrow> int \<Rightarrow> int \<Rightarrow> int list \<times> Random"
  IsEnable :: "Config \<Rightarrow> bool"
  cegb_Init :: "SerialTreeLearner \<Rightarrow> CostEfficientGradientBoosting"
  DetlaGain :: "CostEfficientGradientBoosting \<Rightarrow> nat \<Rightarrow> int \<Rightarrow> int \<Rightarrow> int \<Rightarrow> SplitInfo \<Rightarrow> real"
  UpdateLeafBestSplits ::
    "CostEfficientGradientBoosting \<Rightarrow> Tree \<Rightarrow> int \<Rightarrow> SplitInfo list
      \<Rightarrow> SplitInfo list \<times> CostEfficientGradientBoosting"
  UpdateConstraints ::
    "bool \<Rightarrow> int \<Rightarrow> int \<Rightarrow> int \<Rightarrow> real \<Rightarrow> real \<Rightarrow> (int \<Rightarrow> ConstraintEntry) \<Rightarrow> (int \<Rightarrow> ConstraintEntry)"
  omp_num_threads :: nat
  omp_get_thread_num :: "nat \<Rightarrow> nat"

subsection \<open>The histogram pool\<close>

text \<open>
  Modelled from the spec (section 4.1): \<^verbatim>\<open>HistogramPool\<close> is declared outside the source
  file. \<^verbatim>\<open>Get\<close> returns the buffer bound to the leaf and whether it was bound already; an
  unbound leaf takes the least recently used buffer (a buffer never used is the least
  recent), whose former leaf loses it. \<^verbatim>\<open>Move\<close> rebinds the buffer of \<open>src\<close> to \<open>dst\<close>
  without touching its content. \<^verbatim>\<open>ResetMap\<close> drops the bindings and keeps the buffers.
\<close>

fun find_slot :: "int list \<Rightarrow> int \<Rightarrow> nat \<Rightarrow> nat option" where
  "find_slot [] leaf i = None"
| "find_slot (l # rest) leaf i = (if l = leaf then Some i else find_slot rest leaf (Suc i))"

fun ArgMin_scan :: "nat list \<Rightarrow> nat list \<Rightarrow> nat \<Rightarrow> nat \<Rightarrow> nat" where
  "ArgMin_scan array [] i cur = cur"
| "ArgMin_scan array (x # rest) i cur =
     ArgMin_scan array rest (Suc i) (if x < array ! cur then i else cur)"

definition ArgMin :: "nat list \<Rightarrow> nat" where
  "ArgMin array = (case array of [] \<Rightarrow> 0 | x # rest \<Rightarrow> ArgMin_scan array rest 1 0)"

definition touch :: "nat \<Rightarrow> HistogramPool \<Rightarrow> HistogramPool" where
  "touch slot p = p\<lparr>last_used_time := (last_used_time p)[slot := Suc (cur_time p)],
                    cur_time := Suc (cur_time p)\<rparr>"

definition HistogramPool_Get :: "HistogramPool \<Rightarrow> int \<Rightarrow> nat \<times> bool \<times> HistogramPool" where
  "HistogramPool_Get p idx =
     (case find_slot (slot_leaf p) idx 0 of
        Some slot \<Rightarrow> (slot, True, touch slot p)
      | None \<Rightarrow>
          (let slot = ArgMin (last_used_time p)
           in (slot, False, touch slot (p\<lparr>slot_leaf := (slot_leaf p)[slot := idx]\<rparr>))))"

definition HistogramPool_Move :: "HistogramPool \<Rightarrow> int \<Rightarrow> int \<Rightarrow> HistogramPool" where
  "HistogramPool_Move p src_idx dst_idx =
     (case find_slot (slot_leaf p) src_idx 0 of
        None \<Rightarrow> p
      | Some slot \<Rightarrow>
          touch slot (p\<lparr>slot_leaf :=
            (map (\<lambda>l. if l = dst_idx then - 1 else l) (slot_leaf p))[slot := dst_idx]\<rparr>))"

definition ResetMap :: "HistogramPool \<Rightarrow> HistogramPool" where
  "ResetMap p = p\<lparr>slot_leaf := map (\<lambda>l. - 1) (slot_leaf p),
                  last_used_time := map (\<lambda>t. 0) (last_used_time p), cur_time := 0\<rparr>"

definition new_histogram_array :: "Env \<Rightarrow> int \<Rightarrow> FeatureHistogram list" where
  "new_histogram_array env nf =
     map (\<lambda>f. \<lparr>hist_data = replicate (FeatureNumBin env f) (0, 0, 0), is_splittable = True\<rparr>)
       [0 ..< nat nf]"

definition DynamicChangeSize :: "Env \<Rightarrow> int \<Rightarrow> Config \<Rightarrow> int \<Rightarrow> int \<Rightarrow> HistogramPool \<Rightarrow> HistogramPool" where
  \<comment> \<open>Modelled from the spec (section 4.1): the capacity becomes \<open>cache_size\<close>, with fresh
      buffers and no binding.\<close>
  "DynamicChangeSize env nf cfg cache num_total p =
     \<lparr>cache_size = cache, total_size = num_total, pool_config = cfg,
      slots = replicate (nat cache) (new_histogram_array env nf),
      slot_leaf = replicate (nat cache) (- 1),
      last_used_time = replicate (nat cache) 0, cur_time = 0\<rparr>"

definition HistogramPool_ResetConfig :: "Config \<Rightarrow> HistogramPool \<Rightarrow> HistogramPool" where
  \<comment> \<open>Modelled from the spec: \<^verbatim>\<open>HistogramPool::ResetConfig\<close> is declared outside the source
      file; the pool takes the new configuration.\<close>
  "HistogramPool_ResetConfig cfg p = p\<lparr>pool_config := cfg\<rparr>"

subsection \<open>Leaf outputs\<close>

definition ThresholdL1 :: "real \<Rightarrow> real \<Rightarrow> real" where
  "ThresholdL1 s l1 = sgn s * max 0 (\<bar>s\<bar> - l1)"

definition CalculateSplittedLeafOutput :: "real \<Rightarrow> real \<Rightarrow> real \<Rightarrow> real \<Rightarrow> real \<Rightarrow> real" where
  \<comment> \<open>Modelled from the spec: \<^verbatim>\<open>FeatureHistogram::CalculateSplittedLeafOutput\<close> is not in
      the source file. It is the leaf output that attains the spec's regularised score
      \<open>max(|G| - l1, 0)^2 / (H + l2)\<close>, clipped to \<open>max_delta_step\<close> when that is positive.\<close>
  "CalculateSplittedLeafOutput sum_g sum_h l1 l2 mds =
     (let ret = - ThresholdL1 sum_g l1 / (sum_h + l2)
      in if mds \<le> 0 \<or> \<bar>ret\<bar> \<le> mds then ret else sgn ret * mds)"

subsection \<open>FitByExistingTree\<close>

text \<open>
  The inner loop of \<^verbatim>\<open>FitByExistingTree\<close>: \<^verbatim>\<open>sum_grad\<close> starts at \<open>0\<close>, \<^verbatim>\<open>sum_hess\<close> at
  \<^verbatim>\<open>kEpsilon\<close>, and every index of the leaf adds its gradient and hessian.
\<close>

fun accumulate_leaf :: "(nat \<Rightarrow> real) \<Rightarrow> (nat \<Rightarrow> real) \<Rightarrow> nat list \<Rightarrow> real \<times> real \<Rightarrow> real \<times> real" where
  "accumulate_leaf gradients hessians [] acc = acc"
| "accumulate_leaf gradients hessians (idx # rest) (sum_grad, sum_hess) =
     accumulate_leaf gradients hessians rest (sum_grad + gradients idx, sum_hess + hessians idx)"

definition leaf_sums :: "(nat \<Rightarrow> real) \<Rightarrow> (nat \<Rightarrow> real) \<Rightarrow> nat list \<Rightarrow> real \<times> real" where
  "leaf_sums gradients hessians tmp_idx = accumulate_leaf gradients hessians tmp_idx (0, kEpsilon)"

definition refit_leaf :: "SerialTreeLearner \<Rightarrow> (nat \<Rightarrow> real) \<Rightarrow> (nat \<Rightarrow> real) \<Rightarrow> int \<Rightarrow> Tree \<Rightarrow> Tree" where
  "refit_leaf s gradients hessians i tree =
     (let (sum_grad, sum_hess) = leaf_sums gradients hessians (GetIndexOnLeaf (data_partition_' s) i);
          output = CalculateSplittedLeafOutput sum_grad sum_hess
                     (lambda_l1 (config_' s)) (lambda_l2 (config_' s)) (max_delta_step (config_' s));
          old_leaf_output = LeafOutput tree i;
          new_leaf_output = output * shrinkage tree
      in SetLeafOutput i (refit_decay_rate (config_' s) * old_leaf_output
                          + (1 - refit_decay_rate (config_' s)) * new_leaf_output) tree)"

text \<open>
  The loop over the leaves \<open>0 .. num_leaves - 1\<close>. Each iteration writes the output of its
  own leaf only, so the parallel loop is the sequential one.
\<close>

fun refit_leaves :: "SerialTreeLearner \<Rightarrow> (nat \<Rightarrow> real) \<Rightarrow> (nat \<Rightarrow> real) \<Rightarrow> int list \<Rightarrow> Tree \<Rightarrow> Tree" where
  "refit_leaves s gradients hessians [] tree = tree"
| "refit_leaves s gradients hessians (i # rest) tree =
     refit_leaves s gradients hessians rest (refit_leaf s gradients hessians i tree)"

definition FitByExistingTree ::
  "SerialTreeLearner \<Rightarrow> Tree \<Rightarrow> (nat \<Rightarrow> real) \<Rightarrow> (nat \<Rightarrow> real) \<Rightarrow> error + Tree" where
  "FitByExistingTree s old_tree gradients hessians =
     (if \<not> (dp_num_leaves (data_partition_' s) \<ge> tree_num_leaves old_tree) then Inl CheckFailed
      else Inr (refit_leaves s gradients hessians [0 .. tree_num_leaves old_tree - 1] old_tree))"

definition refit_output :: "SerialTreeLearner \<Rightarrow> Tree \<Rightarrow> (nat \<Rightarrow> real) \<Rightarrow> (nat \<Rightarrow> real) \<Rightarrow> real \<Rightarrow> int \<Rightarrow> real" where
  \<comment> \<open>The refit formula of the specification, with an offset \<open>eps\<close> added to the hessian
      sum of the leaf.\<close>
  "refit_output s old_tree gradients hessians eps l =
     refit_decay_rate (config_' s) * LeafOutput old_tree l
     + (1 - refit_decay_rate (config_' s)) * (shrinkage old_tree
        * CalculateSplittedLeafOutput
            (sum_list (map gradients (GetIndexOnLeaf (data_partition_' s) l)))
            (eps + sum_list (map hessians (GetIndexOnLeaf (data_partition_' s) l)))
            (lambda_l1 (config_' s)) (lambda_l2 (config_' s)) (max_delta_step (config_' s)))"

subsection \<open>GetUsedFeatures\<close>

definition cpp_round :: "real \<Rightarrow> int" where
  \<comment> \<open>\<^verbatim>\<open>std::round\<close>: to the nearest integer, halves away from zero.\<close>
  "cpp_round x = (if 0 \<le> x then \<lfloor>x + 1 / 2\<rfloor> else - \<lfloor>- x + 1 / 2\<rfloor>)"

text \<open>
  The three marking loops: each sampled position is mapped to a feature of
  \<^verbatim>\<open>valid_feature_indices_\<close>, the inner index of that feature is checked to be non-negative
  and its entry of the mask is set. The mask \<^verbatim>\<open>std::vector<int8_t>\<close> holds 0 and 1 only and
  is a list of booleans.
\<close>

fun mark_features :: "Env \<Rightarrow> int list \<Rightarrow> bool list \<Rightarrow> error + bool list" where
  "mark_features env [] ret = Inr ret"
| "mark_features env (used_feature # rest) ret =
     (let inner_feature_index = InnerFeatureIndex env used_feature
      in if \<not> (inner_feature_index \<ge> 0) then Inl CheckFailed
         else mark_features env rest (ret[nat inner_feature_index := True]))"

definition GetUsedFeatures ::
  "Env \<Rightarrow> SerialTreeLearner \<Rightarrow> bool \<Rightarrow> error + (bool list \<times> SerialTreeLearner)" where
  "GetUsedFeatures env s is_tree_level =
     (let ret = replicate (nat (num_features_' s)) True;
          valid = valid_feature_indices_' s
      in if feature_fraction (config_' s) \<ge> 1 \<and> is_tree_level then Inr (ret, s)
         else if feature_fraction_bynode (config_' s) \<ge> 1 \<and> \<not> is_tree_level then Inr (ret, s)
         else
          (let ret = replicate (nat (num_features_' s)) False;
               min_used_features = min 2 (int (length valid))
           in if is_tree_level then
                (let used_feature_cnt =
                       max (cpp_round (real (length valid) * feature_fraction (config_' s)))
                           min_used_features;
                     (sampled, rnd) = Sample env (random_' s) (int (length valid)) used_feature_cnt;
                     s = s\<lparr>random_' := rnd, used_feature_indices_' := sampled\<rparr>
                 in case mark_features env
                           (map (\<lambda>i. valid ! nat i) (used_feature_indices_' s)) ret of
                      Inl e \<Rightarrow> Inl e
                    | Inr ret \<Rightarrow> Inr (ret, s))
              else if length (used_feature_indices_' s) \<le> 0 then
                (let used_feature_cnt =
                       max (cpp_round (real (length valid) * feature_fraction_bynode (config_' s)))
                           min_used_features;
                     (sampled_indices, rnd) =
                       Sample env (random_' s) (int (length valid)) used_feature_cnt;
                     s = s\<lparr>random_' := rnd\<rparr>
                 in case mark_features env (map (\<lambda>i. valid ! nat i) sampled_indices) ret of
                      Inl e \<Rightarrow> Inl e
                    | Inr ret \<Rightarrow> Inr (ret, s))
              else
                (let used_feature_cnt =
                       max (cpp_round (real (length (used_feature_indices_' s))
                                        * feature_fraction_bynode (config_' s)))
                           min_used_features;
                     (sampled_indices, rnd) =
                       Sample env (random_' s) (int (length (used_feature_indices_' s)))
                         used_feature_cnt;
                     ufi = used_feature_indices_' s;
                     s = s\<lparr>random_' := rnd\<rparr>
                 in case mark_features env
                           (map (\<lambda>i. valid ! nat (ufi ! nat i)) sampled_indices) ret of
                      Inl e \<Rightarrow> Inl e
                    | Inr ret \<Rightarrow> Inr (ret, s))))"

definition num_marked :: "bool list \<Rightarrow> nat" where
  \<comment> \<open>The number of features a mask marks as used.\<close>
  "num_marked ret = length (filter (\<lambda>b. b) ret)"

subsection \<open>ResetConfig\<close>

definition cpp_trunc :: "real \<Rightarrow> int" where
  \<comment> \<open>\<^verbatim>\<open>static_cast<int>\<close> of a double: towards zero.\<close>
  "cpp_trunc x = (if 0 \<le> x then \<lfloor>x\<rfloor> else \<lceil>x\<rceil>)"

definition pool_max_cache_size :: "Env \<Rightarrow> SerialTreeLearner \<Rightarrow> Config \<Rightarrow> int" where
  \<comment> \<open>The computation of \<^verbatim>\<open>max_cache_size\<close>, shared by \<^verbatim>\<open>Init\<close> and \<^verbatim>\<open>ResetConfig\<close>.\<close>
  "pool_max_cache_size env s cfg =
     (let max_cache_size =
            (if histogram_pool_size cfg \<le> 0 then num_leaves cfg
             else (let total_histogram_size =
                         (\<Sum>i \<leftarrow> [0 ..< nat (num_features_' s)]. kHistEntrySize env * FeatureNumBin env i)
                   in cpp_trunc (histogram_pool_size cfg * 1024 * 1024 / real total_histogram_size)));
          max_cache_size = max 2 max_cache_size
      in min max_cache_size (num_leaves cfg))"

definition resize :: "nat \<Rightarrow> 'a \<Rightarrow> 'a list \<Rightarrow> 'a list" where
  \<comment> \<open>\<^verbatim>\<open>std::vector::resize\<close>.\<close>
  "resize n x xs = take n xs @ replicate (n - length xs) x"

definition ResetConfig :: "Env \<Rightarrow> SerialTreeLearner \<Rightarrow> Config \<Rightarrow> SerialTreeLearner" where
  "ResetConfig env s cfg =
     (let s =
        (if num_leaves (config_' s) \<noteq> num_leaves cfg then
           (let s = s\<lparr>config_' := cfg\<rparr>;
                max_cache_size = pool_max_cache_size env s cfg;
                s = s\<lparr>histogram_pool_' :=
                      DynamicChangeSize env (num_features_' s) (config_' s) max_cache_size
                        (num_leaves (config_' s)) (histogram_pool_' s)\<rparr>;
                s = s\<lparr>best_split_per_leaf_' :=
                      resize (nat (num_leaves (config_' s))) SplitInfo_new (best_split_per_leaf_' s)\<rparr>
            in s\<lparr>data_partition_' := ResetLeaves (num_leaves (config_' s)) (data_partition_' s)\<rparr>)
         else s\<lparr>config_' := cfg\<rparr>);
          s = s\<lparr>histogram_pool_' := HistogramPool_ResetConfig (config_' s) (histogram_pool_' s)\<rparr>
      in if IsEnable env (config_' s) then s\<lparr>cegb_' := Some (cegb_Init env s)\<rparr> else s)"

subsection \<open>Histograms of a leaf\<close>

definition get_hist :: "SerialTreeLearner \<Rightarrow> nat \<Rightarrow> nat \<Rightarrow> FeatureHistogram" where
  \<comment> \<open>\<^verbatim>\<open>histogram_array[feature_index]\<close>, the array being the buffer \<open>slot\<close> of the pool.\<close>
  "get_hist s slot f = slots (histogram_pool_' s) ! slot ! f"

definition set_hist :: "nat \<Rightarrow> nat \<Rightarrow> FeatureHistogram \<Rightarrow> SerialTreeLearner \<Rightarrow> SerialTreeLearner" where
  "set_hist slot f fh s =
     s\<lparr>histogram_pool_' := (histogram_pool_' s)
          \<lparr>slots := (slots (histogram_pool_' s))
             [slot := (slots (histogram_pool_' s) ! slot)[f := fh]]\<rparr>\<rparr>"

definition construct_bin ::
  "Env \<Rightarrow> (nat \<Rightarrow> real) \<Rightarrow> (nat \<Rightarrow> real) \<Rightarrow> nat list \<Rightarrow> nat \<Rightarrow> nat \<Rightarrow> hist_entry" where
  "construct_bin env g h idx f b =
     (let members = filter (\<lambda>i. feature_bin env f i = b) idx
      in (sum_list (map g members), sum_list (map h members), int (length members)))"

definition construct_feature ::
  "Env \<Rightarrow> (nat \<Rightarrow> real) \<Rightarrow> (nat \<Rightarrow> real) \<Rightarrow> nat list \<Rightarrow> nat \<Rightarrow> hist_entry list" where
  \<comment> \<open>Modelled from the spec (section 3): the histogram of feature \<open>f\<close> built from scratch
      over the examples \<open>idx\<close>: per bin the sums of the gradients and hessians and the
      count of the examples of \<open>idx\<close> in that bin.\<close>
  "construct_feature env g h idx f = map (construct_bin env g h idx f) [0 ..< FeatureNumBin env f]"

definition Dataset_ConstructHistograms ::
  "Env \<Rightarrow> bool list \<Rightarrow> nat list \<Rightarrow> (nat \<Rightarrow> real) \<Rightarrow> (nat \<Rightarrow> real)
    \<Rightarrow> FeatureHistogram list \<Rightarrow> FeatureHistogram list" where
  \<comment> \<open>Modelled from the spec: \<^verbatim>\<open>Dataset::ConstructHistograms\<close> is not in the source file. It
      fills the histograms of the features of the mask and leaves the others alone.\<close>
  "Dataset_ConstructHistograms env is_feature_used idx g h hist_array =
     map (\<lambda>(f, fh). if f < length is_feature_used \<and> is_feature_used ! f
                      then fh\<lparr>hist_data := construct_feature env g h idx f\<rparr> else fh)
       (zip [0 ..< length hist_array] hist_array)"

definition construct_leaf ::
  "Env \<Rightarrow> bool list \<Rightarrow> LeafSplits \<Rightarrow> nat \<Rightarrow> SerialTreeLearner \<Rightarrow> SerialTreeLearner" where
  "construct_leaf env is_feature_used ls slot s =
     s\<lparr>histogram_pool_' := (histogram_pool_' s)
          \<lparr>slots := (slots (histogram_pool_' s))
             [slot := Dataset_ConstructHistograms env is_feature_used
                        (take (nat (num_data_in_leaf ls)) (data_indices ls))
                        (gradients_' s) (hessians_' s) (slots (histogram_pool_' s) ! slot)]\<rparr>\<rparr>"

definition ConstructHistograms ::
  "Env \<Rightarrow> SerialTreeLearner \<Rightarrow> bool list \<Rightarrow> bool \<Rightarrow> error + SerialTreeLearner" where
  "ConstructHistograms env s is_feature_used use_subtract =
     (case smaller_leaf_histogram_array_' s of
        None \<Rightarrow> Inl NullPointer
      | Some smaller \<Rightarrow>
          (let s = construct_leaf env is_feature_used (smaller_leaf_splits_' s) smaller s
           in case larger_leaf_histogram_array_' s of
                None \<Rightarrow> Inr s
              | Some larger \<Rightarrow>
                  if \<not> use_subtract
                  then Inr (construct_leaf env is_feature_used (larger_leaf_splits_' s) larger s)
                  else Inr s))"

subsection \<open>ComputeBestSplitForFeature\<close>

definition candidate_split ::
  "Env \<Rightarrow> SerialTreeLearner \<Rightarrow> nat \<Rightarrow> nat \<Rightarrow> int \<Rightarrow> int \<Rightarrow> LeafSplits \<Rightarrow> SplitInfo" where
  \<comment> \<open>\<^verbatim>\<open>new_split\<close> as it is when it is compared with \<^verbatim>\<open>*best_split\<close>: the result of the
      threshold search, with the real feature index and the cost adjustment of the gain.\<close>
  "candidate_split env s histogram_array feature_index real_fidx num_data leaf_splits =
     (let new_split = fst (FindBestThreshold env feature_index
                             (get_hist s histogram_array feature_index)
                             (sum_gradients leaf_splits) (sum_hessians leaf_splits) num_data
                             (constraints_' s (leaf_index leaf_splits)));
          new_split = new_split\<lparr>feature := real_fidx\<rparr>
      in case cegb_' s of
           None \<Rightarrow> new_split
         | Some c \<Rightarrow> new_split\<lparr>gain := map_option
             (\<lambda>g. g - DetlaGain env c feature_index real_fidx (leaf_index leaf_splits) num_data new_split)
             (gain new_split)\<rparr>)"

definition ComputeBestSplitForFeature ::
  "Env \<Rightarrow> SerialTreeLearner \<Rightarrow> nat \<Rightarrow> nat \<Rightarrow> int \<Rightarrow> bool \<Rightarrow> int \<Rightarrow> LeafSplits \<Rightarrow> SplitInfo
    \<Rightarrow> SerialTreeLearner \<times> SplitInfo" where
  "ComputeBestSplitForFeature env s histogram_array feature_index real_fidx is_feature_used
       num_data leaf_splits best_split =
     (if \<not> is_feature_used then (s, best_split)
      else
        (let new_split = candidate_split env s histogram_array feature_index real_fidx num_data
                           leaf_splits;
             splittable = snd (FindBestThreshold env feature_index
                             (get_hist s histogram_array feature_index)
                             (sum_gradients leaf_splits) (sum_hessians leaf_splits) num_data
                             (constraints_' s (leaf_index leaf_splits)));
             s = set_hist histogram_array feature_index
                   ((get_hist s histogram_array feature_index)\<lparr>is_splittable := splittable\<rparr>) s
         in (s, if SplitInfo_gt new_split best_split then new_split else best_split)))"

subsection \<open>FindBestSplits\<close>

text \<open>
  The first loop of \<^verbatim>\<open>FindBestSplits\<close>: the mask of the features to evaluate. A feature
  the parent could not split is dropped, and marked unsplittable in the smaller leaf.
\<close>

fun features_to_evaluate ::
  "nat list \<Rightarrow> bool list \<times> SerialTreeLearner \<Rightarrow> error + (bool list \<times> SerialTreeLearner)" where
  "features_to_evaluate [] (is_feature_used, s) = Inr (is_feature_used, s)"
| "features_to_evaluate (feature_index # rest) (is_feature_used, s) =
     (if \<not> is_feature_used_' s ! feature_index
      then features_to_evaluate rest (is_feature_used, s)
      else
        (case parent_leaf_histogram_array_' s of
           None \<Rightarrow> features_to_evaluate rest (is_feature_used[feature_index := True], s)
         | Some parent \<Rightarrow>
             if \<not> is_splittable (get_hist s parent feature_index)
             then (case smaller_leaf_histogram_array_' s of
                     None \<Rightarrow> Inl NullPointer
                   | Some smaller \<Rightarrow>
                       features_to_evaluate rest
                         (is_feature_used,
                          set_hist smaller feature_index
                            ((get_hist s smaller feature_index)\<lparr>is_splittable := False\<rparr>) s))
             else features_to_evaluate rest (is_feature_used[feature_index := True], s)))"

text \<open>
  One iteration of the loop of \<^verbatim>\<open>FindBestSplitsFromHistograms\<close>. The thread \<open>tid\<close> of the
  iteration owns the entry \<open>tid\<close> of the two arrays of bests, and the iteration reads and
  writes the histograms of its own feature only.
\<close>

definition find_splits_iteration ::
  "Env \<Rightarrow> bool \<Rightarrow> bool list \<Rightarrow> bool list \<Rightarrow> bool list \<Rightarrow> nat
    \<Rightarrow> SerialTreeLearner \<times> SplitInfo list \<times> SplitInfo list
    \<Rightarrow> error + (SerialTreeLearner \<times> SplitInfo list \<times> SplitInfo list)" where
  "find_splits_iteration env use_subtract is_feature_used smaller_node_used_features
       larger_node_used_features feature_index st =
     (let (s, smaller_best, larger_best) = st
      in if \<not> is_feature_used ! feature_index then Inr st
         else
          (case smaller_leaf_histogram_array_' s of
             None \<Rightarrow> Inl NullPointer
           | Some smaller \<Rightarrow>
              (let tid = omp_get_thread_num env feature_index;
                   fixed = FixHistogram env feature_index
                             (sum_gradients (smaller_leaf_splits_' s))
                             (sum_hessians (smaller_leaf_splits_' s))
                             (hist_data (get_hist s smaller feature_index));
                   s = set_hist smaller feature_index
                         ((get_hist s smaller feature_index)\<lparr>hist_data := fixed\<rparr>) s;
                   real_fidx = RealFeatureIndex env feature_index;
                   (s, best) = ComputeBestSplitForFeature env s smaller feature_index real_fidx
                                 (smaller_node_used_features ! feature_index)
                                 (num_data_in_leaf (smaller_leaf_splits_' s))
                                 (smaller_leaf_splits_' s) (smaller_best ! tid);
                   smaller_best = smaller_best[tid := best]
               in if leaf_index (larger_leaf_splits_' s) < 0 then Inr (s, smaller_best, larger_best)
                  else
                   (case larger_leaf_histogram_array_' s of
                      None \<Rightarrow> Inl NullPointer
                    | Some larger \<Rightarrow>
                       (let s = (if use_subtract
                                 then set_hist larger feature_index
                                        (Subtract (get_hist s larger feature_index)
                                                  (get_hist s smaller feature_index)) s
                                 else set_hist larger feature_index
                                        ((get_hist s larger feature_index)\<lparr>hist_data :=
                                           FixHistogram env feature_index
                                             (sum_gradients (larger_leaf_splits_' s))
                                             (sum_hessians (larger_leaf_splits_' s))
                                             (hist_data (get_hist s larger feature_index))\<rparr>) s);
                            (s, best) = ComputeBestSplitForFeature env s larger feature_index real_fidx
                                          (larger_node_used_features ! feature_index)
                                          (num_data_in_leaf (larger_leaf_splits_' s))
                                          (larger_leaf_splits_' s) (larger_best ! tid)
                        in Inr (s, smaller_best, larger_best[tid := best]))))))"

fun find_splits_loop ::
  "Env \<Rightarrow> bool \<Rightarrow> bool list \<Rightarrow> bool list \<Rightarrow> bool list \<Rightarrow> nat list
    \<Rightarrow> SerialTreeLearner \<times> SplitInfo list \<times> SplitInfo list
    \<Rightarrow> error + (SerialTreeLearner \<times> SplitInfo list \<times> SplitInfo list)" where
  "find_splits_loop env use_subtract used snu lnu [] st = Inr st"
| "find_splits_loop env use_subtract used snu lnu (feature_index # rest) st =
     (case find_splits_iteration env use_subtract used snu lnu feature_index st of
        Inl e \<Rightarrow> Inl e
      | Inr st \<Rightarrow> find_splits_loop env use_subtract used snu lnu rest st)"

definition node_used_features ::
  "Env \<Rightarrow> SerialTreeLearner \<Rightarrow> error + (bool list \<times> bool list \<times> SerialTreeLearner)" where
  "node_used_features env s =
     (if feature_fraction_bynode (config_' s) < 1 then
        (case GetUsedFeatures env s False of
           Inl e \<Rightarrow> Inl e
         | Inr (smaller_node_used_features, s) \<Rightarrow>
             (case GetUsedFeatures env s False of
                Inl e \<Rightarrow> Inl e
              | Inr (larger_node_used_features, s) \<Rightarrow>
                  Inr (smaller_node_used_features, larger_node_used_features, s)))
      else Inr (replicate (nat (num_features_' s)) True, replicate (nat (num_features_' s)) True, s))"

definition store_best :: "LeafSplits \<Rightarrow> SplitInfo list \<Rightarrow> SerialTreeLearner \<Rightarrow> SerialTreeLearner" where
  \<comment> \<open>\<^verbatim>\<open>best_split_per_leaf_[leaf] = best[ArgMax(best)]\<close>, for the leaf of \<open>leaf_splits\<close>.\<close>
  "store_best leaf_splits best s =
     s\<lparr>best_split_per_leaf_' :=
         (best_split_per_leaf_' s)[nat (leaf_index leaf_splits) := best ! ArgMax best]\<rparr>"

definition FindBestSplitsFromHistograms ::
  "Env \<Rightarrow> SerialTreeLearner \<Rightarrow> bool list \<Rightarrow> bool \<Rightarrow> error + SerialTreeLearner" where
  "FindBestSplitsFromHistograms env s is_feature_used use_subtract =
     (let num_threads = omp_num_threads env;
          smaller_best = replicate num_threads SplitInfo_new;
          larger_best = replicate num_threads SplitInfo_new
      in case node_used_features env s of
           Inl e \<Rightarrow> Inl e
         | Inr (smaller_node_used_features, larger_node_used_features, s) \<Rightarrow>
            (case find_splits_loop env use_subtract is_feature_used smaller_node_used_features
                    larger_node_used_features [0 ..< nat (num_features_' s)]
                    (s, smaller_best, larger_best) of
               Inl e \<Rightarrow> Inl e
             | Inr (s, smaller_best, larger_best) \<Rightarrow>
                (let s = store_best (smaller_leaf_splits_' s) smaller_best s
                 in if leaf_index (larger_leaf_splits_' s) \<ge> 0
                    then Inr (store_best (larger_leaf_splits_' s) larger_best s)
                    else Inr s)))"

definition FindBestSplits :: "Env \<Rightarrow> SerialTreeLearner \<Rightarrow> error + SerialTreeLearner" where
  "FindBestSplits env s =
     (case features_to_evaluate [0 ..< nat (num_features_' s)]
             (replicate (nat (num_features_' s)) False, s) of
        Inl e \<Rightarrow> Inl e
      | Inr (is_feature_used, s) \<Rightarrow>
          (let use_subtract = (parent_leaf_histogram_array_' s \<noteq> None)
           in case ConstructHistograms env s is_feature_used use_subtract of
                Inl e \<Rightarrow> Inl e
              | Inr s \<Rightarrow> FindBestSplitsFromHistograms env s is_feature_used use_subtract))"

subsection \<open>BeforeTrain and BeforeFindBestSplit\<close>

definition LeafSplits_Init_all :: "int \<Rightarrow> (nat \<Rightarrow> real) \<Rightarrow> (nat \<Rightarrow> real) \<Rightarrow> LeafSplits \<Rightarrow> LeafSplits" where
  \<comment> \<open>\<^verbatim>\<open>Init(gradients, hessians)\<close>: the root with all the data.\<close>
  "LeafSplits_Init_all n g h ls =
     \<lparr>leaf_index = 0, num_data_in_leaf = n,
      sum_gradients = sum_list (map g [0 ..< nat n]),
      sum_hessians = sum_list (map h [0 ..< nat n]),
      data_indices = [0 ..< nat n]\<rparr>"

definition BeforeTrain :: "Env \<Rightarrow> SerialTreeLearner \<Rightarrow> error + SerialTreeLearner" where
  "BeforeTrain env s =
     (let s = s\<lparr>histogram_pool_' := ResetMap (histogram_pool_' s)\<rparr>
      in case (if feature_fraction (config_' s) < 1
               then (case GetUsedFeatures env s True of
                       Inl e \<Rightarrow> Inl e
                     | Inr (ret, s) \<Rightarrow> Inr (s\<lparr>is_feature_used_' := ret\<rparr>))
               else Inr (s\<lparr>is_feature_used_' :=
                           fold (\<lambda>i used. used[i := True]) [0 ..< nat (num_features_' s)]
                             (is_feature_used_' s)\<rparr>)) of
           Inl e \<Rightarrow> Inl e
         | Inr s \<Rightarrow>
            (let s = s\<lparr>data_partition_' := DataPartition_Init (data_partition_' s)\<rparr>;
                 s = s\<lparr>constraints_' := (\<lambda>l. (None, None))\<rparr>;
                 s = s\<lparr>best_split_per_leaf_' :=
                       fold (\<lambda>i best. best[i := SplitInfo_Reset (best ! i)])
                         [0 ..< nat (num_leaves (config_' s))] (best_split_per_leaf_' s)\<rparr>;
                 s = (if leaf_count (data_partition_' s) 0 = num_data_' s
                      then s\<lparr>smaller_leaf_splits_' :=
                             LeafSplits_Init_all (num_data_' s) (gradients_' s) (hessians_' s)
                               (smaller_leaf_splits_' s)\<rparr>
                      else s\<lparr>smaller_leaf_splits_' :=
                             LeafSplits_Init_leaf 0 (data_partition_' s) (gradients_' s) (hessians_' s)
                               (smaller_leaf_splits_' s)\<rparr>)
             in Inr (s\<lparr>larger_leaf_splits_' := LeafSplits_Init_none (larger_leaf_splits_' s)\<rparr>)))"

definition GetGlobalDataCountInLeaf :: "SerialTreeLearner \<Rightarrow> int \<Rightarrow> int" where
  \<comment> \<open>Modelled from the spec: \<^verbatim>\<open>GetGlobalDataCountInLeaf\<close> is defined in the header, not in
      the source file. The count of the leaf in the data partition; the missing right
      child \<open>-1\<close> of the root has no data.\<close>
  "GetGlobalDataCountInLeaf s leaf_idx =
     (if leaf_idx \<ge> 0 then leaf_count (data_partition_' s) leaf_idx else 0)"

definition set_gain_kMinScore :: "int \<Rightarrow> SerialTreeLearner \<Rightarrow> SerialTreeLearner" where
  \<comment> \<open>\<^verbatim>\<open>best_split_per_leaf_[leaf].gain = kMinScore\<close>.\<close>
  "set_gain_kMinScore leaf s =
     s\<lparr>best_split_per_leaf_' :=
         (best_split_per_leaf_' s)[nat leaf := (best_split_per_leaf_' s ! nat leaf)\<lparr>gain := kMinScore\<rparr>]\<rparr>"

definition pin_leaves :: "int \<Rightarrow> int \<Rightarrow> SerialTreeLearner \<Rightarrow> SerialTreeLearner" where
  "pin_leaves left_leaf right_leaf s =
     (let s = set_gain_kMinScore left_leaf s
      in if right_leaf \<ge> 0 then set_gain_kMinScore right_leaf s else s)"

definition BeforeFindBestSplit ::
  "SerialTreeLearner \<Rightarrow> Tree \<Rightarrow> int \<Rightarrow> int \<Rightarrow> bool \<times> SerialTreeLearner" where
  "BeforeFindBestSplit s tree left_leaf right_leaf =
     (if max_depth (config_' s) > 0 \<and> leaf_depth tree left_leaf \<ge> max_depth (config_' s)
      then (False, pin_leaves left_leaf right_leaf s)
      else
       (let num_data_in_left_child = GetGlobalDataCountInLeaf s left_leaf;
            num_data_in_right_child = GetGlobalDataCountInLeaf s right_leaf
        in if num_data_in_right_child < int32_mul (min_data_in_leaf (config_' s)) 2
              \<and> num_data_in_left_child < int32_mul (min_data_in_leaf (config_' s)) 2
           then (False, pin_leaves left_leaf right_leaf s)
           else
            (let s = s\<lparr>parent_leaf_histogram_array_' := None\<rparr>
             in if right_leaf < 0 then
                  (let (slot, found, pool) = HistogramPool_Get (histogram_pool_' s) left_leaf
                   in (True, s\<lparr>histogram_pool_' := pool,
                                smaller_leaf_histogram_array_' := Some slot,
                                larger_leaf_histogram_array_' := None\<rparr>))
                else if num_data_in_left_child < num_data_in_right_child then
                  (let (slot, found, pool) = HistogramPool_Get (histogram_pool_' s) left_leaf;
                       s = s\<lparr>larger_leaf_histogram_array_' := Some slot\<rparr>;
                       s = (if found then s\<lparr>parent_leaf_histogram_array_' :=
                                               larger_leaf_histogram_array_' s\<rparr> else s);
                       pool = HistogramPool_Move pool left_leaf right_leaf;
                       (slot, found, pool) = HistogramPool_Get pool left_leaf
                   in (True, s\<lparr>histogram_pool_' := pool,
                                smaller_leaf_histogram_array_' := Some slot\<rparr>))
                else
                  (let (slot, found, pool) = HistogramPool_Get (histogram_pool_' s) left_leaf;
                       s = s\<lparr>larger_leaf_histogram_array_' := Some slot\<rparr>;
                       s = (if found then s\<lparr>parent_leaf_histogram_array_' :=
                                               larger_leaf_histogram_array_' s\<rparr> else s);
                       (slot, found, pool) = HistogramPool_Get pool right_leaf
                   in (True, s\<lparr>histogram_pool_' := pool,
                                smaller_leaf_histogram_array_' := Some slot\<rparr>)))))"

subsection \<open>Split\<close>

definition threshold_words :: "Env \<Rightarrow> int \<Rightarrow> SplitInfo \<Rightarrow> nat list" where
  \<comment> \<open>What \<^verbatim>\<open>DataPartition::Split\<close> is given: the bin threshold of a numerical split, the
      bitset of the category bins of a categorical one.\<close>
  "threshold_words env inner_feature_index info =
     (if is_numerical_bin env inner_feature_index then [threshold info]
      else ConstructBitset env (cat_threshold info))"

definition init_children ::
  "int \<Rightarrow> int \<Rightarrow> SplitInfo \<Rightarrow> SerialTreeLearner \<Rightarrow> SerialTreeLearner" where
  \<comment> \<open>The two branches that initialise \<^verbatim>\<open>smaller_leaf_splits_\<close> and \<^verbatim>\<open>larger_leaf_splits_\<close>.\<close>
  "init_children left_leaf right_leaf info s =
     (if left_count info < right_count info
      then s\<lparr>smaller_leaf_splits_' :=
               LeafSplits_Init_sums left_leaf (data_partition_' s)
                 (left_sum_gradient info) (left_sum_hessian info) (smaller_leaf_splits_' s),
             larger_leaf_splits_' :=
               LeafSplits_Init_sums right_leaf (data_partition_' s)
                 (right_sum_gradient info) (right_sum_hessian info) (larger_leaf_splits_' s)\<rparr>
      else s\<lparr>smaller_leaf_splits_' :=
               LeafSplits_Init_sums right_leaf (data_partition_' s)
                 (right_sum_gradient info) (right_sum_hessian info) (smaller_leaf_splits_' s),
             larger_leaf_splits_' :=
               LeafSplits_Init_sums left_leaf (data_partition_' s)
                 (left_sum_gradient info) (left_sum_hessian info) (larger_leaf_splits_' s)\<rparr>)"

definition split_leaf ::
  "Env \<Rightarrow> int \<Rightarrow> int \<Rightarrow> SplitInfo \<Rightarrow> SerialTreeLearner \<Rightarrow> Tree
    \<Rightarrow> SerialTreeLearner \<times> SplitInfo \<times> Tree \<times> int" where
  \<comment> \<open>The block that \<^verbatim>\<open>Split\<close> and \<^verbatim>\<open>ForceSplits\<close> both contain: the data partition is
      split, the two counts of the split are read back from it, and the tree is split,
      which returns the right leaf. The numerical and the categorical branch differ in
      the threshold they pass on.\<close>
  "split_leaf env inner_feature_index leaf info s tree =
     (let next_leaf_id = NextLeafId tree;
          dp = DataPartition_Split (data_partition_' s) leaf
                 (goes_left env inner_feature_index
                    (threshold_words env inner_feature_index info) (default_left info))
                 next_leaf_id;
          info = info\<lparr>left_count := leaf_count dp leaf, right_count := leaf_count dp next_leaf_id\<rparr>;
          (right_leaf, tree) = Tree_Split tree leaf (feature info) (left_output info) (right_output info)
      in (s\<lparr>data_partition_' := dp\<rparr>, info, tree, right_leaf))"

definition cegb_update :: "Env \<Rightarrow> Tree \<Rightarrow> int \<Rightarrow> SerialTreeLearner \<Rightarrow> SerialTreeLearner" where
  \<comment> \<open>\<^verbatim>\<open>if (cegb_ != nullptr) cegb_->UpdateLeafBestSplits(..)\<close>.\<close>
  "cegb_update env tree best_leaf s =
     (case cegb_' s of
        None \<Rightarrow> s
      | Some c \<Rightarrow>
          (let (best, c) = UpdateLeafBestSplits env c tree best_leaf (best_split_per_leaf_' s)
           in s\<lparr>best_split_per_leaf_' := best, cegb_' := Some c\<rparr>))"

definition Split ::
  "Env \<Rightarrow> SerialTreeLearner \<Rightarrow> Tree \<Rightarrow> int \<Rightarrow> error + (SerialTreeLearner \<times> Tree \<times> int \<times> int)" where
  "Split env s tree best_leaf =
     (let inner_feature_index =
            InnerFeatureIndex env (feature (best_split_per_leaf_' s ! nat best_leaf));
          s = cegb_update env tree best_leaf s;
          left_leaf = best_leaf;
          is_numerical_split = is_numerical_bin env inner_feature_index;
          (s, best_split_info, tree, right_leaf) =
            split_leaf env inner_feature_index best_leaf (best_split_per_leaf_' s ! nat best_leaf) s tree;
          s = s\<lparr>best_split_per_leaf_' := (best_split_per_leaf_' s)[nat best_leaf := best_split_info]\<rparr>
      in if (if left_count best_split_info < right_count best_split_info
             then \<not> (left_count best_split_info > 0)
             else \<not> (right_count best_split_info > 0))
         then Inl CheckFailed
         else
          (let s = init_children left_leaf right_leaf best_split_info s
           in Inr (s\<lparr>constraints_' :=
                       UpdateConstraints env is_numerical_split left_leaf right_leaf
                         (monotone_type best_split_info) (right_output best_split_info)
                         (left_output best_split_info) (constraints_' s)\<rparr>,
                   tree, left_leaf, right_leaf)))"

subsection \<open>ForceSplits\<close>

datatype Json = JNull | JObject "int option" "real option" Json Json

text \<open>
  A node of the forced-split template: the keys \<^verbatim>\<open>feature\<close> and \<^verbatim>\<open>threshold\<close>, each present
  or not, and the values under \<^verbatim>\<open>left\<close> and \<^verbatim>\<open>right\<close> (\<open>JNull\<close> when the key is missing).
  Reading a number under a missing key gives 0, as the JSON library does.
\<close>

fun is_null :: "Json \<Rightarrow> bool" where
  "is_null JNull = True"
| "is_null (JObject f t l r) = False"

fun feature_value :: "Json \<Rightarrow> int" where
  "feature_value (JObject (Some f) t l r) = f"
| "feature_value j = 0"

fun threshold_value :: "Json \<Rightarrow> real" where
  "threshold_value (JObject f (Some t) l r) = t"
| "threshold_value j = 0"

fun left_of :: "Json \<Rightarrow> Json" where
  "left_of (JObject f t l r) = l"
| "left_of JNull = JNull"

fun right_of :: "Json \<Rightarrow> Json" where
  "right_of (JObject f t l r) = r"
| "right_of JNull = JNull"

fun has_feature_and_threshold :: "Json \<Rightarrow> bool" where
  "has_feature_and_threshold (JObject (Some f) (Some t) l r) = True"
| "has_feature_and_threshold j = False"

record ForceState =
  fs_tree :: Tree
  fs_learner :: SerialTreeLearner
  fs_left_leaf :: int
  fs_right_leaf :: int
  fs_cur_depth :: int
  fs_left :: Json
  fs_right :: Json
  left_smaller :: bool
  forceSplitMap :: "int \<rightharpoonup> SplitInfo"
  result_count :: int
  aborted_last_force_split :: bool

definition gather_forced ::
  "Env \<Rightarrow> SerialTreeLearner \<Rightarrow> Json \<Rightarrow> nat option \<Rightarrow> LeafSplits \<Rightarrow> int
    \<Rightarrow> (int \<rightharpoonup> SplitInfo) \<Rightarrow> error + (int \<rightharpoonup> SplitInfo)" where
  \<comment> \<open>The block \<^verbatim>\<open>if (!left.is_null())\<close> (and the one for \<^verbatim>\<open>right\<close>): the split of the
      template child is gathered, recorded under the leaf, and erased again when its
      gain is negative.\<close>
  "gather_forced env s child leaf_histogram_array leaf_splits leaf force_map =
     (if is_null child then Inr force_map
      else
       (let child_feature = feature_value child;
            threshold_double = threshold_value child;
            inner_feature_index = InnerFeatureIndex env child_feature;
            bin_threshold = BinThreshold env inner_feature_index threshold_double
        in case leaf_histogram_array of
             None \<Rightarrow> Inl NullPointer
           | Some slot \<Rightarrow>
              (let child_split = GatherInfoForThreshold env inner_feature_index
                                   (get_hist s slot (nat inner_feature_index))
                                   (sum_gradients leaf_splits) (sum_hessians leaf_splits)
                                   bin_threshold (num_data_in_leaf leaf_splits);
                   child_split = child_split\<lparr>feature := child_feature\<rparr>;
                   force_map = force_map(leaf \<mapsto> child_split)
               in Inr (if gain child_split < Some 0 then force_map(leaf := None) else force_map))))"

definition apply_forced ::
  "Env \<Rightarrow> Json \<Rightarrow> int \<Rightarrow> SplitInfo \<Rightarrow> ForceState \<Rightarrow> ForceState" where
  \<comment> \<open>The rest of the loop body once the forced split of \<open>current_leaf\<close> is found.\<close>
  "apply_forced env node current_leaf current_split_info st =
     (let inner_feature_index = InnerFeatureIndex env (feature current_split_info);
          left_leaf = current_leaf;
          (s, current_split_info, tree, right_leaf) =
            split_leaf env inner_feature_index current_leaf current_split_info
              (fs_learner st) (fs_tree st);
          s = init_children left_leaf right_leaf current_split_info s
      in st\<lparr>fs_tree := tree, fs_learner := s, fs_left_leaf := left_leaf,
            fs_right_leaf := right_leaf,
            left_smaller := (left_count current_split_info < right_count current_split_info),
            fs_left := left_of node, fs_right := right_of node,
            result_count := result_count st + 1,
            fs_cur_depth := max (fs_cur_depth st) (leaf_depth tree left_leaf)\<rparr>)"

definition ForceSplits_body ::
  "Env \<Rightarrow> Json \<times> int \<Rightarrow> ForceState \<Rightarrow> error + (bool \<times> ForceState)" where
  \<comment> \<open>One pass of the \<^verbatim>\<open>while\<close> loop, \<open>pair\<close> being the front of the queue. The flag is
      \<open>False\<close> when the loop is left by \<^verbatim>\<open>break\<close>.\<close>
  "ForceSplits_body env pair st =
     (case (case BeforeFindBestSplit (fs_learner st) (fs_tree st) (fs_left_leaf st) (fs_right_leaf st) of
              (True, s) \<Rightarrow> FindBestSplits env s
            | (False, s) \<Rightarrow> Inr s) of
        Inl e \<Rightarrow> Inl e
      | Inr s \<Rightarrow>
         (case gather_forced env s (fs_left st)
                 (if left_smaller st then smaller_leaf_histogram_array_' s
                  else larger_leaf_histogram_array_' s)
                 (if left_smaller st then smaller_leaf_splits_' s else larger_leaf_splits_' s)
                 (fs_left_leaf st) (forceSplitMap st) of
            Inl e \<Rightarrow> Inl e
          | Inr force_map \<Rightarrow>
             (case gather_forced env s (fs_right st)
                     (if left_smaller st then larger_leaf_histogram_array_' s
                      else smaller_leaf_histogram_array_' s)
                     (if left_smaller st then larger_leaf_splits_' s else smaller_leaf_splits_' s)
                     (fs_right_leaf st) force_map of
                Inl e \<Rightarrow> Inl e
              | Inr force_map \<Rightarrow>
                 (let st = st\<lparr>fs_learner := s, forceSplitMap := force_map\<rparr>;
                      current_leaf = snd pair
                  in case force_map current_leaf of
                       None \<Rightarrow> Inr (False, st\<lparr>aborted_last_force_split := True\<rparr>)
                     | Some current_split_info \<Rightarrow>
                         Inr (True, apply_forced env (fst pair) current_leaf current_split_info st)))))"

definition push_children :: "Json \<Rightarrow> int \<Rightarrow> int \<Rightarrow> (Json \<times> int) list \<Rightarrow> (Json \<times> int) list" where
  \<comment> \<open>The two \<^verbatim>\<open>q.push\<close> at the end of the loop body.\<close>
  "push_children node left_leaf right_leaf q =
     (let q = (if \<not> is_null (left_of node) \<and> has_feature_and_threshold (left_of node)
               then q @ [(left_of node, left_leaf)] else q)
      in if \<not> is_null (right_of node) \<and> has_feature_and_threshold (right_of node)
         then q @ [(right_of node, right_leaf)] else q)"

function ForceSplits_loop ::
  "Env \<Rightarrow> (Json \<times> int) list \<Rightarrow> ForceState \<Rightarrow> error + ForceState" where
  "ForceSplits_loop env [] st = Inr st"
| "ForceSplits_loop env (pair # q) st =
     (case ForceSplits_body env pair st of
        Inl e \<Rightarrow> Inl e
      | Inr (go_on, st) \<Rightarrow>
          if go_on
          then ForceSplits_loop env
                 (push_children (fst pair) (fs_left_leaf st) (fs_right_leaf st) q) st
          else Inr st)"
  by pat_completeness auto
termination
proof (relation "measure (\<lambda>(env, q, st). sum_list (map (\<lambda>p. Suc (2 * size (fst p))) q))")
  show "wf (measure (\<lambda>(env, q, st). sum_list (map (\<lambda>p. Suc (2 * size (fst p))) q)))"
    by simp
next
  fix env :: Env and pair :: "Json \<times> int" and q st x2 go_on st'
  show "((env, push_children (fst pair) (fs_left_leaf st') (fs_right_leaf st') q, st'),
         (env, pair # q, st))
        \<in> measure (\<lambda>(env, q, st). sum_list (map (\<lambda>p. Suc (2 * size (fst p))) q))"
    by (cases "fst pair") (auto simp: push_children_def)
qed

definition ForceSplits ::
  "Env \<Rightarrow> SerialTreeLearner \<Rightarrow> Tree \<Rightarrow> Json \<Rightarrow> int \<Rightarrow> int \<Rightarrow> int \<Rightarrow> error + ForceState" where
  \<comment> \<open>The result holds \<^verbatim>\<open>result_count\<close>, the tree, and the values left in \<^verbatim>\<open>*left_leaf\<close>,
      \<^verbatim>\<open>*right_leaf\<close>, \<^verbatim>\<open>*cur_depth\<close> and \<^verbatim>\<open>*aborted_last_force_split\<close>.\<close>
  "ForceSplits env s tree forced_split_json left_leaf right_leaf cur_depth =
     ForceSplits_loop env [(forced_split_json, 0)]
       \<lparr>fs_tree = tree, fs_learner = s, fs_left_leaf = 0, fs_right_leaf = right_leaf,
        fs_cur_depth = cur_depth, fs_left = forced_split_json, fs_right = JNull,
        left_smaller = True, forceSplitMap = Map.empty, result_count = 0,
        aborted_last_force_split = False\<rparr>"

subsection \<open>Train\<close>

text \<open>
  The growth loop \<^verbatim>\<open>for (split = init_splits; split < num_leaves - 1; ++split)\<close> is a
  recursion on the number of iterations that remain, \<open>num_leaves - 1 - split\<close>; nothing in
  the loop writes the configuration. A \<^verbatim>\<open>break\<close> returns the tree grown so far.
\<close>

definition prepare_iteration ::
  "Env \<Rightarrow> bool \<Rightarrow> SerialTreeLearner \<Rightarrow> Tree \<Rightarrow> int \<Rightarrow> int \<Rightarrow> error + SerialTreeLearner" where
  \<comment> \<open>\<^verbatim>\<open>if (!aborted && BeforeFindBestSplit(..)) FindBestSplits(); else if (aborted)
      aborted = false;\<close> After it the flag is false on every path.\<close>
  "prepare_iteration env aborted s tree left_leaf right_leaf =
     (if \<not> aborted
      then (case BeforeFindBestSplit s tree left_leaf right_leaf of
              (True, s) \<Rightarrow> FindBestSplits env s
            | (False, s) \<Rightarrow> Inr s)
      else Inr s)"

fun train_loop ::
  "Env \<Rightarrow> nat \<Rightarrow> bool \<Rightarrow> Tree \<Rightarrow> int \<Rightarrow> int \<Rightarrow> int \<Rightarrow> SerialTreeLearner
    \<Rightarrow> error + (Tree \<times> int \<times> SerialTreeLearner)" where
  "train_loop env 0 aborted tree left_leaf right_leaf cur_depth s = Inr (tree, cur_depth, s)"
| "train_loop env (Suc remaining) aborted tree left_leaf right_leaf cur_depth s =
     (case prepare_iteration env aborted s tree left_leaf right_leaf of
        Inl e \<Rightarrow> Inl e
      | Inr s \<Rightarrow>
         (let best_leaf = int (ArgMax (best_split_per_leaf_' s));
              best_leaf_SplitInfo = best_split_per_leaf_' s ! nat best_leaf
          in if gain best_leaf_SplitInfo \<le> Some 0 then Inr (tree, cur_depth, s)
             else
              (case Split env s tree best_leaf of
                 Inl e \<Rightarrow> Inl e
               | Inr (s, tree, left_leaf, right_leaf) \<Rightarrow>
                   train_loop env remaining False tree left_leaf right_leaf
                     (max cur_depth (leaf_depth tree left_leaf)) s)))"

definition Train ::
  "Env \<Rightarrow> SerialTreeLearner \<Rightarrow> (nat \<Rightarrow> real) \<Rightarrow> (nat \<Rightarrow> real) \<Rightarrow> bool \<Rightarrow> Json
    \<Rightarrow> error + (Tree \<times> SerialTreeLearner)" where
  "Train env s g h is_constant_hessian forced_split_json =
     (let s = s\<lparr>gradients_' := g, hessians_' := h, is_constant_hessian_' := is_constant_hessian\<rparr>
      in case BeforeTrain env s of
           Inl e \<Rightarrow> Inl e
         | Inr s \<Rightarrow>
            (let tree = Tree_new (num_leaves (config_' s));
                 left_leaf = 0; cur_depth = 1; right_leaf = - 1
             in case (if \<not> is_null forced_split_json
                      then (case ForceSplits env s tree forced_split_json left_leaf right_leaf cur_depth of
                              Inl e \<Rightarrow> Inl e
                            | Inr st \<Rightarrow>
                                Inr (result_count st, aborted_last_force_split st, fs_tree st,
                                     fs_left_leaf st, fs_right_leaf st, fs_cur_depth st, fs_learner st))
                      else Inr (0, False, tree, left_leaf, right_leaf, cur_depth, s)) of
                  Inl e \<Rightarrow> Inl e
                | Inr (init_splits, aborted, tree, left_leaf, right_leaf, cur_depth, s) \<Rightarrow>
                   (case train_loop env (nat (num_leaves (config_' s) - 1 - init_splits)) aborted
                           tree left_leaf right_leaf cur_depth s of
                      Inl e \<Rightarrow> Inl e
                    | Inr (tree, cur_depth, s) \<Rightarrow> Inr (tree, s))))"

subsection \<open>Contracts of the collaborators, and invariants of the learner\<close>

definition Sample_contract :: "Env \<Rightarrow> bool" where
  \<comment> \<open>\<^verbatim>\<open>Random::Sample(N, K)\<close> with \<open>0 \<le> K \<le> N\<close> returns \<open>K\<close> different positions below \<open>N\<close>.\<close>
  "Sample_contract env =
     (\<forall>rnd n k. 0 \<le> k \<and> k \<le> n \<longrightarrow>
        length (fst (Sample env rnd n k)) = nat k
        \<and> distinct (fst (Sample env rnd n k))
        \<and> (\<forall>x \<in> set (fst (Sample env rnd n k)). 0 \<le> x \<and> x < n))"

definition valid_features_ok :: "Env \<Rightarrow> SerialTreeLearner \<Rightarrow> bool" where
  \<comment> \<open>The valid features are different features of the dataset, each with an inner
      index of its own among the \<^verbatim>\<open>num_features_\<close> inner indices.\<close>
  "valid_features_ok env s =
     (distinct (valid_feature_indices_' s)
      \<and> inj_on (InnerFeatureIndex env) (set (valid_feature_indices_' s))
      \<and> (\<forall>v \<in> set (valid_feature_indices_' s).
            0 \<le> InnerFeatureIndex env v \<and> InnerFeatureIndex env v < num_features_' s))"

definition used_feature_indices_ok :: "SerialTreeLearner \<Rightarrow> bool" where
  \<comment> \<open>What the tree-level branch of \<^verbatim>\<open>GetUsedFeatures\<close> leaves in
      \<^verbatim>\<open>used_feature_indices_\<close>: different positions of \<^verbatim>\<open>valid_feature_indices_\<close>, none
      (never sampled) or at least \<open>min(2, |valid|)\<close> of them.\<close>
  "used_feature_indices_ok s =
     (distinct (used_feature_indices_' s)
      \<and> (\<forall>i \<in> set (used_feature_indices_' s).
            0 \<le> i \<and> i < int (length (valid_feature_indices_' s)))
      \<and> (used_feature_indices_' s = []
          \<or> min 2 (int (length (valid_feature_indices_' s)))
              \<le> int (length (used_feature_indices_' s))))"

definition control_frame :: "SerialTreeLearner \<Rightarrow> SerialTreeLearner \<Rightarrow> bool" where
  \<comment> \<open>The members that the search for the best splits reads and never writes.\<close>
  "control_frame s s' =
     (config_' s' = config_' s \<and> num_data_' s' = num_data_' s
      \<and> num_features_' s' = num_features_' s
      \<and> gradients_' s' = gradients_' s \<and> hessians_' s' = hessians_' s
      \<and> is_feature_used_' s' = is_feature_used_' s
      \<and> valid_feature_indices_' s' = valid_feature_indices_' s
      \<and> parent_leaf_histogram_array_' s' = parent_leaf_histogram_array_' s
      \<and> smaller_leaf_histogram_array_' s' = smaller_leaf_histogram_array_' s
      \<and> larger_leaf_histogram_array_' s' = larger_leaf_histogram_array_' s
      \<and> best_split_per_leaf_' s' = best_split_per_leaf_' s
      \<and> constraints_' s' = constraints_' s
      \<and> smaller_leaf_splits_' s' = smaller_leaf_splits_' s
      \<and> larger_leaf_splits_' s' = larger_leaf_splits_' s
      \<and> data_partition_' s' = data_partition_' s
      \<and> cegb_' s' = cegb_' s)"

definition search_frame :: "SerialTreeLearner \<Rightarrow> SerialTreeLearner \<Rightarrow> bool" where
  \<comment> \<open>What \<^verbatim>\<open>FindBestSplits\<close> may write besides the pool and the sampler: the best splits
      of the smaller and of the larger leaf.\<close>
  "search_frame s s' =
     (control_frame (s\<lparr>best_split_per_leaf_' := best_split_per_leaf_' s'\<rparr>) s'
      \<and> length (best_split_per_leaf_' s') = length (best_split_per_leaf_' s)
      \<and> (\<forall>i. i \<noteq> nat (leaf_index (smaller_leaf_splits_' s))
             \<and> (leaf_index (larger_leaf_splits_' s) \<ge> 0
                  \<longrightarrow> i \<noteq> nat (leaf_index (larger_leaf_splits_' s)))
             \<longrightarrow> best_split_per_leaf_' s' ! i = best_split_per_leaf_' s ! i))"


definition prepared_frame :: "SerialTreeLearner \<Rightarrow> SerialTreeLearner \<Rightarrow> bool" where
  \<comment> \<open>What \<^verbatim>\<open>BeforeFindBestSplit\<close> may write when it returns true: the pool and the three
      histogram pointers.\<close>
  "prepared_frame s s' =
     (s' = s\<lparr>histogram_pool_' := histogram_pool_' s',
             parent_leaf_histogram_array_' := parent_leaf_histogram_array_' s',
             smaller_leaf_histogram_array_' := smaller_leaf_histogram_array_' s',
             larger_leaf_histogram_array_' := larger_leaf_histogram_array_' s'\<rparr>)"


definition gathered_split :: "Env \<Rightarrow> SerialTreeLearner \<Rightarrow> Json \<Rightarrow> nat \<Rightarrow> LeafSplits \<Rightarrow> SplitInfo" where
  \<comment> \<open>The split that \<^verbatim>\<open>ForceSplits\<close> gathers for a template child from the histograms in
      the buffer \<open>slot\<close>.\<close>
  "gathered_split env s child slot leaf_splits =
     (GatherInfoForThreshold env (InnerFeatureIndex env (feature_value child))
        (get_hist s slot (nat (InnerFeatureIndex env (feature_value child))))
        (sum_gradients leaf_splits) (sum_hessians leaf_splits)
        (BinThreshold env (InnerFeatureIndex env (feature_value child)) (threshold_value child))
        (num_data_in_leaf leaf_splits))\<lparr>feature := feature_value child\<rparr>"

text \<open>
  The number of template nodes that the loop of \<^verbatim>\<open>ForceSplits\<close> dequeues when it starts from
  a node and no forced split is refused: the node itself, and what its children bring, a
  child being enqueued when it is an object with both keys.
\<close>

fun forced_nodes :: "Json \<Rightarrow> nat" where
  "forced_nodes JNull = 1"
| "forced_nodes (JObject f t l r) =
     Suc ((if \<not> is_null l \<and> has_feature_and_threshold l then forced_nodes l else 0)
          + (if \<not> is_null r \<and> has_feature_and_threshold r then forced_nodes r else 0))"

definition queued_nodes :: "(Json \<times> int) list \<Rightarrow> nat" where
  "queued_nodes q = sum_list (map (\<lambda>p. forced_nodes (fst p)) q)"

text \<open>
  Two conditions under which no pass of \<^verbatim>\<open>ForceSplits\<close> is refused or gated: the gathered
  gain of a forced split is never negative, and the configuration has no depth limit, no
  positive bound \<open>2 * min_data_in_leaf\<close> on the leaf sizes and no per-node feature sampling.
\<close>

definition gather_never_negative :: "Env \<Rightarrow> bool" where
  "gather_never_negative env =
     (\<forall>i fh sg sh t n. \<not> gain (GatherInfoForThreshold env i fh sg sh t n) < Some 0)"

definition never_gated :: "Config \<Rightarrow> bool" where
  "never_gated cfg = (max_depth cfg \<le> 0 \<and> int32_mul (min_data_in_leaf cfg) 2 \<le> 0
     \<and> \<not> feature_fraction_bynode cfg < 1)"

text \<open>
  The invariant of the loop of \<^verbatim>\<open>ForceSplits\<close> under these conditions, for the queue \<open>q\<close>:
  before the first split the right leaf is \<open>-1\<close> and only the smaller (root) histogram is
  read; every queued leaf has a recorded split, or is one of the two leaves whose template
  child the next pass gathers.
\<close>

definition force_ready :: "(Json \<times> int) list \<Rightarrow> ForceState \<Rightarrow> bool" where
  "force_ready q st =
     (never_gated (config_' (fs_learner st))
      \<and> 0 < tree_num_leaves (fs_tree st)
      \<and> (fs_right_leaf st < 0 \<longrightarrow>
           left_smaller st \<and> is_null (fs_right st)
           \<and> leaf_index (larger_leaf_splits_' (fs_learner st)) < 0)
      \<and> (\<forall>p \<in> set q. forceSplitMap st (snd p) \<noteq> None
            \<or> (snd p = fs_left_leaf st \<and> \<not> is_null (fs_left st))
            \<or> (snd p = fs_right_leaf st \<and> \<not> is_null (fs_right st))))"

text \<open>
  The search for the best splits, feature by feature. An iteration of the loop of
  \<^verbatim>\<open>FindBestSplitsFromHistograms\<close> touches the histograms of its own feature only, so what
  it computes can be written from the state in which the loop starts: the histogram of
  the smaller leaf after \<^verbatim>\<open>FixHistogram\<close>, the histogram of the larger leaf after
  \<^verbatim>\<open>Subtract\<close> or \<^verbatim>\<open>FixHistogram\<close>, and the two candidates that
  \<^verbatim>\<open>ComputeBestSplitForFeature\<close> compares with the bests of its thread.
\<close>

definition hist_in_range :: "SerialTreeLearner \<Rightarrow> nat \<Rightarrow> nat \<Rightarrow> bool" where
  "hist_in_range s slot f =
     (slot < length (slots (histogram_pool_' s)) \<and> f < length (slots (histogram_pool_' s) ! slot))"

definition hist_shape :: "SerialTreeLearner \<Rightarrow> nat list" where
  "hist_shape s = map length (slots (histogram_pool_' s))"

text \<open>
  \<^verbatim>\<open>new_split\<close> of \<^verbatim>\<open>ComputeBestSplitForFeature\<close> as a function of the histogram searched.
\<close>

definition candidate_of ::
  "Env \<Rightarrow> SerialTreeLearner \<Rightarrow> FeatureHistogram \<Rightarrow> nat \<Rightarrow> int \<Rightarrow> int \<Rightarrow> LeafSplits \<Rightarrow> SplitInfo" where
  "candidate_of env s fh feature_index real_fidx num_data leaf_splits =
     (let new_split = fst (FindBestThreshold env feature_index fh
                             (sum_gradients leaf_splits) (sum_hessians leaf_splits) num_data
                             (constraints_' s (leaf_index leaf_splits)));
          new_split = new_split\<lparr>feature := real_fidx\<rparr>
      in case cegb_' s of
           None \<Rightarrow> new_split
         | Some c \<Rightarrow> new_split\<lparr>gain := map_option
             (\<lambda>g. g - DetlaGain env c feature_index real_fidx (leaf_index leaf_splits) num_data new_split)
             (gain new_split)\<rparr>)"

definition fixed_smaller :: "Env \<Rightarrow> SerialTreeLearner \<Rightarrow> nat \<Rightarrow> nat \<Rightarrow> FeatureHistogram" where
  "fixed_smaller env s smaller f =
     (get_hist s smaller f)\<lparr>hist_data :=
        FixHistogram env f (sum_gradients (smaller_leaf_splits_' s))
          (sum_hessians (smaller_leaf_splits_' s)) (hist_data (get_hist s smaller f))\<rparr>"

definition larger_hist :: "Env \<Rightarrow> bool \<Rightarrow> SerialTreeLearner \<Rightarrow> nat \<Rightarrow> nat \<Rightarrow> nat \<Rightarrow> FeatureHistogram" where
  "larger_hist env use_subtract s smaller larger f =
     (if use_subtract then Subtract (get_hist s larger f) (fixed_smaller env s smaller f)
      else (get_hist s larger f)\<lparr>hist_data :=
             FixHistogram env f (sum_gradients (larger_leaf_splits_' s))
               (sum_hessians (larger_leaf_splits_' s)) (hist_data (get_hist s larger f))\<rparr>)"

definition smaller_candidate :: "Env \<Rightarrow> SerialTreeLearner \<Rightarrow> nat \<Rightarrow> nat \<Rightarrow> SplitInfo" where
  "smaller_candidate env s smaller f =
     candidate_of env s (fixed_smaller env s smaller f) f (RealFeatureIndex env f)
       (num_data_in_leaf (smaller_leaf_splits_' s)) (smaller_leaf_splits_' s)"

definition larger_candidate :: "Env \<Rightarrow> bool \<Rightarrow> SerialTreeLearner \<Rightarrow> nat \<Rightarrow> nat \<Rightarrow> nat \<Rightarrow> SplitInfo" where
  "larger_candidate env use_subtract s smaller larger f =
     candidate_of env s (larger_hist env use_subtract s smaller larger f) f (RealFeatureIndex env f)
       (num_data_in_leaf (larger_leaf_splits_' s)) (larger_leaf_splits_' s)"

text \<open>
  The last statement of \<^verbatim>\<open>ComputeBestSplitForFeature\<close>, with the early return for a feature
  the node does not use.
\<close>

definition keep_best :: "bool \<Rightarrow> SplitInfo \<Rightarrow> SplitInfo \<Rightarrow> SplitInfo" where
  "keep_best is_feature_used new_split best_split =
     (if is_feature_used \<and> SplitInfo_gt new_split best_split then new_split else best_split)"

text \<open>
  What the loop needs to run, and what it establishes for the features \<open>fs\<close> it went
  through: the two leaves have buffers of their own that hold a histogram for each
  feature; afterwards the histograms of an evaluated feature are the ones above, the
  others are untouched, no entry of the per-thread bests got worse, and no candidate is
  strictly greater than the best of its thread.
\<close>

definition search_ready :: "SerialTreeLearner \<Rightarrow> nat \<Rightarrow> nat \<Rightarrow> nat list \<Rightarrow> bool" where
  "search_ready s sm lg fs =
     (smaller_leaf_histogram_array_' s = Some sm \<and> (\<forall>f \<in> set fs. hist_in_range s sm f)
      \<and> (0 \<le> leaf_index (larger_leaf_splits_' s) \<longrightarrow>
            larger_leaf_histogram_array_' s = Some lg \<and> lg \<noteq> sm
            \<and> (\<forall>f \<in> set fs. hist_in_range s lg f)))"

definition search_result ::
  "Env \<Rightarrow> bool \<Rightarrow> bool list \<Rightarrow> bool list \<Rightarrow> bool list \<Rightarrow> nat \<Rightarrow> nat \<Rightarrow> nat list
    \<Rightarrow> SerialTreeLearner \<times> SplitInfo list \<times> SplitInfo list
    \<Rightarrow> SerialTreeLearner \<times> SplitInfo list \<times> SplitInfo list \<Rightarrow> bool" where
  "search_result env sub used snu lnu sm lg fs st st' =
     (case (st, st') of ((s, sb, lb), (s', sb', lb')) \<Rightarrow>
        control_frame s s' \<and> hist_shape s' = hist_shape s
        \<and> (\<forall>f \<in> set fs. used ! f \<longrightarrow>
              hist_data (get_hist s' sm f) = hist_data (fixed_smaller env s sm f)
              \<and> (0 \<le> leaf_index (larger_leaf_splits_' s) \<longrightarrow>
                   hist_data (get_hist s' lg f) = hist_data (larger_hist env sub s sm lg f)))
        \<and> (\<forall>k f. f \<notin> set fs \<longrightarrow> get_hist s' k f = get_hist s k f)
        \<and> (\<forall>t. \<not> SplitInfo_gt (sb ! t) (sb' ! t)) \<and> (\<forall>t. \<not> SplitInfo_gt (lb ! t) (lb' ! t))
        \<and> length sb' = length sb \<and> length lb' = length lb
        \<and> (\<forall>f \<in> set fs. used ! f \<and> snu ! f \<and> omp_get_thread_num env f < length sb \<longrightarrow>
              \<not> SplitInfo_gt (smaller_candidate env s sm f) (sb' ! omp_get_thread_num env f))
        \<and> (0 \<le> leaf_index (larger_leaf_splits_' s) \<longrightarrow>
             (\<forall>f \<in> set fs. used ! f \<and> lnu ! f \<and> omp_get_thread_num env f < length lb \<longrightarrow>
                \<not> SplitInfo_gt (larger_candidate env sub s sm lg f) (lb' ! omp_get_thread_num env f))))"



subsection \<open>A small learner, for the examples\<close>

definition ex_config :: Config where
  "ex_config = \<lparr>num_leaves = 2, max_depth = -1, min_data_in_leaf = 1,
     feature_fraction = 1, feature_fraction_bynode = 1, lambda_l1 = 0, lambda_l2 = 0,
     max_delta_step = 0, refit_decay_rate = 0, histogram_pool_size = -1\<rparr>"

definition ex_run :: "int \<Rightarrow> nat list" where
  "ex_run leaf = (if leaf = 0 then [0] else [])"

definition ex_partition :: DataPartition where
  "ex_partition = \<lparr>dp_num_data = 1, dp_num_leaves = 2, leaf_run = ex_run, used_data_indices = None\<rparr>"

definition ex_zero_outputs :: "int \<Rightarrow> real" where
  "ex_zero_outputs leaf = 0"

definition ex_depths :: "int \<Rightarrow> int" where
  "ex_depths leaf = 0"

definition ex_tree :: Tree where
  "ex_tree = \<lparr>tree_num_leaves = 1, leaf_value = ex_zero_outputs, leaf_depth = ex_depths,
     shrinkage = 1, tree_splits = []\<rparr>"

definition ex_ones :: "nat \<Rightarrow> real" where
  "ex_ones i = 1"

definition ex_neg_hessians :: "nat \<Rightarrow> real" where
  "ex_neg_hessians i = - kEpsilon"

definition ex_histogram :: FeatureHistogram where
  "ex_histogram = \<lparr>hist_data = [(0, 0, 0), (0, 0, 0)], is_splittable = True\<rparr>"

definition ex_pool :: HistogramPool where
  "ex_pool = \<lparr>cache_size = 2, total_size = 2, pool_config = ex_config,
     slots = [[ex_histogram], [ex_histogram]], slot_leaf = [- 1, - 1],
     last_used_time = [0, 0], cur_time = 0\<rparr>"

definition ex_no_constraints :: "int \<Rightarrow> ConstraintEntry" where
  "ex_no_constraints leaf = (None, None)"

definition ex_leaf_splits :: LeafSplits where
  "ex_leaf_splits = \<lparr>leaf_index = - 1, num_data_in_leaf = 0, sum_gradients = 0,
     sum_hessians = 0, data_indices = []\<rparr>"

definition ex_learner :: SerialTreeLearner where
  "ex_learner = \<lparr>config_' = ex_config, num_data_' = 1, num_features_' = 1,
     gradients_' = ex_ones, hessians_' = ex_ones, is_constant_hessian_' = True,
     random_' = 0, is_feature_used_' = [True], used_feature_indices_' = [],
     valid_feature_indices_' = [0], histogram_pool_' = ex_pool,
     parent_leaf_histogram_array_' = None, smaller_leaf_histogram_array_' = None,
     larger_leaf_histogram_array_' = None,
     best_split_per_leaf_' = [SplitInfo_new, SplitInfo_new],
     constraints_' = ex_no_constraints, smaller_leaf_splits_' = ex_leaf_splits,
     larger_leaf_splits_' = ex_leaf_splits, data_partition_' = ex_partition,
     cegb_' = None\<rparr>"

definition ex_split :: "real \<Rightarrow> SplitInfo" where
  \<comment> \<open>A split at bin 0 with the given gain, one example on each side.\<close>
  "ex_split g = SplitInfo_new\<lparr>feature := 0, gain := Some g, left_count := 1, right_count := 1\<rparr>"

definition ex_env :: Env where
  \<comment> \<open>One feature with two bins; example \<open>i\<close> is in bin \<open>i mod 2\<close>. The threshold search
      answers with a split of gain 1, one thread runs the loops, sampling takes the
      first positions, cost-efficient boosting is off.\<close>
  "ex_env = \<lparr>kHistEntrySize = 16,
     FeatureNumBin = (\<lambda>f. 2),
     InnerFeatureIndex = (\<lambda>r. r),
     RealFeatureIndex = (\<lambda>f. int f),
     is_numerical_bin = (\<lambda>f. True),
     BinThreshold = (\<lambda>f t. 0),
     RealThreshold = (\<lambda>f b. 0),
     feature_bin = (\<lambda>f i. i mod 2),
     goes_left = (\<lambda>f words dl i. i mod 2 = 0),
     FixHistogram = (\<lambda>f sg sh d. d),
     FindBestThreshold = (\<lambda>f fh sg sh n c. (ex_split 1, True)),
     GatherInfoForThreshold = (\<lambda>f fh sg sh t n. ex_split 1),
     ConstructBitset = (\<lambda>cats. cats),
     Sample = (\<lambda>rnd n k. (map int [0 ..< nat k], Suc rnd)),
     IsEnable = (\<lambda>cfg. False),
     cegb_Init = (\<lambda>s. CEGB []),
     DetlaGain = (\<lambda>c f r l n info. 0),
     UpdateLeafBestSplits = (\<lambda>c t l best. (best, c)),
     UpdateConstraints = (\<lambda>num l r m ro lo c. c),
     omp_num_threads = 1,
     omp_get_thread_num = (\<lambda>f. 0)\<rparr>"

definition ex_config2 :: Config where
  "ex_config2 = ex_config\<lparr>histogram_pool_size := 1, max_depth := 3\<rparr>"

definition ex_run2 :: "int \<Rightarrow> nat list" where
  "ex_run2 leaf = (if leaf = 0 then [0, 1] else [])"

definition ex_partition2 :: DataPartition where
  "ex_partition2 = \<lparr>dp_num_data = 2, dp_num_leaves = 2, leaf_run = ex_run2, used_data_indices = None\<rparr>"

definition ex_learner2 :: SerialTreeLearner where
  \<comment> \<open>Two examples in the root; the best split of the root is known.\<close>
  "ex_learner2 = ex_learner\<lparr>num_data_' := 2, data_partition_' := ex_partition2,
     best_split_per_leaf_' := [ex_split 1, SplitInfo_new]\<rparr>"

definition ex_template :: Json where
  \<comment> \<open>A forced root split whose left child is forced too.\<close>
  "ex_template = JObject (Some 0) (Some 0) (JObject (Some 0) (Some 0) JNull JNull) JNull"

definition ex_force_state :: ForceState where
  "ex_force_state = \<lparr>fs_tree = ex_tree, fs_learner = ex_learner2, fs_left_leaf = 0,
     fs_right_leaf = - 1, fs_cur_depth = 1, fs_left = ex_template, fs_right = JNull,
     left_smaller = True, forceSplitMap = Map.empty, result_count = 0,
     aborted_last_force_split = False\<rparr>"

definition ex_learner3 :: SerialTreeLearner where
  \<comment> \<open>Three valid features, of which a tree is to use a tenth.\<close>
  "ex_learner3 = ex_learner\<lparr>num_features_' := 3, valid_feature_indices_' := [0, 1, 2],
     is_feature_used_' := [True, True, True],
     config_' := ex_config\<lparr>feature_fraction := 1 / 10\<rparr>\<rparr>"

definition ex_learner_min5 :: SerialTreeLearner where
  \<comment> \<open>Two examples in the root and \<open>min_data_in_leaf = 5\<close>.\<close>
  "ex_learner_min5 = ex_learner2\<lparr>config_' := ex_config\<lparr>min_data_in_leaf := 5\<rparr>\<rparr>"

definition ex_env_neg :: Env where
  \<comment> \<open>As \<open>ex_env\<close>, but every forced split is gathered with the gain \<open>-1\<close>.\<close>
  "ex_env_neg = ex_env\<lparr>GatherInfoForThreshold := (\<lambda>f fh sg sh t n. ex_split (- 1))\<rparr>"

definition ex_learner_min5p :: SerialTreeLearner where
  \<comment> \<open>\<open>ex_learner_min5\<close> with the histogram pointers that an earlier tree has left.\<close>
  "ex_learner_min5p = ex_learner_min5\<lparr>smaller_leaf_histogram_array_' := Some 0,
     larger_leaf_histogram_array_' := Some 1\<rparr>"

definition ex_root_template :: Json where
  "ex_root_template = JObject (Some 0) (Some 0) JNull JNull"

definition ex_prepared :: SerialTreeLearner where
  \<comment> \<open>\<open>ex_learner_min5p\<close> as \<^verbatim>\<open>BeforeTrain\<close> leaves it.\<close>
  "ex_prepared = ex_learner_min5p\<lparr>
     histogram_pool_' := ResetMap ex_pool, is_feature_used_' := [True],
     data_partition_' := DataPartition_Init ex_partition2,
     constraints_' := (\<lambda>l. (None, None)),
     best_split_per_leaf_' := [SplitInfo_Reset (ex_split 1), SplitInfo_Reset SplitInfo_new],
     smaller_leaf_splits_' := LeafSplits_Init_all 2 ex_ones ex_ones ex_leaf_splits,
     larger_leaf_splits_' := LeafSplits_Init_none ex_leaf_splits\<rparr>"

definition ex_learner_min0 :: SerialTreeLearner where
  \<comment> \<open>Two examples in the root, \<open>num_leaves = 2\<close> and \<open>min_data_in_leaf = 0\<close>.\<close>
  "ex_learner_min0 = ex_learner2\<lparr>config_' := ex_config\<lparr>min_data_in_leaf := 0\<rparr>\<rparr>"

definition ex_prepared_min0 :: SerialTreeLearner where
  \<comment> \<open>\<open>ex_learner_min0\<close> as \<^verbatim>\<open>BeforeTrain\<close> leaves it.\<close>
  "ex_prepared_min0 = ex_learner_min0\<lparr>
     histogram_pool_' := ResetMap ex_pool, is_feature_used_' := [True],
     data_partition_' := DataPartition_Init ex_partition2,
     constraints_' := (\<lambda>l. (None, None)),
     best_split_per_leaf_' := [SplitInfo_Reset (ex_split 1), SplitInfo_Reset SplitInfo_new],
     smaller_leaf_splits_' := LeafSplits_Init_all 2 ex_ones ex_ones ex_leaf_splits,
     larger_leaf_splits_' := LeafSplits_Init_none ex_leaf_splits\<rparr>"

definition ex_env_swap :: Env where
  \<comment> \<open>As \<open>ex_env\<close>, with two features whose inner order is the reverse of their real order.\<close>
  "ex_env_swap = ex_env\<lparr>
     RealFeatureIndex := (\<lambda>f. if f = 0 then 1 else if f = 1 then 0 else int f),
     InnerFeatureIndex := (\<lambda>r. if r = 0 then 1 else if r = 1 then 0 else r)\<rparr>"

definition ex_pool_two :: HistogramPool where
  "ex_pool_two = ex_pool\<lparr>slots := [[ex_histogram, ex_histogram], [ex_histogram, ex_histogram]]\<rparr>"

definition ex_learner_two :: SerialTreeLearner where
  \<comment> \<open>Two features; the root, with one example, is the smaller leaf and has buffer 0.\<close>
  "ex_learner_two = ex_learner\<lparr>num_features_' := 2, is_feature_used_' := [True, True],
     valid_feature_indices_' := [0, 1], histogram_pool_' := ex_pool_two,
     smaller_leaf_histogram_array_' := Some 0,
     smaller_leaf_splits_' := ex_leaf_splits\<lparr>leaf_index := 0, num_data_in_leaf := 1,
        data_indices := [0]\<rparr>\<rparr>"

definition ex_twos :: "nat \<Rightarrow> real" where
  "ex_twos i = 2"

definition ex_fitted_outputs :: "int \<Rightarrow> real" where
  "ex_fitted_outputs leaf = - 2"

definition ex_tree_fitted :: Tree where
  \<comment> \<open>The one-leaf tree whose output is the one the output formula gives for one example
      with gradient \<open>2\<close> and hessian \<open>1\<close>.\<close>
  "ex_tree_fitted = ex_tree\<lparr>leaf_value := ex_fitted_outputs\<rparr>"


definition ex_env_hook :: Env where
  \<comment> \<open>As \<open>ex_env\<close>, with cost-efficient boosting whose update of the best splits stores a
      split of gain 5 for leaf 0.\<close>
  "ex_env_hook = ex_env\<lparr>UpdateLeafBestSplits := (\<lambda>c t l best. (best[0 := ex_split 5], c))\<rparr>"

definition ex_run3 :: "int \<Rightarrow> nat list" where
  "ex_run3 leaf = (if leaf = 0 then [0, 1] else if leaf = 1 then [2, 3] else if leaf = 2 then [4] else [])"

definition ex_partition3 :: DataPartition where
  "ex_partition3 = \<lparr>dp_num_data = 5, dp_num_leaves = 5, leaf_run = ex_run3, used_data_indices = None\<rparr>"

definition ex_tree3 :: Tree where
  \<comment> \<open>The root was split, then its left child: leaves 0, 1 and 2.\<close>
  "ex_tree3 = ex_tree\<lparr>tree_num_leaves := 3, tree_splits := [(0, 0), (0, 0)]\<rparr>"

definition ex_learner_cegb :: SerialTreeLearner where
  \<comment> \<open>Five examples in three leaves, \<open>min_data_in_leaf = 5\<close>, cost-efficient boosting on.\<close>
  "ex_learner_cegb = ex_learner\<lparr>num_data_' := 5, data_partition_' := ex_partition3,
     config_' := ex_config\<lparr>num_leaves := 5, min_data_in_leaf := 5\<rparr>,
     best_split_per_leaf_' := [ex_split 3, ex_split 1, SplitInfo_new, SplitInfo_new, SplitInfo_new],
     cegb_' := Some (CEGB [])\<rparr>"

definition ex_learner_big :: SerialTreeLearner where
  \<comment> \<open>Two examples in the root and \<open>min_data_in_leaf = 2^30\<close>.\<close>
  "ex_learner_big = ex_learner2\<lparr>config_' := ex_config\<lparr>min_data_in_leaf := 1073741824\<rparr>\<rparr>"

definition ex_eps_hessians :: "nat \<Rightarrow> real" where
  "ex_eps_hessians i = kEpsilon"

definition ex_eps_outputs :: "int \<Rightarrow> real" where
  "ex_eps_outputs leaf = - 1 / kEpsilon"

definition ex_tree_eps :: Tree where
  \<comment> \<open>The one-leaf tree whose output is the one the output formula gives for one example
      with gradient \<open>1\<close> and hessian \<^verbatim>\<open>kEpsilon\<close>.\<close>
  "ex_tree_eps = ex_tree\<lparr>leaf_value := ex_eps_outputs\<rparr>"







section \<open>Theorems\<close>

subsection \<open>FitByExistingTree: the refit formula\<close>

lemma kEpsilon_pos: "0 < kEpsilon"
  by (simp add: kEpsilon_def)

lemma accumulate_leaf_sums:
  "accumulate_leaf g h idx (a, b) = (a + sum_list (map g idx), b + sum_list (map h idx))"
  by (induction idx arbitrary: a b) (simp_all add: add.assoc)

lemma leaf_sums_eq:
  "leaf_sums g h idx = (sum_list (map g idx), kEpsilon + sum_list (map h idx))"
  by (simp add: leaf_sums_def accumulate_leaf_sums)

lemma refit_leaf_frame:
  "tree_num_leaves (refit_leaf s g h i t) = tree_num_leaves t"
  "shrinkage (refit_leaf s g h i t) = shrinkage t"
  "j \<noteq> i \<Longrightarrow> LeafOutput (refit_leaf s g h i t) j = LeafOutput t j"
  by (simp_all add: refit_leaf_def SetLeafOutput_def LeafOutput_def leaf_sums_eq)

lemma refit_leaf_output:
  "LeafOutput (refit_leaf s g h i t) i = refit_output s t g h kEpsilon i"
  by (simp add: refit_leaf_def SetLeafOutput_def LeafOutput_def leaf_sums_eq
      refit_output_def mult.commute)

lemma refit_leaves_untouched:
  "l \<notin> set ls \<Longrightarrow> LeafOutput (refit_leaves s g h ls t) l = LeafOutput t l"
  by (induction ls arbitrary: t) (auto simp: refit_leaf_frame)

lemma refit_output_cong:
  "shrinkage t' = shrinkage t \<Longrightarrow> LeafOutput t' l = LeafOutput t l \<Longrightarrow>
   refit_output s t' g h e l = refit_output s t g h e l"
  by (simp add: refit_output_def)

lemma refit_leaves_output:
  "distinct ls \<Longrightarrow> l \<in> set ls \<Longrightarrow>
   LeafOutput (refit_leaves s g h ls t) l = refit_output s t g h kEpsilon l"
proof (induction ls arbitrary: t)
  case Nil
  then show ?case by simp
next
  case (Cons i rest)
  show ?case
  proof (cases "l = i")
    case True
    with Cons.prems have "l \<notin> set rest" by simp
    then show ?thesis
      using True by (simp add: refit_leaves_untouched refit_leaf_output)
  next
    case False
    with Cons.prems have "distinct rest" "l \<in> set rest" by simp_all
    then have "LeafOutput (refit_leaves s g h rest (refit_leaf s g h i t)) l
      = refit_output s (refit_leaf s g h i t) g h kEpsilon l"
      by (rule Cons.IH)
    also have "\<dots> = refit_output s t g h kEpsilon l"
      using False by (intro refit_output_cong) (simp_all add: refit_leaf_frame)
    finally show ?thesis by simp
  qed
qed

text \<open>
  The offset \<open>e\<close> that the refit adds to the hessian sum moves the leaf output, clipped or
  not, by at most the fraction \<open>e / (sum_h + l2 + e)\<close> of its size.
\<close>

lemma clip_offset_bound:
  fixes T D e mds :: real
  assumes D: "0 < D" and e: "0 \<le> e"
  defines "c \<equiv> \<lambda>x. if mds \<le> 0 \<or> \<bar>x\<bar> \<le> mds then x else sgn x * mds"
  shows "\<bar>c (- T / (D + e)) - c (- T / D)\<bar> \<le> \<bar>c (- T / D)\<bar> * e / (D + e)"
proof -
  define k where "k = D / (D + e)"
  define r0 where "r0 = - T / D"
  define r1 where "r1 = - T / (D + e)"
  have De: "0 < D + e" using D e by simp
  have k: "0 < k" "k \<le> 1" using D e by (simp_all add: k_def)
  have k1: "1 - k = e / (D + e)" using De by (simp add: k_def field_simps)
  have r1: "r1 = r0 * k" using D De by (simp add: r1_def r0_def k_def)
  have a1: "\<bar>r1\<bar> = \<bar>r0\<bar> * k" using k by (simp add: r1 abs_mult)
  have le: "\<bar>r1\<bar> \<le> \<bar>r0\<bar>"
    unfolding a1 using k mult_left_le [of k "\<bar>r0\<bar>"] by simp
  have sg: "sgn r1 = sgn r0" using k by (simp add: r1 sgn_mult)
  have goal: "\<bar>c r1 - c r0\<bar> \<le> \<bar>c r0\<bar> * (1 - k)"
  proof (cases "mds \<le> 0 \<or> \<bar>r0\<bar> \<le> mds")
    case True
    then have c0: "c r0 = r0" by (simp add: c_def)
    from True le have c1: "c r1 = r1" by (auto simp: c_def)
    have "\<bar>r1 - r0\<bar> = \<bar>r0 * (k - 1)\<bar>" by (simp add: r1 algebra_simps)
    also have "\<dots> = \<bar>r0\<bar> * (1 - k)" using k by (simp add: abs_mult)
    finally show ?thesis by (simp add: c0 c1)
  next
    case False
    then have m: "0 < mds" "mds < \<bar>r0\<bar>" by simp_all
    then have c0: "c r0 = sgn r0 * mds" by (simp add: c_def)
    have s0: "\<bar>sgn r0\<bar> = 1" using m by (simp add: abs_sgn_eq)
    have ac0: "\<bar>c r0\<bar> = mds" using m s0 by (simp add: c0 abs_mult)
    show ?thesis
    proof (cases "\<bar>r1\<bar> \<le> mds")
      case False
      with m have "c r1 = sgn r1 * mds" by (simp add: c_def)
      then have "c r1 = c r0" by (simp add: c0 sg)
      then show ?thesis using k m by (simp add: ac0)
    next
      case True
      then have c1: "c r1 = r1" by (simp add: c_def)
      have eq: "r1 = sgn r0 * \<bar>r1\<bar>" using sg by (metis mult_sgn_abs)
      have "c r1 - c r0 = r1 - sgn r0 * mds" by (simp add: c0 c1)
      also have "\<dots> = sgn r0 * \<bar>r1\<bar> - sgn r0 * mds" using eq by linarith
      also have "\<dots> = sgn r0 * (\<bar>r1\<bar> - mds)" by (simp add: right_diff_distrib)
      finally have "\<bar>c r1 - c r0\<bar> = \<bar>sgn r0\<bar> * \<bar>\<bar>r1\<bar> - mds\<bar>"
        by (simp only: abs_mult)
      then have "\<bar>c r1 - c r0\<bar> = mds - \<bar>r1\<bar>"
        using True s0 by simp
      also have "\<dots> \<le> mds - mds * k"
        using m k by (simp add: a1)
      also have "\<dots> = mds * (1 - k)" by (simp add: algebra_simps)
      finally show ?thesis by (simp add: ac0)
    qed
  qed
  then show ?thesis
    by (simp add: k1 r0_def r1_def)
qed

lemma CalculateSplittedLeafOutput_offset:
  assumes "0 < sum_h + l2" "0 \<le> e"
  shows "\<bar>CalculateSplittedLeafOutput sum_g (e + sum_h) l1 l2 mds
          - CalculateSplittedLeafOutput sum_g sum_h l1 l2 mds\<bar>
     \<le> \<bar>CalculateSplittedLeafOutput sum_g sum_h l1 l2 mds\<bar> * e / (sum_h + l2 + e)"
proof -
  have eq: "e + sum_h + l2 = sum_h + l2 + e" by simp
  from clip_offset_bound [OF assms, of mds "ThresholdL1 sum_g l1"] show ?thesis
    unfolding CalculateSplittedLeafOutput_def Let_def eq .
qed

text \<open>
  Claim C6, as amended. When the check on the number of leaves passes, \<^verbatim>\<open>FitByExistingTree\<close>
  returns a tree in which every leaf \<open>l\<close> of the old tree has the output
  \<open>refit_decay_rate * old_output + (1 - refit_decay_rate) * shrinkage * optimal_output(sum_g,
  kEpsilon + sum_h)\<close>, the sums taken over the indices the data partition assigns to \<open>l\<close>:
  the hessian sum handed to the output formula carries the additive offset \<^verbatim>\<open>kEpsilon\<close>.
  With \<open>refit_decay_rate = 0\<close>, the same partition and gradients, that is an old output
  equal to \<open>shrinkage * optimal_output(sum_g, sum_h)\<close>, and \<open>sum_h + lambda_l2 > 0\<close>, the new
  output differs from the old one by at most
  \<open>|old_output| * kEpsilon / (sum_h + lambda_l2 + kEpsilon)\<close>: the original outputs are
  reproduced up to this relative error, which is an absolute error below \<^verbatim>\<open>kEpsilon\<close> only
  for outputs smaller than \<open>sum_h + lambda_l2 + kEpsilon\<close>.
\<close>

theorem C6_refit_formula:
  assumes "tree_num_leaves old_tree \<le> dp_num_leaves (data_partition_' s)"
  shows "\<exists>tree. FitByExistingTree s old_tree g h = Inr tree
    \<and> (\<forall>l. 0 \<le> l \<and> l < tree_num_leaves old_tree \<longrightarrow>
          LeafOutput tree l = refit_output s old_tree g h kEpsilon l
        \<and> (refit_decay_rate (config_' s) = 0
            \<and> 0 < sum_list (map h (GetIndexOnLeaf (data_partition_' s) l)) + lambda_l2 (config_' s)
            \<and> LeafOutput old_tree l = shrinkage old_tree * CalculateSplittedLeafOutput
                 (sum_list (map g (GetIndexOnLeaf (data_partition_' s) l)))
                 (sum_list (map h (GetIndexOnLeaf (data_partition_' s) l)))
                 (lambda_l1 (config_' s)) (lambda_l2 (config_' s)) (max_delta_step (config_' s))
            \<longrightarrow> \<bar>LeafOutput tree l - LeafOutput old_tree l\<bar>
                  \<le> \<bar>LeafOutput old_tree l\<bar> * kEpsilon
                     / (sum_list (map h (GetIndexOnLeaf (data_partition_' s) l))
                        + lambda_l2 (config_' s) + kEpsilon)))"
proof -
  let ?ls = "[0 .. tree_num_leaves old_tree - 1]"
  let ?t = "refit_leaves s g h ?ls old_tree"
  have run: "FitByExistingTree s old_tree g h = Inr ?t"
    using assms by (simp add: FitByExistingTree_def)
  have out: "LeafOutput ?t l = refit_output s old_tree g h kEpsilon l"
    if "0 \<le> l" "l < tree_num_leaves old_tree" for l
    using that by (intro refit_leaves_output) simp_all
  have trip: "\<bar>LeafOutput ?t l - LeafOutput old_tree l\<bar>
                  \<le> \<bar>LeafOutput old_tree l\<bar> * kEpsilon
                     / (sum_list (map h (GetIndexOnLeaf (data_partition_' s) l))
                        + lambda_l2 (config_' s) + kEpsilon)"
    if l: "0 \<le> l" "l < tree_num_leaves old_tree"
      and d: "refit_decay_rate (config_' s) = 0"
      and pos: "0 < sum_list (map h (GetIndexOnLeaf (data_partition_' s) l)) + lambda_l2 (config_' s)"
      and old: "LeafOutput old_tree l = shrinkage old_tree * CalculateSplittedLeafOutput
                 (sum_list (map g (GetIndexOnLeaf (data_partition_' s) l)))
                 (sum_list (map h (GetIndexOnLeaf (data_partition_' s) l)))
                 (lambda_l1 (config_' s)) (lambda_l2 (config_' s)) (max_delta_step (config_' s))"
    for l
  proof -
    let ?G = "sum_list (map g (GetIndexOnLeaf (data_partition_' s) l))"
    let ?H = "sum_list (map h (GetIndexOnLeaf (data_partition_' s) l))"
    let ?c = "\<lambda>H. CalculateSplittedLeafOutput ?G H
                 (lambda_l1 (config_' s)) (lambda_l2 (config_' s)) (max_delta_step (config_' s))"
    let ?q = "kEpsilon / (?H + lambda_l2 (config_' s) + kEpsilon)"
    have new: "LeafOutput ?t l = shrinkage old_tree * ?c (kEpsilon + ?H)"
      using out [OF l] d by (simp add: refit_output_def)
    have b: "\<bar>?c (kEpsilon + ?H) - ?c ?H\<bar> \<le> \<bar>?c ?H\<bar> * kEpsilon / (?H + lambda_l2 (config_' s) + kEpsilon)"
      using pos kEpsilon_pos by (intro CalculateSplittedLeafOutput_offset) simp_all
    have "\<bar>LeafOutput ?t l - LeafOutput old_tree l\<bar>
        = \<bar>shrinkage old_tree\<bar> * \<bar>?c (kEpsilon + ?H) - ?c ?H\<bar>"
      unfolding new old by (simp only: right_diff_distrib [symmetric] abs_mult)
    also have "\<dots> \<le> \<bar>shrinkage old_tree\<bar> * (\<bar>?c ?H\<bar> * kEpsilon / (?H + lambda_l2 (config_' s) + kEpsilon))"
      using b by (intro mult_left_mono) simp_all
    also have "\<dots> = \<bar>LeafOutput old_tree l\<bar> * kEpsilon / (?H + lambda_l2 (config_' s) + kEpsilon)"
      unfolding old by (simp only: abs_mult times_divide_eq_right mult.assoc)
    finally show ?thesis .
  qed
  from run out trip show ?thesis by blast
qed

text \<open>
  The theorem at a one-leaf tree with one example of gradient \<open>2\<close> and hessian \<open>1\<close>, whose
  old output \<open>-2\<close> is the one the output formula gives.
\<close>

lemma ex_fit_twos: "FitByExistingTree ex_learner ex_tree_fitted ex_twos ex_ones
  = Inr (refit_leaf ex_learner ex_twos ex_ones 0 ex_tree_fitted)"
  by (simp add: FitByExistingTree_def ex_tree_fitted_def ex_tree_def ex_learner_def
      ex_partition_def upto.simps)

lemma ex_refit_output_twos:
  "refit_output ex_learner ex_tree_fitted ex_twos ex_ones e 0 = - 2 / (1 + e)"
  by (simp add: refit_output_def ex_config_def ex_partition_def ex_learner_def
      ex_tree_fitted_def ex_tree_def ex_ones_def ex_twos_def ex_run_def GetIndexOnLeaf_def
      LeafOutput_def CalculateSplittedLeafOutput_def ThresholdL1_def Let_def add.commute)

lemma ex_fitted_is_formula:
  "LeafOutput ex_tree_fitted 0 = shrinkage ex_tree_fitted * CalculateSplittedLeafOutput
     (sum_list (map ex_twos (GetIndexOnLeaf (data_partition_' ex_learner) 0)))
     (sum_list (map ex_ones (GetIndexOnLeaf (data_partition_' ex_learner) 0)))
     (lambda_l1 (config_' ex_learner)) (lambda_l2 (config_' ex_learner))
     (max_delta_step (config_' ex_learner))"
  "sum_list (map ex_ones (GetIndexOnLeaf (data_partition_' ex_learner) 0)) = 1"
  "lambda_l2 (config_' ex_learner) = 0" "refit_decay_rate (config_' ex_learner) = 0"
  "LeafOutput ex_tree_fitted 0 = - 2"
  by (simp_all add: ex_config_def ex_partition_def ex_learner_def
      ex_tree_fitted_def ex_tree_def ex_ones_def ex_twos_def ex_run_def GetIndexOnLeaf_def
      LeafOutput_def ex_fitted_outputs_def CalculateSplittedLeafOutput_def ThresholdL1_def Let_def)

theorem C6_witness:
  "tree_num_leaves ex_tree_fitted \<le> dp_num_leaves (data_partition_' ex_learner)
   \<and> refit_decay_rate (config_' ex_learner) = 0
   \<and> LeafOutput ex_tree_fitted 0 = - 2
   \<and> LeafOutput (refit_leaf ex_learner ex_twos ex_ones 0 ex_tree_fitted) 0 = - 2 / (1 + kEpsilon)
   \<and> \<bar>LeafOutput (refit_leaf ex_learner ex_twos ex_ones 0 ex_tree_fitted) 0
        - LeafOutput ex_tree_fitted 0\<bar> \<le> 2 * kEpsilon / (1 + kEpsilon)"
proof -
  have h: "tree_num_leaves ex_tree_fitted \<le> dp_num_leaves (data_partition_' ex_learner)"
    by (simp add: ex_tree_fitted_def ex_tree_def ex_learner_def ex_partition_def)
  have n: "tree_num_leaves ex_tree_fitted = 1" by (simp add: ex_tree_fitted_def ex_tree_def)
  from C6_refit_formula [OF h, of ex_twos ex_ones]
  obtain tree where t: "FitByExistingTree ex_learner ex_tree_fitted ex_twos ex_ones = Inr tree"
    and o: "LeafOutput tree 0 = refit_output ex_learner ex_tree_fitted ex_twos ex_ones kEpsilon 0"
    and r: "refit_decay_rate (config_' ex_learner) = 0
            \<and> 0 < sum_list (map ex_ones (GetIndexOnLeaf (data_partition_' ex_learner) 0))
                   + lambda_l2 (config_' ex_learner)
            \<and> LeafOutput ex_tree_fitted 0 = shrinkage ex_tree_fitted * CalculateSplittedLeafOutput
                 (sum_list (map ex_twos (GetIndexOnLeaf (data_partition_' ex_learner) 0)))
                 (sum_list (map ex_ones (GetIndexOnLeaf (data_partition_' ex_learner) 0)))
                 (lambda_l1 (config_' ex_learner)) (lambda_l2 (config_' ex_learner))
                 (max_delta_step (config_' ex_learner))
            \<longrightarrow> \<bar>LeafOutput tree 0 - LeafOutput ex_tree_fitted 0\<bar>
                  \<le> \<bar>LeafOutput ex_tree_fitted 0\<bar> * kEpsilon
                     / (sum_list (map ex_ones (GetIndexOnLeaf (data_partition_' ex_learner) 0))
                        + lambda_l2 (config_' ex_learner) + kEpsilon)"
    unfolding n by (elim exE conjE) (metis zero_less_one order_refl)
  have tr: "tree = refit_leaf ex_learner ex_twos ex_ones 0 ex_tree_fitted"
    using t ex_fit_twos by simp
  from r ex_fitted_is_formula(1) have
    "\<bar>LeafOutput tree 0 - LeafOutput ex_tree_fitted 0\<bar> \<le> 2 * kEpsilon / (1 + kEpsilon)"
    by (simp add: ex_fitted_is_formula(2-5))
  with h o tr show ?thesis
    by (simp add: ex_refit_output_twos ex_fitted_is_formula(4,5))
qed

lemma ex_fit_eps: "FitByExistingTree ex_learner ex_tree_eps ex_ones ex_eps_hessians
  = Inr (refit_leaf ex_learner ex_ones ex_eps_hessians 0 ex_tree_eps)"
  by (simp add: FitByExistingTree_def ex_tree_eps_def ex_tree_def ex_learner_def
      ex_partition_def upto.simps)

lemma ex_refit_output_eps:
  "refit_output ex_learner ex_tree_eps ex_ones ex_eps_hessians e 0 = - 1 / (e + kEpsilon)"
  by (simp add: refit_output_def ex_config_def ex_partition_def ex_learner_def
      ex_tree_eps_def ex_tree_def ex_ones_def ex_eps_hessians_def ex_run_def GetIndexOnLeaf_def
      LeafOutput_def CalculateSplittedLeafOutput_def ThresholdL1_def Let_def)

lemma ex_eps_is_formula:
  "LeafOutput ex_tree_eps 0 = shrinkage ex_tree_eps * CalculateSplittedLeafOutput
     (sum_list (map ex_ones (GetIndexOnLeaf (data_partition_' ex_learner) 0)))
     (sum_list (map ex_eps_hessians (GetIndexOnLeaf (data_partition_' ex_learner) 0)))
     (lambda_l1 (config_' ex_learner)) (lambda_l2 (config_' ex_learner))
     (max_delta_step (config_' ex_learner))"
  "LeafOutput ex_tree_eps 0 = - 1 / kEpsilon"
  by (simp_all add: ex_config_def ex_partition_def ex_learner_def
      ex_tree_eps_def ex_tree_def ex_ones_def ex_eps_hessians_def ex_run_def GetIndexOnLeaf_def
      LeafOutput_def ex_eps_outputs_def CalculateSplittedLeafOutput_def ThresholdL1_def Let_def)

text \<open>
  Claim C6 as stated fails there: the code computes \<open>- 2 / (1 + kEpsilon)\<close>, which is further
  than \<^verbatim>\<open>kEpsilon\<close> from the value \<open>-2\<close> of the stated formula, and further than \<^verbatim>\<open>kEpsilon\<close>
  from the original output \<open>-2\<close>. At one example with gradient \<open>1\<close> and hessian
  \<^verbatim>\<open>kEpsilon\<close>, whose original output \<open>- 1 / kEpsilon\<close> is the value of the stated formula,
  the code computes half of it.
\<close>

theorem C6_counterexample:
  "(LeafOutput ex_tree_fitted 0 = shrinkage ex_tree_fitted * CalculateSplittedLeafOutput
     (sum_list (map ex_twos (GetIndexOnLeaf (data_partition_' ex_learner) 0)))
     (sum_list (map ex_ones (GetIndexOnLeaf (data_partition_' ex_learner) 0)))
     (lambda_l1 (config_' ex_learner)) (lambda_l2 (config_' ex_learner))
     (max_delta_step (config_' ex_learner))
   \<and> refit_decay_rate (config_' ex_learner) = 0
   \<and> FitByExistingTree ex_learner ex_tree_fitted ex_twos ex_ones
       = Inr (refit_leaf ex_learner ex_twos ex_ones 0 ex_tree_fitted)
   \<and> kEpsilon < \<bar>LeafOutput (refit_leaf ex_learner ex_twos ex_ones 0 ex_tree_fitted) 0
                  - refit_output ex_learner ex_tree_fitted ex_twos ex_ones 0 0\<bar>
   \<and> kEpsilon < \<bar>LeafOutput (refit_leaf ex_learner ex_twos ex_ones 0 ex_tree_fitted) 0
                  - LeafOutput ex_tree_fitted 0\<bar>)
   \<and> (LeafOutput ex_tree_eps 0 = shrinkage ex_tree_eps * CalculateSplittedLeafOutput
     (sum_list (map ex_ones (GetIndexOnLeaf (data_partition_' ex_learner) 0)))
     (sum_list (map ex_eps_hessians (GetIndexOnLeaf (data_partition_' ex_learner) 0)))
     (lambda_l1 (config_' ex_learner)) (lambda_l2 (config_' ex_learner))
     (max_delta_step (config_' ex_learner))
   \<and> FitByExistingTree ex_learner ex_tree_eps ex_ones ex_eps_hessians
       = Inr (refit_leaf ex_learner ex_ones ex_eps_hessians 0 ex_tree_eps)
   \<and> LeafOutput ex_tree_eps 0
       = refit_output ex_learner ex_tree_eps ex_ones ex_eps_hessians 0 0
   \<and> LeafOutput (refit_leaf ex_learner ex_ones ex_eps_hessians 0 ex_tree_eps) 0
       = LeafOutput ex_tree_eps 0 / 2
   \<and> LeafOutput ex_tree_eps 0 < - 1)"
proof -
  have "- 2 / (1 + kEpsilon) - (- 2) = 2 * kEpsilon / (1 + kEpsilon)"
    using kEpsilon_pos by (simp add: field_simps)
  moreover have "kEpsilon < 2 * kEpsilon / (1 + kEpsilon)"
    using kEpsilon_pos by (simp add: field_simps kEpsilon_def)
  ultimately have "kEpsilon < \<bar>- 2 / (1 + kEpsilon) - (- 2)\<bar>"
    using kEpsilon_pos by simp
  then have first: "LeafOutput ex_tree_fitted 0 = shrinkage ex_tree_fitted * CalculateSplittedLeafOutput
     (sum_list (map ex_twos (GetIndexOnLeaf (data_partition_' ex_learner) 0)))
     (sum_list (map ex_ones (GetIndexOnLeaf (data_partition_' ex_learner) 0)))
     (lambda_l1 (config_' ex_learner)) (lambda_l2 (config_' ex_learner))
     (max_delta_step (config_' ex_learner))
   \<and> refit_decay_rate (config_' ex_learner) = 0
   \<and> FitByExistingTree ex_learner ex_tree_fitted ex_twos ex_ones
       = Inr (refit_leaf ex_learner ex_twos ex_ones 0 ex_tree_fitted)
   \<and> kEpsilon < \<bar>LeafOutput (refit_leaf ex_learner ex_twos ex_ones 0 ex_tree_fitted) 0
                  - refit_output ex_learner ex_tree_fitted ex_twos ex_ones 0 0\<bar>
   \<and> kEpsilon < \<bar>LeafOutput (refit_leaf ex_learner ex_twos ex_ones 0 ex_tree_fitted) 0
                  - LeafOutput ex_tree_fitted 0\<bar>"
    using ex_fit_twos ex_fitted_is_formula(1)
    by (simp add: refit_leaf_output ex_refit_output_twos ex_fitted_is_formula(4,5))
  have "- 1 / kEpsilon < - 1"
    by (simp add: kEpsilon_def)
  then have second: "LeafOutput ex_tree_eps 0 = shrinkage ex_tree_eps * CalculateSplittedLeafOutput
     (sum_list (map ex_ones (GetIndexOnLeaf (data_partition_' ex_learner) 0)))
     (sum_list (map ex_eps_hessians (GetIndexOnLeaf (data_partition_' ex_learner) 0)))
     (lambda_l1 (config_' ex_learner)) (lambda_l2 (config_' ex_learner))
     (max_delta_step (config_' ex_learner))
   \<and> FitByExistingTree ex_learner ex_tree_eps ex_ones ex_eps_hessians
       = Inr (refit_leaf ex_learner ex_ones ex_eps_hessians 0 ex_tree_eps)
   \<and> LeafOutput ex_tree_eps 0
       = refit_output ex_learner ex_tree_eps ex_ones ex_eps_hessians 0 0
   \<and> LeafOutput (refit_leaf ex_learner ex_ones ex_eps_hessians 0 ex_tree_eps) 0
       = LeafOutput ex_tree_eps 0 / 2
   \<and> LeafOutput ex_tree_eps 0 < - 1"
    using ex_fit_eps ex_eps_is_formula(1)
    by (simp add: refit_leaf_output ex_refit_output_eps ex_eps_is_formula(2))
  from first second show ?thesis by (rule conjI)
qed

subsection \<open>FitByExistingTree: the hessian sum\<close>

text \<open>
  Claim C7, as amended. The hessian sum handed to the output formula is \<open>kEpsilon\<close> plus the
  hessians of the leaf's examples. For a leaf without examples it is \<open>kEpsilon\<close>; when the
  hessians of the leaf's examples are non-negative it is at least \<open>kEpsilon\<close>, and with
  \<open>lambda_l2 \<ge> 0\<close> the denominator \<open>sum_hess + lambda_l2\<close> of the output formula is positive.
\<close>

theorem C7_hessian_floor:
  "snd (leaf_sums g h tmp_idx) = kEpsilon + sum_list (map h tmp_idx)
   \<and> snd (leaf_sums g h []) = kEpsilon
   \<and> ((\<forall>i \<in> set tmp_idx. 0 \<le> h i) \<longrightarrow>
        kEpsilon \<le> snd (leaf_sums g h tmp_idx)
        \<and> (0 \<le> l2 \<longrightarrow> 0 < snd (leaf_sums g h tmp_idx) + l2))"
proof -
  have "0 \<le> sum_list (map h tmp_idx)" if "\<forall>i \<in> set tmp_idx. 0 \<le> h i"
    using that by (intro sum_list_nonneg) auto
  then show ?thesis
    using kEpsilon_pos by (auto simp: leaf_sums_eq)
qed

theorem C7_witness:
  "GetIndexOnLeaf ex_partition 0 = [0] \<and> 0 \<le> ex_ones 0
   \<and> kEpsilon \<le> snd (leaf_sums ex_ones ex_ones (GetIndexOnLeaf ex_partition 0))
   \<and> 0 < snd (leaf_sums ex_ones ex_ones (GetIndexOnLeaf ex_partition 0)) + lambda_l2 ex_config"
proof -
  have h: "\<forall>i \<in> set (GetIndexOnLeaf ex_partition 0). 0 \<le> ex_ones i"
    by (simp add: ex_ones_def)
  have l: "0 \<le> lambda_l2 ex_config"
    by (simp add: ex_config_def)
  have r: "GetIndexOnLeaf ex_partition 0 = [0]" "0 \<le> ex_ones 0"
    by (simp_all add: GetIndexOnLeaf_def ex_partition_def ex_run_def ex_ones_def)
  show ?thesis
    using h l r C7_hessian_floor [of ex_ones ex_ones "GetIndexOnLeaf ex_partition 0" "lambda_l2 ex_config"]
    by blast
qed

text \<open>
  Claim C7 as stated fails for a negative hessian: with the single hessian \<open>- kEpsilon\<close> the
  sum handed to the output formula is \<open>0\<close>, below \<open>kEpsilon\<close>, and with \<open>lambda_l2 = 0\<close>
  the denominator is \<open>0\<close>.
\<close>

theorem C7_counterexample:
  "snd (leaf_sums ex_ones ex_neg_hessians (GetIndexOnLeaf ex_partition 0)) = 0
   \<and> \<not> kEpsilon \<le> snd (leaf_sums ex_ones ex_neg_hessians (GetIndexOnLeaf ex_partition 0))
   \<and> snd (leaf_sums ex_ones ex_neg_hessians (GetIndexOnLeaf ex_partition 0)) + lambda_l2 ex_config = 0"
  using kEpsilon_pos
  by (simp add: leaf_sums_eq GetIndexOnLeaf_def ex_partition_def ex_run_def ex_neg_hessians_def
      ex_config_def)

subsection \<open>ResetConfig with an unchanged number of leaves\<close>

text \<open>
  Claim C10. When the new configuration has the number of leaves of the current one,
  \<^verbatim>\<open>ResetConfig\<close> replaces the configuration, hands it to the pool, and (when cost-efficient
  boosting is enabled) renews the boosting state; nothing else changes. In particular
  the capacity, the buffers and the bindings of the pool, \<^verbatim>\<open>best_split_per_leaf_\<close> and the
  data partition are as before, whatever the other settings of the new configuration.
\<close>

theorem C10_ResetConfig_same_num_leaves:
  assumes "num_leaves cfg = num_leaves (config_' s)"
  shows "ResetConfig env s cfg =
           (let s' = s\<lparr>config_' := cfg,
                       histogram_pool_' := HistogramPool_ResetConfig cfg (histogram_pool_' s)\<rparr>
            in if IsEnable env cfg then s'\<lparr>cegb_' := Some (cegb_Init env s')\<rparr> else s')
    \<and> cache_size (histogram_pool_' (ResetConfig env s cfg)) = cache_size (histogram_pool_' s)
    \<and> slots (histogram_pool_' (ResetConfig env s cfg)) = slots (histogram_pool_' s)
    \<and> slot_leaf (histogram_pool_' (ResetConfig env s cfg)) = slot_leaf (histogram_pool_' s)
    \<and> best_split_per_leaf_' (ResetConfig env s cfg) = best_split_per_leaf_' s
    \<and> data_partition_' (ResetConfig env s cfg) = data_partition_' s"
  using assms by (simp add: ResetConfig_def HistogramPool_ResetConfig_def Let_def)

text \<open>The theorem at a configuration that changes the pool size and the depth limit.\<close>

theorem C10_witness:
  "num_leaves ex_config2 = num_leaves (config_' ex_learner)
   \<and> histogram_pool_size ex_config2 \<noteq> histogram_pool_size (config_' ex_learner)
   \<and> ResetConfig ex_env ex_learner ex_config2
      = ex_learner\<lparr>config_' := ex_config2,
          histogram_pool_' := ex_pool\<lparr>pool_config := ex_config2\<rparr>\<rparr>
   \<and> cache_size (histogram_pool_' (ResetConfig ex_env ex_learner ex_config2)) = 2"
proof -
  have h: "num_leaves ex_config2 = num_leaves (config_' ex_learner)"
    by (simp add: ex_config2_def ex_learner_def ex_config_def)
  have e: "\<not> IsEnable ex_env ex_config2"
    by (simp add: ex_env_def)
  have p: "histogram_pool_' ex_learner = ex_pool" "cache_size ex_pool = 2"
    by (simp_all add: ex_learner_def ex_pool_def)
  have d: "histogram_pool_size ex_config2 \<noteq> histogram_pool_size (config_' ex_learner)"
    by (simp add: ex_config2_def ex_learner_def ex_config_def)
  show ?thesis
    using C10_ResetConfig_same_num_leaves [OF h, of ex_env] e p d h
    by (simp add: HistogramPool_ResetConfig_def Let_def)
qed

subsection \<open>What the search for the best splits leaves alone\<close>

lemma control_frame_refl [simp]: "control_frame s s"
  by (simp add: control_frame_def)

lemma control_frame_trans: "control_frame s s1 \<Longrightarrow> control_frame s1 s2 \<Longrightarrow> control_frame s s2"
  by (simp add: control_frame_def)

lemma control_frame_set_hist [simp]:
  "control_frame s s1 \<Longrightarrow> control_frame s (set_hist slot f fh s1)"
  by (simp add: control_frame_def set_hist_def)

lemma control_frame_construct_leaf [simp]:
  "control_frame s s1 \<Longrightarrow> control_frame s (construct_leaf env used ls slot s1)"
  by (simp add: control_frame_def construct_leaf_def)

lemma GetUsedFeatures_frame:
  "GetUsedFeatures env s lvl = Inr (ret, s') \<Longrightarrow> control_frame s s'"
  by (auto simp: GetUsedFeatures_def Let_def control_frame_def
      split: if_splits sum.splits prod.splits)

lemma features_to_evaluate_frame:
  "features_to_evaluate fs (used, s) = Inr (used', s') \<Longrightarrow> control_frame s s'"
proof (induction fs arbitrary: used s)
  case Nil
  then show ?case by simp
next
  case (Cons f fs)
  from Cons.prems show ?case
    by (auto split: if_splits option.splits dest!: Cons.IH
        intro: control_frame_trans [OF control_frame_set_hist [OF control_frame_refl]])
qed

lemma ConstructHistograms_frame:
  "ConstructHistograms env s used sub = Inr s' \<Longrightarrow> control_frame s s'"
  by (auto simp: ConstructHistograms_def Let_def split: option.splits if_splits)

lemma ComputeBestSplitForFeature_frame:
  "control_frame s (fst (ComputeBestSplitForFeature env s arr f r u n ls b))"
  by (simp add: ComputeBestSplitForFeature_def Let_def)

lemma find_splits_iteration_frame:
  "find_splits_iteration env sub used snu lnu f (s, sb, lb) = Inr (s', sb', lb') \<Longrightarrow>
   control_frame s s'"
  unfolding find_splits_iteration_def Let_def
  by (auto simp: ComputeBestSplitForFeature_def Let_def split: if_splits option.splits prod.splits)

lemma find_splits_loop_frame:
  "find_splits_loop env sub used snu lnu fs (s, sb, lb) = Inr (s', sb', lb') \<Longrightarrow>
   control_frame s s'"
proof (induction fs arbitrary: s sb lb)
  case Nil
  then show ?case by simp
next
  case (Cons f fs)
  from Cons.prems obtain s1 sb1 lb1 where
    it: "find_splits_iteration env sub used snu lnu f (s, sb, lb) = Inr (s1, sb1, lb1)"
    and rest: "find_splits_loop env sub used snu lnu fs (s1, sb1, lb1) = Inr (s', sb', lb')"
    by (auto split: sum.splits)
  from find_splits_iteration_frame [OF it] Cons.IH [OF rest] show ?case
    by (rule control_frame_trans)
qed

lemma node_used_features_frame:
  "node_used_features env s = Inr (snu, lnu, s') \<Longrightarrow> control_frame s s'"
  by (auto simp: node_used_features_def split: if_splits sum.splits
      dest!: GetUsedFeatures_frame intro: control_frame_trans)

lemma FindBestSplitsFromHistograms_frame:
  assumes "FindBestSplitsFromHistograms env s used sub = Inr s'"
  shows "search_frame s s'"
proof -
  from assms obtain snu lnu s1 s2 sb lb where
    n: "node_used_features env s = Inr (snu, lnu, s1)"
    and l: "find_splits_loop env sub used snu lnu [0 ..< nat (num_features_' s1)]
              (s1, replicate (omp_num_threads env) SplitInfo_new,
               replicate (omp_num_threads env) SplitInfo_new) = Inr (s2, sb, lb)"
    and r: "s' = (if leaf_index (larger_leaf_splits_' (store_best (smaller_leaf_splits_' s2) sb s2)) \<ge> 0
                 then store_best (larger_leaf_splits_' (store_best (smaller_leaf_splits_' s2) sb s2)) lb
                        (store_best (smaller_leaf_splits_' s2) sb s2)
                 else store_best (smaller_leaf_splits_' s2) sb s2)"
    by (auto simp: FindBestSplitsFromHistograms_def Let_def split: sum.splits prod.splits if_splits)
  have f: "control_frame s s2"
    using node_used_features_frame [OF n] find_splits_loop_frame [OF l]
    by (rule control_frame_trans)
  show ?thesis
    using f unfolding r search_frame_def
    by (auto simp: control_frame_def store_best_def)
qed

lemma FindBestSplits_frame:
  assumes "FindBestSplits env s = Inr s'"
  shows "search_frame s s'"
proof -
  from assms obtain used s1 s2 where
    a: "features_to_evaluate [0 ..< nat (num_features_' s)] (replicate (nat (num_features_' s)) False, s)
          = Inr (used, s1)"
    and b: "ConstructHistograms env s1 used (parent_leaf_histogram_array_' s1 \<noteq> None) = Inr s2"
    and c: "FindBestSplitsFromHistograms env s2 used (parent_leaf_histogram_array_' s1 \<noteq> None) = Inr s'"
    by (auto simp: FindBestSplits_def Let_def split: sum.splits prod.splits)
  have f: "control_frame s s2"
    using features_to_evaluate_frame [OF a] ConstructHistograms_frame [OF b]
    by (rule control_frame_trans)
  show ?thesis
    using f FindBestSplitsFromHistograms_frame [OF c]
    unfolding search_frame_def control_frame_def by auto
qed

subsection \<open>The smaller and the larger child\<close>

lemma init_children_smaller:
  "right_count info \<le> left_count info \<Longrightarrow>
   smaller_leaf_splits_' (init_children l r info s)
     = LeafSplits_Init_sums r (data_partition_' s) (right_sum_gradient info) (right_sum_hessian info)
         (smaller_leaf_splits_' s)
   \<and> larger_leaf_splits_' (init_children l r info s)
     = LeafSplits_Init_sums l (data_partition_' s) (left_sum_gradient info) (left_sum_hessian info)
         (larger_leaf_splits_' s)"
  by (simp add: init_children_def)

lemma init_children_frame:
  "data_partition_' (init_children l r info s) = data_partition_' s"
  "best_split_per_leaf_' (init_children l r info s) = best_split_per_leaf_' s"
  "config_' (init_children l r info s) = config_' s"
  "cegb_' (init_children l r info s) = cegb_' s"
  by (simp_all add: init_children_def)

lemma split_leaf_result:
  assumes "split_leaf env inner leaf info s tree = (s1, info1, tree1, right_leaf)"
  shows "right_leaf = NextLeafId tree"
    and "left_count info1 = leaf_count (data_partition_' s1) leaf"
    and "right_count info1 = leaf_count (data_partition_' s1) right_leaf"
    and "tree1 = snd (Tree_Split tree leaf (feature info) (left_output info) (right_output info))"
    and "s1 = s\<lparr>data_partition_' := data_partition_' s1\<rparr>"
    and "info1 = info\<lparr>left_count := left_count info1, right_count := right_count info1\<rparr>"
  using assms
  by (auto simp: split_leaf_def Let_def Tree_Split_def NextLeafId_def)

lemma Split_cases:
  assumes sl: "split_leaf env (InnerFeatureIndex env (feature (best_split_per_leaf_' s ! nat best_leaf)))
                 best_leaf (best_split_per_leaf_' (cegb_update env tree best_leaf s) ! nat best_leaf)
                 (cegb_update env tree best_leaf s) tree = (s1, info, tree1, right_leaf)"
  shows "Split env s tree best_leaf =
    (if (if left_count info < right_count info then \<not> 0 < left_count info else \<not> 0 < right_count info)
     then Inl CheckFailed
     else Inr ((init_children best_leaf right_leaf info
                  (s1\<lparr>best_split_per_leaf_' := (best_split_per_leaf_' s1)[nat best_leaf := info]\<rparr>))
               \<lparr>constraints_' :=
                   UpdateConstraints env
                     (is_numerical_bin env (InnerFeatureIndex env (feature (best_split_per_leaf_' s ! nat best_leaf))))
                     best_leaf right_leaf (monotone_type info) (right_output info) (left_output info)
                     (constraints_' s1)\<rparr>,
               tree1, best_leaf, right_leaf))"
  unfolding Split_def Let_def sl by (simp add: init_children_def)

lemma Split_smaller_larger:
  assumes run: "Split env s tree best_leaf = Inr (s', tree', left_leaf, right_leaf)"
  shows "left_leaf = best_leaf \<and> right_leaf = NextLeafId tree
    \<and> (if leaf_count (data_partition_' s') left_leaf < leaf_count (data_partition_' s') right_leaf
        then leaf_index (smaller_leaf_splits_' s') = left_leaf
           \<and> leaf_index (larger_leaf_splits_' s') = right_leaf
           \<and> 0 < leaf_count (data_partition_' s') left_leaf
        else leaf_index (smaller_leaf_splits_' s') = right_leaf
           \<and> leaf_index (larger_leaf_splits_' s') = left_leaf
           \<and> 0 < leaf_count (data_partition_' s') right_leaf)
    \<and> num_data_in_leaf (smaller_leaf_splits_' s')
        = leaf_count (data_partition_' s') (leaf_index (smaller_leaf_splits_' s'))
    \<and> num_data_in_leaf (larger_leaf_splits_' s')
        = leaf_count (data_partition_' s') (leaf_index (larger_leaf_splits_' s'))"
proof -
  obtain s1 info tree1 r where sl:
    "split_leaf env (InnerFeatureIndex env (feature (best_split_per_leaf_' s ! nat best_leaf)))
       best_leaf (best_split_per_leaf_' (cegb_update env tree best_leaf s) ! nat best_leaf)
       (cegb_update env tree best_leaf s) tree = (s1, info, tree1, r)"
    by (metis prod_cases4)
  note res = split_leaf_result [OF sl]
  from run show ?thesis
    unfolding Split_cases [OF sl]
    using res(1-3)
    by (auto simp: init_children_def LeafSplits_Init_sums_def split: if_splits)
qed

lemma apply_forced_smaller_larger:
  assumes "st' = apply_forced env node current_leaf info st"
  shows "fs_left_leaf st' = current_leaf \<and> fs_right_leaf st' = NextLeafId (fs_tree st)
    \<and> left_smaller st'
        = (leaf_count (data_partition_' (fs_learner st')) (fs_left_leaf st')
           < leaf_count (data_partition_' (fs_learner st')) (fs_right_leaf st'))
    \<and> leaf_index (smaller_leaf_splits_' (fs_learner st'))
        = (if left_smaller st' then fs_left_leaf st' else fs_right_leaf st')
    \<and> leaf_index (larger_leaf_splits_' (fs_learner st'))
        = (if left_smaller st' then fs_right_leaf st' else fs_left_leaf st')
    \<and> num_data_in_leaf (smaller_leaf_splits_' (fs_learner st'))
        = leaf_count (data_partition_' (fs_learner st')) (leaf_index (smaller_leaf_splits_' (fs_learner st')))
    \<and> result_count st' = result_count st + 1"
proof -
  obtain s1 info1 tree1 r where sl:
    "split_leaf env (InnerFeatureIndex env (feature info)) current_leaf info (fs_learner st) (fs_tree st)
       = (s1, info1, tree1, r)"
    by (metis prod_cases4)
  note res = split_leaf_result [OF sl]
  show ?thesis
    unfolding assms apply_forced_def Let_def sl
    using res(1-3)
    by (auto simp: init_children_def LeafSplits_Init_sums_def)
qed

text \<open>
  Claim C9. When \<^verbatim>\<open>Split\<close> returns (its \<^verbatim>\<open>CHECK\<close> on the count of the smaller child passed)
  and the count of the left child in the data partition is not below the count of the
  right child, in particular when the two are equal, \<^verbatim>\<open>smaller_leaf_splits_\<close> is initialised
  from the right child, which is the leaf the tree has just created, and
  \<^verbatim>\<open>larger_leaf_splits_\<close> from the left child. The same holds after a forced split of
  \<^verbatim>\<open>ForceSplits\<close>, where in addition \<^verbatim>\<open>left_smaller\<close> is false.
\<close>

theorem C9_equal_counts_right_is_smaller:
  "(Split env s tree best_leaf = Inr (s', tree', left_leaf, right_leaf) \<longrightarrow>
      leaf_count (data_partition_' s') right_leaf \<le> leaf_count (data_partition_' s') left_leaf \<longrightarrow>
      right_leaf = NextLeafId tree \<and> left_leaf = best_leaf
      \<and> leaf_index (smaller_leaf_splits_' s') = right_leaf
      \<and> num_data_in_leaf (smaller_leaf_splits_' s') = leaf_count (data_partition_' s') right_leaf
      \<and> leaf_index (larger_leaf_splits_' s') = left_leaf)
   \<and> (st' = apply_forced env node current_leaf info st \<longrightarrow>
      leaf_count (data_partition_' (fs_learner st')) (fs_right_leaf st')
        \<le> leaf_count (data_partition_' (fs_learner st')) (fs_left_leaf st') \<longrightarrow>
      fs_right_leaf st' = NextLeafId (fs_tree st) \<and> fs_left_leaf st' = current_leaf
      \<and> \<not> left_smaller st'
      \<and> leaf_index (smaller_leaf_splits_' (fs_learner st')) = fs_right_leaf st'
      \<and> num_data_in_leaf (smaller_leaf_splits_' (fs_learner st'))
          = leaf_count (data_partition_' (fs_learner st')) (fs_right_leaf st')
      \<and> leaf_index (larger_leaf_splits_' (fs_learner st')) = fs_left_leaf st')"
proof (intro conjI impI)
  assume run: "Split env s tree best_leaf = Inr (s', tree', left_leaf, right_leaf)"
    and le: "leaf_count (data_partition_' s') right_leaf \<le> leaf_count (data_partition_' s') left_leaf"
  note f = Split_smaller_larger [OF run]
  from f show "right_leaf = NextLeafId tree" "left_leaf = best_leaf" by simp_all
  from f le show "leaf_index (smaller_leaf_splits_' s') = right_leaf"
    by (simp split: if_splits)
  with f show "num_data_in_leaf (smaller_leaf_splits_' s') = leaf_count (data_partition_' s') right_leaf"
    by simp
  from f le show "leaf_index (larger_leaf_splits_' s') = left_leaf"
    by (simp split: if_splits)
next
  assume run: "st' = apply_forced env node current_leaf info st"
    and le: "leaf_count (data_partition_' (fs_learner st')) (fs_right_leaf st')
        \<le> leaf_count (data_partition_' (fs_learner st')) (fs_left_leaf st')"
  note f = apply_forced_smaller_larger [OF run]
  from f show "fs_right_leaf st' = NextLeafId (fs_tree st)" "fs_left_leaf st' = current_leaf"
    by simp_all
  from f le show ns: "\<not> left_smaller st'" by simp
  from f ns show "leaf_index (smaller_leaf_splits_' (fs_learner st')) = fs_right_leaf st'"
    by simp
  with f show "num_data_in_leaf (smaller_leaf_splits_' (fs_learner st'))
          = leaf_count (data_partition_' (fs_learner st')) (fs_right_leaf st')"
    by simp
  from f ns show "leaf_index (larger_leaf_splits_' (fs_learner st')) = fs_left_leaf st'"
    by simp
qed

lemma ex_split_leaf:
  "split_leaf ex_env 0 0 (ex_split 1) ex_learner2 ex_tree
   = (ex_learner2\<lparr>data_partition_' := ex_partition2\<lparr>leaf_run := ex_run2(0 := [0], 1 := [1])\<rparr>\<rparr>,
      ex_split 1,
      snd (Tree_Split ex_tree 0 0 0 0), 1)"
  by (simp add: split_leaf_def Let_def ex_env_def ex_learner2_def ex_learner_def ex_tree_def
      NextLeafId_def DataPartition_Split_def ex_partition2_def ex_run2_def leaf_count_def
      ex_split_def SplitInfo_new_def Tree_Split_def threshold_words_def)

lemma ex_counts:
  "leaf_count (ex_partition2\<lparr>leaf_run := ex_run2(0 := [0], 1 := [1])\<rparr>) 0 = 1"
  "leaf_count (ex_partition2\<lparr>leaf_run := ex_run2(0 := [0], 1 := [1])\<rparr>) 1 = 1"
  by (simp_all add: leaf_count_def)

text \<open>
  The theorem at a root with two examples that the split sends to different sides: the
  counts are equal, and the right child, leaf 1, is the smaller leaf.
\<close>

theorem C9_witness:
  "(\<exists>s' tree'. Split ex_env ex_learner2 ex_tree 0 = Inr (s', tree', 0, 1)
      \<and> leaf_count (data_partition_' s') 0 = 1 \<and> leaf_count (data_partition_' s') 1 = 1
      \<and> leaf_index (smaller_leaf_splits_' s') = 1 \<and> leaf_index (larger_leaf_splits_' s') = 0)
   \<and> leaf_count (data_partition_' (fs_learner (apply_forced ex_env ex_template 0 (ex_split 1) ex_force_state))) 0 = 1
   \<and> leaf_count (data_partition_' (fs_learner (apply_forced ex_env ex_template 0 (ex_split 1) ex_force_state))) 1 = 1
   \<and> leaf_index (smaller_leaf_splits_'
         (fs_learner (apply_forced ex_env ex_template 0 (ex_split 1) ex_force_state))) = 1
   \<and> \<not> left_smaller (apply_forced ex_env ex_template 0 (ex_split 1) ex_force_state)"
proof -
  let ?st = "apply_forced ex_env ex_template 0 (ex_split 1) ex_force_state"
  have inner: "InnerFeatureIndex ex_env (feature (ex_split 1)) = 0"
    by (simp add: ex_env_def ex_split_def)
  have best: "best_split_per_leaf_' ex_learner2 ! nat 0 = ex_split 1"
    "cegb_update ex_env ex_tree 0 ex_learner2 = ex_learner2"
    by (simp_all add: ex_learner2_def ex_learner_def cegb_update_def)
  have sl: "split_leaf ex_env (InnerFeatureIndex ex_env (feature (best_split_per_leaf_' ex_learner2 ! nat 0)))
      0 (best_split_per_leaf_' (cegb_update ex_env ex_tree 0 ex_learner2) ! nat 0)
      (cegb_update ex_env ex_tree 0 ex_learner2) ex_tree
    = (ex_learner2\<lparr>data_partition_' := ex_partition2\<lparr>leaf_run := ex_run2(0 := [0], 1 := [1])\<rparr>\<rparr>,
       ex_split 1, snd (Tree_Split ex_tree 0 0 0 0), 1)"
    by (simp only: best inner ex_split_leaf)
  obtain s' tree' where run: "Split ex_env ex_learner2 ex_tree 0 = Inr (s', tree', 0, 1)"
      and dp: "data_partition_' s' = ex_partition2\<lparr>leaf_run := ex_run2(0 := [0], 1 := [1])\<rparr>"
    unfolding Split_cases [OF sl]
    by (simp add: ex_split_def init_children_frame)
  have fdp: "data_partition_' (fs_learner ?st) = ex_partition2\<lparr>leaf_run := ex_run2(0 := [0], 1 := [1])\<rparr>"
      and fl: "fs_left_leaf ?st = 0" "fs_right_leaf ?st = 1"
    using ex_split_leaf
    by (simp_all add: apply_forced_def Let_def inner ex_force_state_def init_children_frame)
  show ?thesis
    using C9_equal_counts_right_is_smaller [of ex_env ex_learner2 ex_tree 0 s' tree' 0 1 ?st ex_template 0
        "ex_split 1" ex_force_state] run dp fdp fl ex_counts
    by auto
qed

subsection \<open>BeforeFindBestSplit\<close>

lemma BeforeFindBestSplit_false_iff:
  "\<not> fst (BeforeFindBestSplit s tree left_leaf right_leaf) \<longleftrightarrow>
     (max_depth (config_' s) > 0 \<and> leaf_depth tree left_leaf \<ge> max_depth (config_' s))
     \<or> (GetGlobalDataCountInLeaf s right_leaf < int32_mul (min_data_in_leaf (config_' s)) 2
        \<and> GetGlobalDataCountInLeaf s left_leaf < int32_mul (min_data_in_leaf (config_' s)) 2)"
  by (simp add: BeforeFindBestSplit_def Let_def split: prod.splits)

lemma BeforeFindBestSplit_false:
  "\<not> fst (BeforeFindBestSplit s tree left_leaf right_leaf) \<Longrightarrow>
   snd (BeforeFindBestSplit s tree left_leaf right_leaf) = pin_leaves left_leaf right_leaf s"
  by (simp add: BeforeFindBestSplit_def Let_def split: prod.splits if_splits)

lemma BeforeFindBestSplit_true:
  "fst (BeforeFindBestSplit s tree left_leaf right_leaf) \<Longrightarrow>
   prepared_frame s (snd (BeforeFindBestSplit s tree left_leaf right_leaf))"
  by (auto simp: BeforeFindBestSplit_def Let_def prepared_frame_def split: prod.splits if_splits)

subsection \<open>GetUsedFeatures: the floor on the number of features\<close>

lemma cpp_round_le:
  "0 \<le> n \<Longrightarrow> x \<le> real_of_int n \<Longrightarrow> cpp_round x \<le> n"
  unfolding cpp_round_def by (auto simp: floor_le_iff) linarith+

lemma used_feature_cnt_bounds:
  assumes "fraction < 1"
  shows "0 \<le> max (cpp_round (real n * fraction)) (min 2 (int n))"
    and "max (cpp_round (real n * fraction)) (min 2 (int n)) \<le> int n"
    and "min 2 (int n) \<le> max (cpp_round (real n * fraction)) (min 2 (int n))"
proof -
  have "real n * fraction \<le> real_of_int (int n)"
    using assms by (simp add: mult_left_le)
  then have "cpp_round (real n * fraction) \<le> int n"
    by (intro cpp_round_le) simp_all
  then show "max (cpp_round (real n * fraction)) (min 2 (int n)) \<le> int n" by simp
qed simp_all

lemma mark_features_fold:
  "\<forall>v \<in> set fs. 0 \<le> InnerFeatureIndex env v \<Longrightarrow>
   mark_features env fs ret = Inr (fold (\<lambda>v r. r[nat (InnerFeatureIndex env v) := True]) fs ret)"
  by (induction fs arbitrary: ret) (simp_all add: Let_def)

lemma fold_mark_length:
  "length (fold (\<lambda>v r. r[nat (f v) := True]) fs ret) = length ret"
  by (induction fs arbitrary: ret) simp_all

lemma fold_mark_nth:
  "i < length ret \<Longrightarrow>
   fold (\<lambda>v r. r[nat (f v) := True]) fs ret ! i = (ret ! i \<or> i \<in> (\<lambda>v. nat (f v)) ` set fs)"
proof (induction fs arbitrary: ret)
  case Nil
  then show ?case by simp
next
  case (Cons a fs)
  have "fold (\<lambda>v r. r[nat (f v) := True]) (a # fs) ret ! i
      = fold (\<lambda>v r. r[nat (f v) := True]) fs (ret[nat (f a) := True]) ! i"
    by simp
  also have "\<dots> = (ret[nat (f a) := True] ! i \<or> i \<in> (\<lambda>v. nat (f v)) ` set fs)"
    using Cons.prems by (intro Cons.IH) simp
  also have "\<dots> = (ret ! i \<or> i \<in> (\<lambda>v. nat (f v)) ` set (a # fs))"
    using Cons.prems by (cases "i = nat (f a)") auto
  finally show ?case .
qed

lemma num_marked_fold:
  assumes d: "distinct fs" and inj: "inj_on f (set fs)"
    and rng: "\<forall>v \<in> set fs. 0 \<le> f v \<and> f v < int n"
  shows "num_marked (fold (\<lambda>v r. r[nat (f v) := True]) fs (replicate n False)) = length fs"
proof -
  let ?r = "fold (\<lambda>v r. r[nat (f v) := True]) fs (replicate n False)"
  have "{i. i < length ?r \<and> ?r ! i} = (\<lambda>v. nat (f v)) ` set fs"
    using rng by (auto simp: fold_mark_length fold_mark_nth)
  moreover have "inj_on (\<lambda>v. nat (f v)) (set fs)"
  proof (rule inj_onI)
    fix x y assume "x \<in> set fs" "y \<in> set fs" "nat (f x) = nat (f y)"
    with rng have "f x = f y" by (metis nat_eq_iff2)
    with inj \<open>x \<in> set fs\<close> \<open>y \<in> set fs\<close> show "x = y" by (auto dest: inj_onD)
  qed
  ultimately have "card {i. i < length ?r \<and> ?r ! i} = length fs"
    using d by (simp add: card_image distinct_card)
  then show ?thesis
    by (simp add: num_marked_def length_filter_conv_card)
qed

lemma map_nth_distinct:
  assumes "distinct xs" "distinct ps" "\<forall>p \<in> set ps. 0 \<le> p \<and> p < int (length xs)"
  shows "distinct (map (\<lambda>i. xs ! nat i) ps)"
    and "set (map (\<lambda>i. xs ! nat i) ps) \<subseteq> set xs"
proof -
  have "inj_on (\<lambda>i. xs ! nat i) (set ps)"
  proof (rule inj_onI)
    fix i j assume ij: "i \<in> set ps" "j \<in> set ps" "xs ! nat i = xs ! nat j"
    with assms have "nat i < length xs" "nat j < length xs" by auto
    with ij assms(1) have "nat i = nat j" by (simp add: nth_eq_iff_index_eq)
    with ij assms(3) show "i = j" by (metis nat_eq_iff2)
  qed
  with assms(2) show "distinct (map (\<lambda>i. xs ! nat i) ps)"
    by (simp add: distinct_map)
  show "set (map (\<lambda>i. xs ! nat i) ps) \<subseteq> set xs"
    using assms(3) by auto
qed

lemma mark_valid_features:
  assumes vok: "valid_features_ok env s"
    and fs: "distinct fs" "set fs \<subseteq> set (valid_feature_indices_' s)"
  shows "\<exists>ret. mark_features env fs (replicate (nat (num_features_' s)) False) = Inr ret
           \<and> num_marked ret = length fs \<and> length ret = nat (num_features_' s)"
proof -
  let ?f = "InnerFeatureIndex env"
  have nonneg: "\<forall>v \<in> set fs. 0 \<le> ?f v"
    and rng: "\<forall>v \<in> set fs. 0 \<le> ?f v \<and> ?f v < int (nat (num_features_' s))"
    and inj: "inj_on ?f (set fs)"
    using vok fs(2) unfolding valid_features_ok_def by (auto intro: inj_on_subset)
  show ?thesis
    using mark_features_fold [OF nonneg] num_marked_fold [OF fs(1) inj rng]
    by (simp add: fold_mark_length)
qed

lemma GetUsedFeatures_tree_level:
  assumes "feature_fraction (config_' s) < 1"
    and "Sample env (random_' s) (int (length (valid_feature_indices_' s)))
           (max (cpp_round (real (length (valid_feature_indices_' s)) * feature_fraction (config_' s)))
                (min 2 (int (length (valid_feature_indices_' s))))) = (sampled, rnd)"
  shows "GetUsedFeatures env s True =
    (case mark_features env (map (\<lambda>i. valid_feature_indices_' s ! nat i) sampled)
            (replicate (nat (num_features_' s)) False) of
       Inl e \<Rightarrow> Inl e
     | Inr ret \<Rightarrow> Inr (ret, s\<lparr>random_' := rnd, used_feature_indices_' := sampled\<rparr>))"
  using assms by (simp add: GetUsedFeatures_def Let_def)

lemma GetUsedFeatures_node_level_fresh:
  assumes "feature_fraction_bynode (config_' s) < 1" "used_feature_indices_' s = []"
    and "Sample env (random_' s) (int (length (valid_feature_indices_' s)))
           (max (cpp_round (real (length (valid_feature_indices_' s)) * feature_fraction_bynode (config_' s)))
                (min 2 (int (length (valid_feature_indices_' s))))) = (sampled, rnd)"
  shows "GetUsedFeatures env s False =
    (case mark_features env (map (\<lambda>i. valid_feature_indices_' s ! nat i) sampled)
            (replicate (nat (num_features_' s)) False) of
       Inl e \<Rightarrow> Inl e
     | Inr ret \<Rightarrow> Inr (ret, s\<lparr>random_' := rnd\<rparr>))"
  using assms by (simp add: GetUsedFeatures_def Let_def)

lemma GetUsedFeatures_node_level_subset:
  assumes "feature_fraction_bynode (config_' s) < 1" "used_feature_indices_' s \<noteq> []"
    and "Sample env (random_' s) (int (length (used_feature_indices_' s)))
           (max (cpp_round (real (length (used_feature_indices_' s)) * feature_fraction_bynode (config_' s)))
                (min 2 (int (length (valid_feature_indices_' s))))) = (sampled, rnd)"
  shows "GetUsedFeatures env s False =
    (case mark_features env
            (map (\<lambda>i. valid_feature_indices_' s ! nat (used_feature_indices_' s ! nat i)) sampled)
            (replicate (nat (num_features_' s)) False) of
       Inl e \<Rightarrow> Inl e
     | Inr ret \<Rightarrow> Inr (ret, s\<lparr>random_' := rnd\<rparr>))"
  using assms by (simp add: GetUsedFeatures_def Let_def)

lemma Sample_contractD:
  assumes "Sample_contract env" "0 \<le> k" "k \<le> n" "Sample env rnd n k = (xs, rnd')"
  shows "length xs = nat k" "distinct xs" "\<forall>x \<in> set xs. 0 \<le> x \<and> x < n"
  using assms unfolding Sample_contract_def by (metis fst_conv)+

text \<open>
  Claim C8. Let the sampler keep its contract, the valid features have inner indices of
  their own, and \<^verbatim>\<open>used_feature_indices_\<close> be as the tree-level branch leaves it. Then a
  call of \<^verbatim>\<open>GetUsedFeatures\<close> whose fraction is below 1 (\<^verbatim>\<open>feature_fraction\<close> at tree
  level, \<^verbatim>\<open>feature_fraction_bynode\<close> at node level) returns a mask that marks at least
  \<open>min(2, |valid_feature_indices_|)\<close> features, and leaves \<^verbatim>\<open>used_feature_indices_\<close> in
  that same condition.
\<close>

theorem C8_feature_floor:
  assumes sample: "Sample_contract env"
    and vok: "valid_features_ok env s"
    and uok: "used_feature_indices_ok s"
    and frac: "(is_tree_level \<and> feature_fraction (config_' s) < 1)
               \<or> (\<not> is_tree_level \<and> feature_fraction_bynode (config_' s) < 1)"
  shows "\<exists>ret s'. GetUsedFeatures env s is_tree_level = Inr (ret, s')
           \<and> length ret = nat (num_features_' s)
           \<and> min 2 (length (valid_feature_indices_' s)) \<le> num_marked ret
           \<and> used_feature_indices_ok s'"
proof -
  let ?valid = "valid_feature_indices_' s"
  let ?ufi = "used_feature_indices_' s"
  have dv: "distinct ?valid"
    using vok by (simp add: valid_features_ok_def)
  have goal: "\<exists>ret. mark_features env fs (replicate (nat (num_features_' s)) False) = Inr ret
        \<and> length ret = nat (num_features_' s) \<and> min 2 (length ?valid) \<le> num_marked ret"
    if "distinct fs" "set fs \<subseteq> set ?valid" "min 2 (int (length ?valid)) \<le> int (length fs)" for fs
    using mark_valid_features [OF vok that(1,2)] that(3) by auto
  show ?thesis
  proof (cases is_tree_level)
    case True
    with frac have ff: "feature_fraction (config_' s) < 1" by simp
    let ?k = "max (cpp_round (real (length ?valid) * feature_fraction (config_' s)))
                  (min 2 (int (length ?valid)))"
    obtain sampled rnd where sm: "Sample env (random_' s) (int (length ?valid)) ?k = (sampled, rnd)"
      by (cases "Sample env (random_' s) (int (length ?valid)) ?k")
    note b = used_feature_cnt_bounds [OF ff, of "length ?valid"]
    note c = Sample_contractD [OF sample b(1) b(2) sm]
    have len: "min 2 (int (length ?valid)) \<le> int (length sampled)"
      using c(1) b by simp
    have "\<forall>p \<in> set sampled. 0 \<le> p \<and> p < int (length ?valid)" using c(3) .
    note m = map_nth_distinct [OF dv c(2) this]
    from goal [OF m] len obtain ret where
      r: "mark_features env (map (\<lambda>i. ?valid ! nat i) sampled) (replicate (nat (num_features_' s)) False) = Inr ret"
        "length ret = nat (num_features_' s)" "min 2 (length ?valid) \<le> num_marked ret"
      by auto
    have "used_feature_indices_ok (s\<lparr>random_' := rnd, used_feature_indices_' := sampled\<rparr>)"
      using c len by (simp add: used_feature_indices_ok_def)
    then show ?thesis
      using True r by (simp add: GetUsedFeatures_tree_level [OF ff sm])
  next
    case False
    with frac have ff: "feature_fraction_bynode (config_' s) < 1" by simp
    show ?thesis
    proof (cases "?ufi = []")
      case True
      let ?k = "max (cpp_round (real (length ?valid) * feature_fraction_bynode (config_' s)))
                    (min 2 (int (length ?valid)))"
      obtain sampled rnd where sm: "Sample env (random_' s) (int (length ?valid)) ?k = (sampled, rnd)"
        by (cases "Sample env (random_' s) (int (length ?valid)) ?k")
      note b = used_feature_cnt_bounds [OF ff, of "length ?valid"]
      note c = Sample_contractD [OF sample b(1) b(2) sm]
      have len: "min 2 (int (length ?valid)) \<le> int (length sampled)"
        using c(1) b by simp
      have "\<forall>p \<in> set sampled. 0 \<le> p \<and> p < int (length ?valid)" using c(3) .
      note m = map_nth_distinct [OF dv c(2) this]
      from goal [OF m] len obtain ret where
        r: "mark_features env (map (\<lambda>i. ?valid ! nat i) sampled) (replicate (nat (num_features_' s)) False) = Inr ret"
          "length ret = nat (num_features_' s)" "min 2 (length ?valid) \<le> num_marked ret"
        by auto
      have "used_feature_indices_ok (s\<lparr>random_' := rnd\<rparr>)"
        using uok by (simp add: used_feature_indices_ok_def)
      then show ?thesis
        using False r by (simp add: GetUsedFeatures_node_level_fresh [OF ff True sm])
    next
      case ne: False
      let ?k = "max (cpp_round (real (length ?ufi) * feature_fraction_bynode (config_' s)))
                    (min 2 (int (length ?valid)))"
      obtain sampled rnd where sm: "Sample env (random_' s) (int (length ?ufi)) ?k = (sampled, rnd)"
        by (cases "Sample env (random_' s) (int (length ?ufi)) ?k")
      have du: "distinct ?ufi" and ru: "\<forall>i \<in> set ?ufi. 0 \<le> i \<and> i < int (length ?valid)"
        and lu: "min 2 (int (length ?valid)) \<le> int (length ?ufi)"
        using uok ne by (simp_all add: used_feature_indices_ok_def)
      have "real (length ?ufi) * feature_fraction_bynode (config_' s) \<le> real_of_int (int (length ?ufi))"
        using ff by (simp add: mult_left_le)
      then have "cpp_round (real (length ?ufi) * feature_fraction_bynode (config_' s)) \<le> int (length ?ufi)"
        by (intro cpp_round_le) simp_all
      then have k: "0 \<le> ?k" "?k \<le> int (length ?ufi)" "min 2 (int (length ?valid)) \<le> ?k"
        using lu by simp_all
      note c = Sample_contractD [OF sample k(1) k(2) sm]
      have len: "min 2 (int (length ?valid)) \<le> int (length sampled)"
        using c(1) k by simp
      have "\<forall>p \<in> set sampled. 0 \<le> p \<and> p < int (length ?ufi)" using c(3) .
      note m1 = map_nth_distinct [OF du c(2) this]
      have "\<forall>p \<in> set (map (\<lambda>i. ?ufi ! nat i) sampled). 0 \<le> p \<and> p < int (length ?valid)"
        using m1(2) ru by blast
      note m2 = map_nth_distinct [OF dv m1(1) this]
      have comp: "map (\<lambda>i. ?valid ! nat i) (map (\<lambda>i. ?ufi ! nat i) sampled)
          = map (\<lambda>i. ?valid ! nat (?ufi ! nat i)) sampled"
        by simp
      from goal [OF m2 [unfolded comp]] len obtain ret where
        r: "mark_features env (map (\<lambda>i. ?valid ! nat (?ufi ! nat i)) sampled)
              (replicate (nat (num_features_' s)) False) = Inr ret"
          "length ret = nat (num_features_' s)" "min 2 (length ?valid) \<le> num_marked ret"
        by auto
      have "used_feature_indices_ok (s\<lparr>random_' := rnd\<rparr>)"
        using uok by (simp add: used_feature_indices_ok_def)
      then show ?thesis
        using False r by (simp add: GetUsedFeatures_node_level_subset [OF ff ne sm])
    qed
  qed
qed

lemma ex_Sample_contract: "Sample_contract ex_env"
  by (auto simp: Sample_contract_def ex_env_def distinct_map inj_on_def)

text \<open>
  The theorem at three valid features and \<open>feature_fraction = 0.1\<close>: the rounded count is
  0, the floor raises it to 2, and the mask marks two features.
\<close>

theorem C8_witness:
  "Sample_contract ex_env \<and> valid_features_ok ex_env ex_learner3
   \<and> used_feature_indices_ok ex_learner3 \<and> feature_fraction (config_' ex_learner3) < 1
   \<and> (\<exists>s'. GetUsedFeatures ex_env ex_learner3 True = Inr ([True, True, False], s'))
   \<and> num_marked [True, True, False] = 2"
proof -
  have v: "valid_features_ok ex_env ex_learner3"
    by (simp add: valid_features_ok_def ex_learner3_def ex_env_def)
  have u: "used_feature_indices_ok ex_learner3"
    by (simp add: used_feature_indices_ok_def ex_learner3_def ex_learner_def)
  have f: "feature_fraction (config_' ex_learner3) < 1"
    by (simp add: ex_learner3_def)
  have k: "max (cpp_round (real (length (valid_feature_indices_' ex_learner3))
                 * feature_fraction (config_' ex_learner3)))
               (min 2 (int (length (valid_feature_indices_' ex_learner3)))) = 2"
    by (simp add: ex_learner3_def cpp_round_def)
  have sm: "Sample ex_env (random_' ex_learner3) (int (length (valid_feature_indices_' ex_learner3)))
      (max (cpp_round (real (length (valid_feature_indices_' ex_learner3))
              * feature_fraction (config_' ex_learner3)))
           (min 2 (int (length (valid_feature_indices_' ex_learner3))))) = ([0, 1], Suc 0)"
    unfolding k by (simp add: ex_env_def ex_learner3_def ex_learner_def upt_rec)
  have run: "\<exists>s'. GetUsedFeatures ex_env ex_learner3 True = Inr ([True, True, False], s')"
    unfolding GetUsedFeatures_tree_level [OF f sm]
    by (simp add: ex_learner3_def ex_env_def Let_def numeral_3_eq_3)
  from C8_feature_floor [OF ex_Sample_contract v u, of True] f
  obtain ret s' where "GetUsedFeatures ex_env ex_learner3 True = Inr (ret, s')"
    "min 2 (length (valid_feature_indices_' ex_learner3)) \<le> num_marked ret"
    by auto
  with run have "num_marked [True, True, False] \<ge> 2"
    by (auto simp: ex_learner3_def)
  then show ?thesis
    using ex_Sample_contract v u f run by (simp add: num_marked_def)
qed

subsection \<open>Gating by depth and by the number of examples\<close>

lemma set_gain_kMinScore_effect:
  "length (best_split_per_leaf_' (set_gain_kMinScore l s)) = length (best_split_per_leaf_' s)"
  "nat l < length (best_split_per_leaf_' s) \<Longrightarrow>
     gain (best_split_per_leaf_' (set_gain_kMinScore l s) ! nat l) = kMinScore"
  "gain (best_split_per_leaf_' s ! i) = kMinScore \<Longrightarrow>
     gain (best_split_per_leaf_' (set_gain_kMinScore l s) ! i) = kMinScore"
  "i \<noteq> nat l \<Longrightarrow> best_split_per_leaf_' (set_gain_kMinScore l s) ! i = best_split_per_leaf_' s ! i"
  "set_gain_kMinScore l s = s\<lparr>best_split_per_leaf_' := best_split_per_leaf_' (set_gain_kMinScore l s)\<rparr>"
proof -
  show "gain (best_split_per_leaf_' (set_gain_kMinScore l s) ! i) = kMinScore"
    if "gain (best_split_per_leaf_' s ! i) = kMinScore"
    using that
    by (cases "i = nat l"; cases "i < length (best_split_per_leaf_' s)")
       (simp_all add: set_gain_kMinScore_def list_update_beyond)
qed (simp_all add: set_gain_kMinScore_def)

lemma pin_leaves_effect:
  "length (best_split_per_leaf_' (pin_leaves l r s)) = length (best_split_per_leaf_' s)"
  "nat l < length (best_split_per_leaf_' s) \<Longrightarrow>
     gain (best_split_per_leaf_' (pin_leaves l r s) ! nat l) = kMinScore"
  "0 \<le> r \<Longrightarrow> nat r < length (best_split_per_leaf_' s) \<Longrightarrow>
     gain (best_split_per_leaf_' (pin_leaves l r s) ! nat r) = kMinScore"
  "gain (best_split_per_leaf_' s ! i) = kMinScore \<Longrightarrow>
     gain (best_split_per_leaf_' (pin_leaves l r s) ! i) = kMinScore"
  "i \<noteq> nat l \<Longrightarrow> (0 \<le> r \<longrightarrow> i \<noteq> nat r) \<Longrightarrow>
     best_split_per_leaf_' (pin_leaves l r s) ! i = best_split_per_leaf_' s ! i"
  "pin_leaves l r s = s\<lparr>best_split_per_leaf_' := best_split_per_leaf_' (pin_leaves l r s)\<rparr>"
  unfolding pin_leaves_def Let_def
       apply (simp_all add: set_gain_kMinScore_effect(1-4))
  apply (metis set_gain_kMinScore_effect(5) SerialTreeLearner.surjective SerialTreeLearner.update_convs(15))
  done

lemma pin_leaves_frame:
  "cegb_' (pin_leaves l r s) = cegb_' s"
  "config_' (pin_leaves l r s) = config_' s"
  "smaller_leaf_splits_' (pin_leaves l r s) = smaller_leaf_splits_' s"
  "larger_leaf_splits_' (pin_leaves l r s) = larger_leaf_splits_' s"
  "data_partition_' (pin_leaves l r s) = data_partition_' s"
  by (simp_all add: pin_leaves_def set_gain_kMinScore_def Let_def)

lemma prepared_frameD:
  assumes "prepared_frame s s'"
  shows "best_split_per_leaf_' s' = best_split_per_leaf_' s"
    "smaller_leaf_splits_' s' = smaller_leaf_splits_' s"
    "larger_leaf_splits_' s' = larger_leaf_splits_' s"
    "cegb_' s' = cegb_' s" "config_' s' = config_' s"
    "data_partition_' s' = data_partition_' s"
  by (subst assms [unfolded prepared_frame_def], simp)+

lemma cegb_update_None [simp]: "cegb_' s = None \<Longrightarrow> cegb_update env tree b s = s"
  by (simp add: cegb_update_def)

lemma Split_tree:
  assumes run: "Split env s tree best_leaf = Inr (s', tree', left_leaf, right_leaf)"
  shows "left_leaf = best_leaf" "right_leaf = tree_num_leaves tree"
    "tree_num_leaves tree' = tree_num_leaves tree + 1"
    "\<exists>f. tree_splits tree' = tree_splits tree @ [(best_leaf, f)]"
    "config_' s' = config_' (cegb_update env tree best_leaf s)"
proof -
  obtain s1 info tree1 r where sl:
    "split_leaf env (InnerFeatureIndex env (feature (best_split_per_leaf_' s ! nat best_leaf)))
       best_leaf (best_split_per_leaf_' (cegb_update env tree best_leaf s) ! nat best_leaf)
       (cegb_update env tree best_leaf s) tree = (s1, info, tree1, r)"
    by (metis prod_cases4)
  note res = split_leaf_result [OF sl]
  from run have eq: "right_leaf = r" "tree' = tree1" "left_leaf = best_leaf"
    and s': "s' = (init_children best_leaf r info
                  (s1\<lparr>best_split_per_leaf_' := (best_split_per_leaf_' s1)[nat best_leaf := info]\<rparr>))
               \<lparr>constraints_' :=
                   UpdateConstraints env
                     (is_numerical_bin env (InnerFeatureIndex env (feature (best_split_per_leaf_' s ! nat best_leaf))))
                     best_leaf r (monotone_type info) (right_output info) (left_output info)
                     (constraints_' s1)\<rparr>"
    unfolding Split_cases [OF sl] by (simp_all split: if_splits)
  show "left_leaf = best_leaf" by fact
  show "right_leaf = tree_num_leaves tree"
    using res(1) eq by (simp add: NextLeafId_def)
  show "tree_num_leaves tree' = tree_num_leaves tree + 1"
    "\<exists>f. tree_splits tree' = tree_splits tree @ [(best_leaf, f)]"
    using res(4) eq by (simp_all add: Tree_Split_def Let_def)
  have "config_' s1 = config_' (cegb_update env tree best_leaf s)"
    by (subst res(5)) simp
  then show "config_' s' = config_' (cegb_update env tree best_leaf s)"
    unfolding s' by (simp add: init_children_frame)
qed

lemma Split_best:
  assumes run: "Split env s tree best_leaf = Inr (s', tree', left_leaf, right_leaf)"
    and nc: "cegb_' s = None"
  shows "cegb_' s' = None"
    "length (best_split_per_leaf_' s') = length (best_split_per_leaf_' s)"
    "i \<noteq> nat best_leaf \<Longrightarrow> best_split_per_leaf_' s' ! i = best_split_per_leaf_' s ! i"
proof -
  obtain s1 info tree1 r where sl:
    "split_leaf env (InnerFeatureIndex env (feature (best_split_per_leaf_' s ! nat best_leaf)))
       best_leaf (best_split_per_leaf_' (cegb_update env tree best_leaf s) ! nat best_leaf)
       (cegb_update env tree best_leaf s) tree = (s1, info, tree1, r)"
    by (metis prod_cases4)
  note res = split_leaf_result [OF sl]
  from run have s': "s' = (init_children best_leaf r info
                  (s1\<lparr>best_split_per_leaf_' := (best_split_per_leaf_' s1)[nat best_leaf := info]\<rparr>))
               \<lparr>constraints_' :=
                   UpdateConstraints env
                     (is_numerical_bin env (InnerFeatureIndex env (feature (best_split_per_leaf_' s ! nat best_leaf))))
                     best_leaf r (monotone_type info) (right_output info) (left_output info)
                     (constraints_' s1)\<rparr>"
    unfolding Split_cases [OF sl] by (simp_all split: if_splits)
  have s1: "best_split_per_leaf_' s1 = best_split_per_leaf_' s" "cegb_' s1 = None"
    using nc by (subst res(5), simp)+
  show "cegb_' s' = None"
    "length (best_split_per_leaf_' s') = length (best_split_per_leaf_' s)"
    unfolding s' using s1 by (simp_all add: init_children_frame)
  show "best_split_per_leaf_' s' ! i = best_split_per_leaf_' s ! i" if "i \<noteq> nat best_leaf"
    unfolding s' using s1 that by (simp add: init_children_frame)
qed

lemma prepare_iteration_pinned:
  assumes prep: "prepare_iteration env aborted s tree l r = Inr s1"
    and pin: "gain (best_split_per_leaf_' s ! nat p) = kMinScore"
    and p: "0 \<le> p"
    and safe: "aborted \<or> \<not> fst (BeforeFindBestSplit s tree l r)
       \<or> (0 \<le> leaf_index (smaller_leaf_splits_' s) \<and> leaf_index (smaller_leaf_splits_' s) \<noteq> p
           \<and> leaf_index (larger_leaf_splits_' s) \<noteq> p)"
  shows "gain (best_split_per_leaf_' s1 ! nat p) = kMinScore" "cegb_' s1 = cegb_' s"
    "length (best_split_per_leaf_' s1) = length (best_split_per_leaf_' s)"
proof -
  have "gain (best_split_per_leaf_' s1 ! nat p) = kMinScore \<and> cegb_' s1 = cegb_' s
      \<and> length (best_split_per_leaf_' s1) = length (best_split_per_leaf_' s)"
  proof (cases aborted)
    case True
    with prep pin show ?thesis by (simp add: prepare_iteration_def)
  next
    case na: False
    show ?thesis
    proof (cases "fst (BeforeFindBestSplit s tree l r)")
      case False
      with prep na have "s1 = pin_leaves l r s"
        using BeforeFindBestSplit_false [OF False]
        by (simp add: prepare_iteration_def split: prod.splits bool.splits)
      then show ?thesis
        using pin by (simp add: pin_leaves_effect(1,4) pin_leaves_frame)
    next
      case True
      let ?sx = "snd (BeforeFindBestSplit s tree l r)"
      from prep na True have fb: "FindBestSplits env ?sx = Inr s1"
        by (simp add: prepare_iteration_def split: prod.splits bool.splits)
      have pf: "prepared_frame s ?sx" by (rule BeforeFindBestSplit_true [OF True])
      note same = prepared_frameD [OF pf]
      note sf = FindBestSplits_frame [OF fb, unfolded search_frame_def control_frame_def]
      from safe na True have ls: "0 \<le> leaf_index (smaller_leaf_splits_' s)"
        "leaf_index (smaller_leaf_splits_' s) \<noteq> p" "leaf_index (larger_leaf_splits_' s) \<noteq> p"
        by simp_all
      have "nat p \<noteq> nat (leaf_index (smaller_leaf_splits_' ?sx))"
        "0 \<le> leaf_index (larger_leaf_splits_' ?sx) \<longrightarrow> nat p \<noteq> nat (leaf_index (larger_leaf_splits_' ?sx))"
        using ls p unfolding same by auto
      with sf have "best_split_per_leaf_' s1 ! nat p = best_split_per_leaf_' ?sx ! nat p"
        by blast
      then show ?thesis
        using sf pin same by simp
    qed
  qed
  then show "gain (best_split_per_leaf_' s1 ! nat p) = kMinScore" "cegb_' s1 = cegb_' s"
    "length (best_split_per_leaf_' s1) = length (best_split_per_leaf_' s)"
    by simp_all
qed

lemma Split_leaf_indices:
  assumes run: "Split env s tree best_leaf = Inr (s', tree', left_leaf, right_leaf)"
  shows "leaf_index (smaller_leaf_splits_' s') \<in> {best_leaf, tree_num_leaves tree}"
    "leaf_index (larger_leaf_splits_' s') \<in> {best_leaf, tree_num_leaves tree}"
  using Split_smaller_larger [OF run] by (auto simp: NextLeafId_def split: if_splits)

lemma train_loop_pinned:
  assumes run: "train_loop env k aborted tree l r d s = Inr (tree', d', s')"
    and pin: "gain (best_split_per_leaf_' s ! nat p) = kMinScore"
    and p: "0 \<le> p" "p < tree_num_leaves tree"
    and nc: "cegb_' s = None"
    and safe: "aborted \<or> \<not> fst (BeforeFindBestSplit s tree l r)
       \<or> (0 \<le> leaf_index (smaller_leaf_splits_' s) \<and> leaf_index (smaller_leaf_splits_' s) \<noteq> p
           \<and> leaf_index (larger_leaf_splits_' s) \<noteq> p)"
  shows "(\<exists>new. tree_splits tree' = tree_splits tree @ new \<and> p \<notin> fst ` set new)
    \<and> gain (best_split_per_leaf_' s' ! nat p) = kMinScore"
  using run pin p nc safe
proof (induction k arbitrary: aborted tree l r d s)
  case 0
  then show ?case by simp
next
  case (Suc k)
  from Suc.prems(1) obtain s1 where prep: "prepare_iteration env aborted s tree l r = Inr s1"
    by (auto split: sum.splits)
  note pp = prepare_iteration_pinned [OF prep Suc.prems(2) Suc.prems(3) Suc.prems(6)]
  let ?b = "int (ArgMax (best_split_per_leaf_' s1))"
  show ?case
  proof (cases "gain (best_split_per_leaf_' s1 ! nat ?b) \<le> Some 0")
    case True
    with Suc.prems(1) prep have "tree' = tree" "s' = s1" by (simp_all add: Let_def)
    with pp show ?thesis by simp
  next
    case False
    with Suc.prems(1) prep obtain s2 tree2 l2 r2 where
      sp: "Split env s1 tree ?b = Inr (s2, tree2, l2, r2)"
      and rest: "train_loop env k False tree2 l2 r2 (max d (leaf_depth tree2 l2)) s2 = Inr (tree', d', s')"
      by (auto simp: Let_def split: sum.splits)
    have bp: "nat p \<noteq> nat ?b" "p \<noteq> ?b"
      using False pp(1) by auto
    have nc1: "cegb_' s1 = None" using pp(2) Suc.prems(5) by simp
    note st = Split_tree [OF sp]
    note sb = Split_best [OF sp nc1]
    note li = Split_leaf_indices [OF sp]
    have "gain (best_split_per_leaf_' s2 ! nat p) = kMinScore"
      using sb(3) [OF bp(1)] pp(1) by simp
    moreover have "0 \<le> leaf_index (smaller_leaf_splits_' s2) \<and> leaf_index (smaller_leaf_splits_' s2) \<noteq> p
           \<and> leaf_index (larger_leaf_splits_' s2) \<noteq> p"
      using li bp(2) Suc.prems(3,4) by auto
    moreover have "p < tree_num_leaves tree2"
      using st(3) Suc.prems(4) by simp
    ultimately have "(\<exists>new. tree_splits tree' = tree_splits tree2 @ new \<and> p \<notin> fst ` set new)
        \<and> gain (best_split_per_leaf_' s' ! nat p) = kMinScore"
      using Suc.IH [OF rest] Suc.prems(3) sb(1) by blast
    then obtain new where n: "tree_splits tree' = tree_splits tree2 @ new" "p \<notin> fst ` set new"
      and g: "gain (best_split_per_leaf_' s' ! nat p) = kMinScore"
      by blast
    from st(4) obtain f where "tree_splits tree2 = tree_splits tree @ [(?b, f)]" by blast
    with n bp(2) have "tree_splits tree' = tree_splits tree @ ((?b, f) # new)"
      "p \<notin> fst ` set ((?b, f) # new)"
      by auto
    with g show ?thesis by blast
  qed
qed

lemma prepare_iteration_gated:
  assumes "\<not> fst (BeforeFindBestSplit s tree l r)"
  shows "prepare_iteration env False s tree l r = Inr (pin_leaves l r s)"
proof -
  obtain b sx where e: "BeforeFindBestSplit s tree l r = (b, sx)"
    by (cases "BeforeFindBestSplit s tree l r")
  with assms BeforeFindBestSplit_false [OF assms] show ?thesis
    by (simp add: prepare_iteration_def)
qed

lemma prepare_iteration_aborted: "prepare_iteration env True s tree l r = Inr s"
  by (simp add: prepare_iteration_def)

lemma train_loop_after_pin:
  assumes "\<not> fst (BeforeFindBestSplit s tree l r)"
  shows "train_loop env (Suc k) False tree l r d s
       = train_loop env (Suc k) True tree l r d (pin_leaves l r s)"
  by (simp only: train_loop.simps prepare_iteration_gated [OF assms] prepare_iteration_aborted)

subsection \<open>ForceSplits: one pass of the loop\<close>

lemma gather_forced_result:
  assumes "\<not> is_null child"
  shows "gather_forced env s child (Some slot) ls leaf m =
    Inr (if gain (gathered_split env s child slot ls) < Some 0
         then m(leaf := None) else m(leaf \<mapsto> gathered_split env s child slot ls))"
  using assms by (simp add: gather_forced_def gathered_split_def Let_def)

lemma gather_forced_null: "is_null child \<Longrightarrow> gather_forced env s child arr ls leaf m = Inr m"
  by (simp add: gather_forced_def)



lemma apply_forced_frame:
  "forceSplitMap (apply_forced env node leaf info st) = forceSplitMap st"
  "aborted_last_force_split (apply_forced env node leaf info st) = aborted_last_force_split st"
  "result_count (apply_forced env node leaf info st) = result_count st + 1"
  "tree_num_leaves (fs_tree (apply_forced env node leaf info st)) = tree_num_leaves (fs_tree st) + 1"
  "\<exists>f. tree_splits (fs_tree (apply_forced env node leaf info st)) = tree_splits (fs_tree st) @ [(leaf, f)]"
proof -
  obtain sx infox treex rx where sl:
    "split_leaf env (InnerFeatureIndex env (feature info)) leaf info (fs_learner st) (fs_tree st)
      = (sx, infox, treex, rx)"
    by (metis prod_cases4)
  note res = split_leaf_result [OF sl]
  show "forceSplitMap (apply_forced env node leaf info st) = forceSplitMap st"
    "aborted_last_force_split (apply_forced env node leaf info st) = aborted_last_force_split st"
    "result_count (apply_forced env node leaf info st) = result_count st + 1"
    "tree_num_leaves (fs_tree (apply_forced env node leaf info st)) = tree_num_leaves (fs_tree st) + 1"
    "\<exists>f. tree_splits (fs_tree (apply_forced env node leaf info st)) = tree_splits (fs_tree st) @ [(leaf, f)]"
    using res(4) by (simp_all add: apply_forced_def Let_def sl Tree_Split_def)
qed



lemma Train_forced:
  assumes "\<not> is_null forced_split_json"
    and "BeforeTrain env (s\<lparr>gradients_' := g, hessians_' := h, is_constant_hessian_' := c\<rparr>) = Inr s1"
    and "ForceSplits env s1 (Tree_new (num_leaves (config_' s1))) forced_split_json 0 (- 1) 1 = Inr st"
  shows "Train env s g h c forced_split_json =
     (case train_loop env (nat (num_leaves (config_' (fs_learner st)) - 1 - result_count st))
             (aborted_last_force_split st) (fs_tree st) (fs_left_leaf st) (fs_right_leaf st)
             (fs_cur_depth st) (fs_learner st) of
        Inl e \<Rightarrow> Inl e
      | Inr (tree, d, s') \<Rightarrow> Inr (tree, s'))"
  using assms by (simp add: Train_def Let_def)


lemma ex_learner_min5p_fields:
  "config_' ex_learner_min5p = ex_config\<lparr>min_data_in_leaf := 5\<rparr>"
  "num_data_' ex_learner_min5p = 2" "num_features_' ex_learner_min5p = 1"
  "gradients_' ex_learner_min5p = ex_ones" "hessians_' ex_learner_min5p = ex_ones"
  "is_constant_hessian_' ex_learner_min5p = True"
  "is_feature_used_' ex_learner_min5p = [True]"
  "histogram_pool_' ex_learner_min5p = ex_pool"
  "best_split_per_leaf_' ex_learner_min5p = [ex_split 1, SplitInfo_new]"
  "data_partition_' ex_learner_min5p = ex_partition2"
  "smaller_leaf_splits_' ex_learner_min5p = ex_leaf_splits"
  "larger_leaf_splits_' ex_learner_min5p = ex_leaf_splits"
  "smaller_leaf_histogram_array_' ex_learner_min5p = Some 0"
  "cegb_' ex_learner_min5p = None"
  by (simp_all add: ex_learner_min5p_def ex_learner_min5_def ex_learner2_def ex_learner_def)

lemma ex_BeforeTrain:
  "BeforeTrain ex_env_neg
     (ex_learner_min5p\<lparr>gradients_' := ex_ones, hessians_' := ex_ones, is_constant_hessian_' := True\<rparr>)
   = Inr ex_prepared"
proof -
  have same: "ex_learner_min5p\<lparr>gradients_' := ex_ones, hessians_' := ex_ones, is_constant_hessian_' := True\<rparr>
      = ex_learner_min5p"
    by (simp add: ex_learner_min5p_def ex_learner_min5_def ex_learner2_def ex_learner_def)
  have cnt: "leaf_count (DataPartition_Init ex_partition2) 0 = 2"
    by (simp add: leaf_count_def DataPartition_Init_def ex_partition2_def)
  show ?thesis
    unfolding same BeforeTrain_def
    by (simp add: ex_learner_min5p_fields ex_config_def Let_def cnt ex_prepared_def upt_rec)
qed

lemma ex_prepared_fields:
  "config_' ex_prepared = ex_config\<lparr>min_data_in_leaf := 5\<rparr>"
  "best_split_per_leaf_' ex_prepared = [SplitInfo_Reset (ex_split 1), SplitInfo_Reset SplitInfo_new]"
  "data_partition_' ex_prepared = DataPartition_Init ex_partition2"
  "smaller_leaf_histogram_array_' ex_prepared = Some 0"
  "cegb_' ex_prepared = None"
  by (simp_all add: ex_prepared_def ex_learner_min5p_fields)

lemma ex_prepared_gated: "\<not> fst (BeforeFindBestSplit ex_prepared (Tree_new 2) 0 (- 1))"
  unfolding BeforeFindBestSplit_false_iff
  by (simp add: ex_prepared_fields ex_config_def GetGlobalDataCountInLeaf_def leaf_count_def
      DataPartition_Init_def ex_partition2_def int32_mul_def)


lemma ex_resume:
  "train_loop ex_env_neg (Suc 0) True (Tree_new 2) 0 (- 1) 1 (pin_leaves 0 (- 1) ex_prepared)
   = Inr (Tree_new 2, 1, pin_leaves 0 (- 1) ex_prepared)"
  by (simp add: prepare_iteration_aborted pin_leaves_def set_gain_kMinScore_def ex_prepared_fields
      ArgMax_def SplitInfo_gt_def SplitInfo_Reset_def ex_split_def SplitInfo_new_def Let_def)

subsection \<open>The search for best splits returns\<close>

text \<open>
  With a histogram array bound for every leaf under consideration and no per-node feature
  sampling, none of the failure branches of \<^verbatim>\<open>FindBestSplits\<close> is taken.
\<close>

lemma control_frameD:
  assumes "control_frame s s'"
  shows "config_' s' = config_' s" "num_features_' s' = num_features_' s"
    "parent_leaf_histogram_array_' s' = parent_leaf_histogram_array_' s"
    "smaller_leaf_histogram_array_' s' = smaller_leaf_histogram_array_' s"
    "larger_leaf_histogram_array_' s' = larger_leaf_histogram_array_' s"
    "best_split_per_leaf_' s' = best_split_per_leaf_' s"
    "smaller_leaf_splits_' s' = smaller_leaf_splits_' s"
    "larger_leaf_splits_' s' = larger_leaf_splits_' s"
    "data_partition_' s' = data_partition_' s" "cegb_' s' = cegb_' s"
    "is_feature_used_' s' = is_feature_used_' s"
  using assms by (simp_all add: control_frame_def)

lemma features_to_evaluate_returns:
  "smaller_leaf_histogram_array_' s \<noteq> None \<Longrightarrow>
   \<exists>used' s'. features_to_evaluate fs (used, s) = Inr (used', s')"
proof (induction fs arbitrary: used s)
  case Nil
  then show ?case by simp
next
  case (Cons f fs)
  from Cons.prems obtain sm where sm: "smaller_leaf_histogram_array_' s = Some sm" by auto
  have keep: "smaller_leaf_histogram_array_' (set_hist sm f fh s) \<noteq> None" for fh
    using sm by (simp add: set_hist_def)
  show ?case
    using Cons.IH [OF Cons.prems] Cons.IH [OF keep] sm
    by (simp split: option.splits)
qed

lemma ConstructHistograms_returns:
  "smaller_leaf_histogram_array_' s \<noteq> None \<Longrightarrow> \<exists>s'. ConstructHistograms env s used sub = Inr s'"
  by (auto simp: ConstructHistograms_def Let_def split: option.splits)

lemma node_used_features_returns:
  "\<not> feature_fraction_bynode (config_' s) < 1 \<Longrightarrow>
   node_used_features env s
   = Inr (replicate (nat (num_features_' s)) True, replicate (nat (num_features_' s)) True, s)"
  by (simp add: node_used_features_def)

lemma find_splits_iteration_returns:
  assumes "smaller_leaf_histogram_array_' s \<noteq> None"
    and "0 \<le> leaf_index (larger_leaf_splits_' s) \<longrightarrow> larger_leaf_histogram_array_' s \<noteq> None"
  shows "\<exists>s' sb' lb'. find_splits_iteration env sub used snu lnu f (s, sb, lb) = Inr (s', sb', lb')"
proof -
  from assms obtain sm where sm: "smaller_leaf_histogram_array_' s = Some sm" by auto
  show ?thesis
  proof (cases "0 \<le> leaf_index (larger_leaf_splits_' s)")
    case True
    with assms obtain lg where lg: "larger_leaf_histogram_array_' s = Some lg" by auto
    show ?thesis
      unfolding find_splits_iteration_def Let_def
      using sm lg True
      by (simp add: ComputeBestSplitForFeature_def Let_def set_hist_def split: prod.splits)
  next
    case False
    then show ?thesis
      unfolding find_splits_iteration_def Let_def
      using sm
      by (simp add: ComputeBestSplitForFeature_def Let_def set_hist_def split: prod.splits)
  qed
qed

lemma find_splits_loop_returns:
  assumes "smaller_leaf_histogram_array_' s \<noteq> None"
    and "0 \<le> leaf_index (larger_leaf_splits_' s) \<longrightarrow> larger_leaf_histogram_array_' s \<noteq> None"
  shows "\<exists>s' sb' lb'. find_splits_loop env sub used snu lnu fs (s, sb, lb) = Inr (s', sb', lb')"
  using assms
proof (induction fs arbitrary: s sb lb)
  case Nil
  then show ?case by simp
next
  case (Cons f fs)
  from find_splits_iteration_returns [OF Cons.prems] obtain s1 sb1 lb1 where
    it: "find_splits_iteration env sub used snu lnu f (s, sb, lb) = Inr (s1, sb1, lb1)"
    by blast
  note fr = control_frameD [OF find_splits_iteration_frame [OF it]]
  have "\<exists>s' sb' lb'. find_splits_loop env sub used snu lnu fs (s1, sb1, lb1) = Inr (s', sb', lb')"
    using Cons.prems by (intro Cons.IH) (simp_all add: fr)
  with it show ?case by simp
qed

lemma FindBestSplits_returns:
  assumes sm: "smaller_leaf_histogram_array_' s \<noteq> None"
    and lg: "0 \<le> leaf_index (larger_leaf_splits_' s) \<longrightarrow> larger_leaf_histogram_array_' s \<noteq> None"
    and fbn: "\<not> feature_fraction_bynode (config_' s) < 1"
  shows "\<exists>s'. FindBestSplits env s = Inr s'"
proof -
  from features_to_evaluate_returns [OF sm] obtain used s1 where
    a: "features_to_evaluate [0 ..< nat (num_features_' s)] (replicate (nat (num_features_' s)) False, s)
          = Inr (used, s1)"
    by blast
  note f1 = control_frameD [OF features_to_evaluate_frame [OF a]]
  from ConstructHistograms_returns [of s1] sm f1 obtain s2 where
    b: "ConstructHistograms env s1 used (parent_leaf_histogram_array_' s1 \<noteq> None) = Inr s2"
    by metis
  note f2 = control_frameD [OF ConstructHistograms_frame [OF b]]
  have n: "node_used_features env s2
     = Inr (replicate (nat (num_features_' s2)) True, replicate (nat (num_features_' s2)) True, s2)"
    using fbn by (intro node_used_features_returns) (simp add: f1 f2)
  have "smaller_leaf_histogram_array_' s2 \<noteq> None"
    "0 \<le> leaf_index (larger_leaf_splits_' s2) \<longrightarrow> larger_leaf_histogram_array_' s2 \<noteq> None"
    using sm lg by (simp_all add: f1 f2)
  from find_splits_loop_returns [OF this] obtain s3 sb lb where
    l: "find_splits_loop env (parent_leaf_histogram_array_' s1 \<noteq> None) used
          (replicate (nat (num_features_' s2)) True) (replicate (nat (num_features_' s2)) True)
          [0 ..< nat (num_features_' s2)]
          (s2, replicate (omp_num_threads env) SplitInfo_new, replicate (omp_num_threads env) SplitInfo_new)
        = Inr (s3, sb, lb)"
    by blast
  show ?thesis
    unfolding FindBestSplits_def FindBestSplitsFromHistograms_def Let_def
    by (simp add: a b n l del: not_None_eq)
qed


subsection \<open>The number of splits of a tree\<close>

lemma queued_nodes_push:
  "queued_nodes (push_children node l r q) + 1 = queued_nodes q + forced_nodes node"
  by (cases node) (simp_all add: push_children_def queued_nodes_def Let_def)

lemma BeforeFindBestSplit_never_gated:
  assumes "never_gated (config_' s)"
  shows "fst (BeforeFindBestSplit s tree l r)"
proof -
  have "0 \<le> GetGlobalDataCountInLeaf s x" for x
    by (simp add: GetGlobalDataCountInLeaf_def leaf_count_def)
  from this [of l] this [of r] assms have
    "\<not> ((max_depth (config_' s) > 0 \<and> leaf_depth tree l \<ge> max_depth (config_' s))
     \<or> (GetGlobalDataCountInLeaf s r < int32_mul (min_data_in_leaf (config_' s)) 2
        \<and> GetGlobalDataCountInLeaf s l < int32_mul (min_data_in_leaf (config_' s)) 2))"
    by (auto simp: never_gated_def)
  then show ?thesis
    using BeforeFindBestSplit_false_iff [of s tree l r] by blast
qed

lemma BeforeFindBestSplit_pointers:
  assumes "fst (BeforeFindBestSplit s tree l r)"
  shows "smaller_leaf_histogram_array_' (snd (BeforeFindBestSplit s tree l r)) \<noteq> None"
    and "0 \<le> r \<Longrightarrow> larger_leaf_histogram_array_' (snd (BeforeFindBestSplit s tree l r)) \<noteq> None"
  using assms
  by (auto simp: BeforeFindBestSplit_def Let_def split: prod.splits if_splits)

lemma search_frameD:
  assumes "search_frame s s'"
  shows "config_' s' = config_' s"
    "smaller_leaf_histogram_array_' s' = smaller_leaf_histogram_array_' s"
    "larger_leaf_histogram_array_' s' = larger_leaf_histogram_array_' s"
    "smaller_leaf_splits_' s' = smaller_leaf_splits_' s"
    "larger_leaf_splits_' s' = larger_leaf_splits_' s"
    "data_partition_' s' = data_partition_' s"
  using assms by (simp_all add: search_frame_def control_frame_def)

lemma prepare_iteration_returns:
  assumes ng: "never_gated (config_' s)"
    and root: "r < 0 \<longrightarrow> leaf_index (larger_leaf_splits_' s) < 0"
  shows "\<exists>s1. prepare_iteration env False s tree l r = Inr s1
    \<and> config_' s1 = config_' s
    \<and> smaller_leaf_histogram_array_' s1 \<noteq> None
    \<and> (0 \<le> r \<longrightarrow> larger_leaf_histogram_array_' s1 \<noteq> None)
    \<and> larger_leaf_splits_' s1 = larger_leaf_splits_' s"
proof -
  obtain b s0 where bf: "BeforeFindBestSplit s tree l r = (b, s0)" by (cases "BeforeFindBestSplit s tree l r")
  from BeforeFindBestSplit_never_gated [OF ng, of tree l r] bf have b: "b" by simp
  from BeforeFindBestSplit_true [of s tree l r] bf b have pf: "prepared_frame s s0" by simp
  note p = prepared_frameD [OF pf]
  from BeforeFindBestSplit_pointers [of s tree l r] bf b have
    sm: "smaller_leaf_histogram_array_' s0 \<noteq> None"
    and lg: "0 \<le> r \<Longrightarrow> larger_leaf_histogram_array_' s0 \<noteq> None"
    by simp_all
  have "0 \<le> leaf_index (larger_leaf_splits_' s0) \<longrightarrow> larger_leaf_histogram_array_' s0 \<noteq> None"
    using root lg by (cases "0 \<le> r") (simp_all add: p)
  moreover have "\<not> feature_fraction_bynode (config_' s0) < 1"
    using ng by (simp add: p never_gated_def)
  ultimately obtain s1 where f: "FindBestSplits env s0 = Inr s1"
    using FindBestSplits_returns [OF sm] by blast
  note sf = search_frameD [OF FindBestSplits_frame [OF f]]
  show ?thesis
    using bf b f sm lg by (simp add: prepare_iteration_def sf p)
qed

lemma gather_forced_nonneg:
  assumes "gather_never_negative env"
  shows "gather_forced env s child (Some slot) ls leaf m =
    Inr (if is_null child then m else m(leaf \<mapsto> gathered_split env s child slot ls))"
proof (cases "is_null child")
  case True
  then show ?thesis by (simp add: gather_forced_null)
next
  case False
  have "\<not> gain (gathered_split env s child slot ls) < Some 0"
    using assms by (simp add: gathered_split_def gather_never_negative_def)
  with False show ?thesis by (simp add: gather_forced_result)
qed

lemma apply_forced_config:
  "config_' (fs_learner (apply_forced env node leaf info st)) = config_' (fs_learner st)"
  "fs_left (apply_forced env node leaf info st) = left_of node"
  "fs_right (apply_forced env node leaf info st) = right_of node"
  "fs_left_leaf (apply_forced env node leaf info st) = leaf"
  "fs_right_leaf (apply_forced env node leaf info st) = tree_num_leaves (fs_tree st)"
proof -
  obtain sx infox treex rx where sl:
    "split_leaf env (InnerFeatureIndex env (feature info)) leaf info (fs_learner st) (fs_tree st)
      = (sx, infox, treex, rx)"
    by (metis prod_cases4)
  note res = split_leaf_result [OF sl]
  have "config_' sx = config_' (fs_learner st)"
    by (subst res(5)) simp
  then show "config_' (fs_learner (apply_forced env node leaf info st)) = config_' (fs_learner st)"
    "fs_left (apply_forced env node leaf info st) = left_of node"
    "fs_right (apply_forced env node leaf info st) = right_of node"
    "fs_left_leaf (apply_forced env node leaf info st) = leaf"
    "fs_right_leaf (apply_forced env node leaf info st) = tree_num_leaves (fs_tree st)"
    using res(1) by (simp_all add: apply_forced_def Let_def sl init_children_frame NextLeafId_def)
qed

lemma gather_forced_keeps:
  assumes "gather_never_negative env" and "\<not> is_null child \<longrightarrow> arr \<noteq> None"
  shows "\<exists>m'. gather_forced env s child arr ls leaf m = Inr m'
    \<and> (\<forall>k. m k \<noteq> None \<longrightarrow> m' k \<noteq> None) \<and> (\<not> is_null child \<longrightarrow> m' leaf \<noteq> None)"
proof (cases "is_null child")
  case True
  then show ?thesis by (simp add: gather_forced_null)
next
  case False
  with assms(2) obtain slot where "arr = Some slot" by auto
  with False show ?thesis by (simp add: gather_forced_nonneg [OF assms(1)])
qed

lemma ForceSplits_body_eq:
  "ForceSplits_body env pair st =
    (case prepare_iteration env False (fs_learner st) (fs_tree st) (fs_left_leaf st) (fs_right_leaf st) of
       Inl e \<Rightarrow> Inl e
     | Inr s \<Rightarrow>
        (case gather_forced env s (fs_left st)
                 (if left_smaller st then smaller_leaf_histogram_array_' s else larger_leaf_histogram_array_' s)
                 (if left_smaller st then smaller_leaf_splits_' s else larger_leaf_splits_' s)
                 (fs_left_leaf st) (forceSplitMap st) of
            Inl e \<Rightarrow> Inl e
          | Inr force_map \<Rightarrow>
             (case gather_forced env s (fs_right st)
                     (if left_smaller st then larger_leaf_histogram_array_' s else smaller_leaf_histogram_array_' s)
                     (if left_smaller st then larger_leaf_splits_' s else smaller_leaf_splits_' s)
                     (fs_right_leaf st) force_map of
                Inl e \<Rightarrow> Inl e
              | Inr force_map \<Rightarrow>
                  (case force_map (snd pair) of
                     None \<Rightarrow> Inr (False, st\<lparr>fs_learner := s, forceSplitMap := force_map,
                                              aborted_last_force_split := True\<rparr>)
                   | Some info \<Rightarrow> Inr (True, apply_forced env (fst pair) (snd pair) info
                                           (st\<lparr>fs_learner := s, forceSplitMap := force_map\<rparr>))))))"
  unfolding ForceSplits_body_def prepare_iteration_def Let_def by simp

lemma ForceSplits_body_applies:
  assumes gnn: "gather_never_negative env" and inv: "force_ready (pair # q) st"
  shows "\<exists>st'. ForceSplits_body env pair st = Inr (True, st')
    \<and> force_ready (push_children (fst pair) (fs_left_leaf st') (fs_right_leaf st') q) st'
    \<and> result_count st' = result_count st + 1
    \<and> tree_num_leaves (fs_tree st') = tree_num_leaves (fs_tree st) + 1
    \<and> aborted_last_force_split st' = aborted_last_force_split st
    \<and> config_' (fs_learner st') = config_' (fs_learner st)"
proof -
  from inv have ng: "never_gated (config_' (fs_learner st))"
    and pos: "0 < tree_num_leaves (fs_tree st)"
    and root: "fs_right_leaf st < 0 \<longrightarrow> left_smaller st \<and> is_null (fs_right st)
           \<and> leaf_index (larger_leaf_splits_' (fs_learner st)) < 0"
    and cover: "\<forall>p \<in> set (pair # q). forceSplitMap st (snd p) \<noteq> None
            \<or> (snd p = fs_left_leaf st \<and> \<not> is_null (fs_left st))
            \<or> (snd p = fs_right_leaf st \<and> \<not> is_null (fs_right st))"
    by (simp_all add: force_ready_def)
  from prepare_iteration_returns [OF ng, of "fs_right_leaf st" env "fs_tree st" "fs_left_leaf st"] root
  obtain s1 where
    p: "prepare_iteration env False (fs_learner st) (fs_tree st) (fs_left_leaf st) (fs_right_leaf st) = Inr s1"
    and cfg: "config_' s1 = config_' (fs_learner st)"
    and sm: "smaller_leaf_histogram_array_' s1 \<noteq> None"
    and lg: "0 \<le> fs_right_leaf st \<longrightarrow> larger_leaf_histogram_array_' s1 \<noteq> None"
    by blast
  let ?la = "if left_smaller st then smaller_leaf_histogram_array_' s1 else larger_leaf_histogram_array_' s1"
  let ?ra = "if left_smaller st then larger_leaf_histogram_array_' s1 else smaller_leaf_histogram_array_' s1"
  let ?ll = "if left_smaller st then smaller_leaf_splits_' s1 else larger_leaf_splits_' s1"
  let ?rl = "if left_smaller st then larger_leaf_splits_' s1 else smaller_leaf_splits_' s1"
  have la: "\<not> is_null (fs_left st) \<longrightarrow> ?la \<noteq> None"
    using sm lg root by (cases "0 \<le> fs_right_leaf st") auto
  have ra: "\<not> is_null (fs_right st) \<longrightarrow> ?ra \<noteq> None"
    using sm lg root by (cases "0 \<le> fs_right_leaf st") auto
  from gather_forced_keeps [OF gnn la] obtain m1 where
    g1: "gather_forced env s1 (fs_left st) ?la ?ll (fs_left_leaf st) (forceSplitMap st) = Inr m1"
    and k1: "\<forall>k. forceSplitMap st k \<noteq> None \<longrightarrow> m1 k \<noteq> None"
    and n1: "\<not> is_null (fs_left st) \<longrightarrow> m1 (fs_left_leaf st) \<noteq> None"
    by blast
  from gather_forced_keeps [OF gnn ra] obtain m2 where
    g2: "gather_forced env s1 (fs_right st) ?ra ?rl (fs_right_leaf st) m1 = Inr m2"
    and k2: "\<forall>k. m1 k \<noteq> None \<longrightarrow> m2 k \<noteq> None"
    and n2: "\<not> is_null (fs_right st) \<longrightarrow> m2 (fs_right_leaf st) \<noteq> None"
    by blast
  have covered: "m2 (snd p) \<noteq> None" if "p \<in> set (pair # q)" for p
    using cover that k1 k2 n1 n2 by metis
  then obtain info where info: "m2 (snd pair) = Some info" by fastforce
  define st' where "st' = apply_forced env (fst pair) (snd pair) info
      (st\<lparr>fs_learner := s1, forceSplitMap := m2\<rparr>)"
  have body: "ForceSplits_body env pair st = Inr (True, st')"
    using p g1 g2 info by (cases "left_smaller st") (simp_all add: ForceSplits_body_eq st'_def)
  note af = apply_forced_frame [of env "fst pair" "snd pair" info "st\<lparr>fs_learner := s1, forceSplitMap := m2\<rparr>",
      folded st'_def]
  note ac = apply_forced_config [of env "fst pair" "snd pair" info "st\<lparr>fs_learner := s1, forceSplitMap := m2\<rparr>",
      folded st'_def]
  have map': "forceSplitMap st' = m2" using af(1) by simp
  have "\<forall>p \<in> set (push_children (fst pair) (fs_left_leaf st') (fs_right_leaf st') q).
          forceSplitMap st' (snd p) \<noteq> None
            \<or> (snd p = fs_left_leaf st' \<and> \<not> is_null (fs_left st'))
            \<or> (snd p = fs_right_leaf st' \<and> \<not> is_null (fs_right st'))"
    using covered by (auto simp: push_children_def Let_def map' ac)
  moreover have "\<not> fs_right_leaf st' < 0" using pos ac(5) by simp
  ultimately have "force_ready (push_children (fst pair) (fs_left_leaf st') (fs_right_leaf st') q) st'"
    using ng pos af(4) by (simp add: force_ready_def ac(1) cfg)
  with body show ?thesis
    using af(2,3,4) by (auto simp: ac(1) cfg)
qed

lemma ForceSplits_loop_applies_all:
  "gather_never_negative env \<Longrightarrow> force_ready q st \<Longrightarrow>
    \<exists>st'. ForceSplits_loop env q st = Inr st'
      \<and> result_count st' = result_count st + int (queued_nodes q)
      \<and> tree_num_leaves (fs_tree st') = tree_num_leaves (fs_tree st) + int (queued_nodes q)
      \<and> aborted_last_force_split st' = aborted_last_force_split st
      \<and> config_' (fs_learner st') = config_' (fs_learner st)"
proof (induction env q st rule: ForceSplits_loop.induct)
  case (1 env st)
  then show ?case by (simp add: queued_nodes_def)
next
  case (2 env pair q st)
  note gnn = "2.prems"(1)
  from ForceSplits_body_applies [OF "2.prems"] obtain st1 where
    body: "ForceSplits_body env pair st = Inr (True, st1)"
    and inv: "force_ready (push_children (fst pair) (fs_left_leaf st1) (fs_right_leaf st1) q) st1"
    and st1: "result_count st1 = result_count st + 1"
      "tree_num_leaves (fs_tree st1) = tree_num_leaves (fs_tree st) + 1"
      "aborted_last_force_split st1 = aborted_last_force_split st"
      "config_' (fs_learner st1) = config_' (fs_learner st)"
    by (elim exE conjE) (rule that)
  from "2.IH" [OF body refl TrueI gnn inv] obtain st' where
    r: "ForceSplits_loop env (push_children (fst pair) (fs_left_leaf st1) (fs_right_leaf st1) q) st1 = Inr st'"
      "result_count st' = result_count st1
         + int (queued_nodes (push_children (fst pair) (fs_left_leaf st1) (fs_right_leaf st1) q))"
      "tree_num_leaves (fs_tree st') = tree_num_leaves (fs_tree st1)
         + int (queued_nodes (push_children (fst pair) (fs_left_leaf st1) (fs_right_leaf st1) q))"
      "aborted_last_force_split st' = aborted_last_force_split st1"
      "config_' (fs_learner st') = config_' (fs_learner st1)"
    by (elim exE conjE) (rule that)
  have q: "int (queued_nodes (push_children (fst pair) (fs_left_leaf st1) (fs_right_leaf st1) q)) + 1
      = int (queued_nodes (pair # q))"
    using queued_nodes_push [of "fst pair" "fs_left_leaf st1" "fs_right_leaf st1" q]
    by (simp add: queued_nodes_def)
  show ?case
    using body r st1 q by simp
qed

lemma BeforeTrain_result:
  assumes "BeforeTrain env s = Inr s1"
  shows "config_' s1 = config_' s" "leaf_index (larger_leaf_splits_' s1) = - 1"
proof -
  let ?s0 = "s\<lparr>histogram_pool_' := ResetMap (histogram_pool_' s)\<rparr>"
  let ?m = "if feature_fraction (config_' ?s0) < 1
               then (case GetUsedFeatures env ?s0 True of
                       Inl e \<Rightarrow> Inl e
                     | Inr (ret, s) \<Rightarrow> Inr (s\<lparr>is_feature_used_' := ret\<rparr>))
               else Inr (?s0\<lparr>is_feature_used_' :=
                           fold (\<lambda>i used. used[i := True]) [0 ..< nat (num_features_' ?s0)]
                             (is_feature_used_' ?s0)\<rparr>)"
  from assms obtain s2 where m: "?m = Inr s2"
    unfolding BeforeTrain_def Let_def by (cases ?m) simp_all
  have c2: "config_' s2 = config_' s"
  proof (cases "feature_fraction (config_' ?s0) < 1")
    case True
    with m obtain ret s3 where g: "GetUsedFeatures env ?s0 True = Inr (ret, s3)"
      and s2: "s2 = s3\<lparr>is_feature_used_' := ret\<rparr>"
      by (auto split: sum.splits)
    from GetUsedFeatures_frame [OF g] show ?thesis
      by (simp add: s2 control_frame_def)
  next
    case False
    with m show ?thesis by auto
  qed
  from assms m show "config_' s1 = config_' s" "leaf_index (larger_leaf_splits_' s1) = - 1"
    unfolding BeforeTrain_def Let_def
    by (auto simp: c2 LeafSplits_Init_none_def split: if_splits)
qed

lemma ForceSplits_applies_all:
  assumes gnn: "gather_never_negative env" and ng: "never_gated (config_' s)"
    and json: "\<not> is_null forced_split_json"
    and larger: "leaf_index (larger_leaf_splits_' s) < 0"
    and tree: "0 < tree_num_leaves tree"
  shows "\<exists>st. ForceSplits env s tree forced_split_json 0 (- 1) d = Inr st
      \<and> result_count st = int (forced_nodes forced_split_json)
      \<and> tree_num_leaves (fs_tree st) = tree_num_leaves tree + int (forced_nodes forced_split_json)
      \<and> \<not> aborted_last_force_split st
      \<and> config_' (fs_learner st) = config_' s"
proof -
  let ?st = "\<lparr>fs_tree = tree, fs_learner = s, fs_left_leaf = 0, fs_right_leaf = - 1,
        fs_cur_depth = d, fs_left = forced_split_json, fs_right = JNull,
        left_smaller = True, forceSplitMap = Map.empty, result_count = 0,
        aborted_last_force_split = False\<rparr>"
  have "force_ready [(forced_split_json, 0)] ?st"
    using ng json larger tree by (simp add: force_ready_def)
  from ForceSplits_loop_applies_all [OF gnn this] show ?thesis
    by (simp add: ForceSplits_def queued_nodes_def)
qed

lemma train_loop_leaves:
  "train_loop env k aborted tree l r d s = Inr (tree', d', s') \<Longrightarrow>
   tree_num_leaves tree' \<le> tree_num_leaves tree + int k"
proof (induction k arbitrary: aborted tree l r d s)
  case 0
  then show ?case by simp
next
  case (Suc k)
  from Suc.prems obtain s1 where
    p: "prepare_iteration env aborted s tree l r = Inr s1"
    by (cases "prepare_iteration env aborted s tree l r") simp_all
  let ?b = "int (ArgMax (best_split_per_leaf_' s1))"
  show ?case
  proof (cases "gain (best_split_per_leaf_' s1 ! nat ?b) \<le> Some 0")
    case True
    with Suc.prems p show ?thesis by (simp add: Let_def)
  next
    case False
    with Suc.prems p obtain s2 tree2 l2 r2 where
      sp: "Split env s1 tree ?b = Inr (s2, tree2, l2, r2)"
      and rest: "train_loop env k False tree2 l2 r2 (max d (leaf_depth tree2 l2)) s2 = Inr (tree', d', s')"
      by (cases "Split env s1 tree ?b") (auto simp: Let_def)
    from Suc.IH [OF rest] Split_tree(3) [OF sp] show ?thesis by simp
  qed
qed

lemma Train_without_template:
  assumes "is_null forced_split_json" and "Train env s g h c forced_split_json = Inr (tree, s')"
  shows "tree_num_leaves tree \<le> max 1 (num_leaves (config_' s))"
proof -
  let ?s0 = "s\<lparr>gradients_' := g, hessians_' := h, is_constant_hessian_' := c\<rparr>"
  from assms(2) obtain s1 where bt: "BeforeTrain env ?s0 = Inr s1"
    unfolding Train_def Let_def by (cases "BeforeTrain env ?s0") simp_all
  note b = BeforeTrain_result [OF bt]
  from assms bt obtain d' where
    "train_loop env (nat (num_leaves (config_' s1) - 1)) False (Tree_new (num_leaves (config_' s1)))
       0 (- 1) 1 s1 = Inr (tree, d', s')"
    unfolding Train_def Let_def by (auto split: sum.splits)
  from train_loop_leaves [OF this] show ?thesis
    by (auto simp: Tree_new_def b max_def split: if_splits)
qed

lemma train_loop_break:
  assumes "prepare_iteration env aborted s tree l r = Inr s1"
    and "gain (best_split_per_leaf_' s1 ! ArgMax (best_split_per_leaf_' s1)) \<le> Some 0"
  shows "train_loop env (Suc k) aborted tree l r d s = Inr (tree, d, s1)"
  using assms by (simp add: Let_def)

lemma Train_with_template:
  assumes gnn: "gather_never_negative env" and ng: "never_gated (config_' s)"
    and json: "\<not> is_null forced_split_json"
    and bt: "BeforeTrain env (s\<lparr>gradients_' := g, hessians_' := h, is_constant_hessian_' := c\<rparr>) = Inr s1"
    and many: "num_leaves (config_' s) - 1 \<le> int (forced_nodes forced_split_json)"
  shows "\<exists>tree s'. Train env s g h c forced_split_json = Inr (tree, s')
      \<and> tree_num_leaves tree = 1 + int (forced_nodes forced_split_json)"
proof -
  note b = BeforeTrain_result [OF bt]
  from b have ng1: "never_gated (config_' s1)" and l1: "leaf_index (larger_leaf_splits_' s1) < 0"
    using ng by simp_all
  from ForceSplits_applies_all [OF gnn ng1 json l1, of "Tree_new (num_leaves (config_' s1))" 1]
  obtain st where f: "ForceSplits env s1 (Tree_new (num_leaves (config_' s1))) forced_split_json 0 (- 1) 1 = Inr st"
    and r: "result_count st = int (forced_nodes forced_split_json)"
      "tree_num_leaves (fs_tree st) = 1 + int (forced_nodes forced_split_json)"
      "config_' (fs_learner st) = config_' s1"
    by (auto simp: Tree_new_def)
  have "nat (num_leaves (config_' (fs_learner st)) - 1 - result_count st) = 0"
    using many by (simp add: r b)
  then show ?thesis
    unfolding Train_forced [OF json bt f] by (simp add: r)
qed

text \<open>
  Claim C3. Without a template of forced splits \<^verbatim>\<open>Train\<close> returns a tree of at most
  \<open>num_leaves\<close> leaves (one leaf when \<open>num_leaves < 1\<close>): the growth loop applies at most one
  split in each of its \<open>k\<close> iterations, and an iteration whose best gain over all leaves
  is at most 0 returns the tree as it is, as a result and not as an error. With a
  template the bound fails: \<^verbatim>\<open>ForceSplits\<close> never compares its count with \<open>num_leaves\<close>.
  When no gathered gain is negative and nothing gates the search, it applies one split
  for every template node it dequeues, \<open>forced_nodes\<close> of them; if that is \<open>num_leaves - 1\<close>
  or more, the growth loop has no iteration left and \<^verbatim>\<open>Train\<close> returns a tree of
  \<open>1 + forced_nodes\<close> leaves, which exceeds \<open>num_leaves\<close> as soon as the template has
  \<open>num_leaves\<close> such nodes.
\<close>

theorem C3_forced_splits_exceed_num_leaves:
  "(is_null forced_split_json \<longrightarrow> Train env s g h c forced_split_json = Inr (tree, s') \<longrightarrow>
      tree_num_leaves tree \<le> max 1 (num_leaves (config_' s)))
   \<and> (train_loop env k aborted tree0 l r d s0 = Inr (tree1, d1, s1) \<longrightarrow>
        tree_num_leaves tree1 \<le> tree_num_leaves tree0 + int k)
   \<and> (prepare_iteration env aborted s0 tree0 l r = Inr s2
        \<and> gain (best_split_per_leaf_' s2 ! ArgMax (best_split_per_leaf_' s2)) \<le> Some 0 \<longrightarrow>
        train_loop env (Suc k) aborted tree0 l r d s0 = Inr (tree0, d, s2))
   \<and> (gather_never_negative env \<and> never_gated (config_' s) \<and> \<not> is_null forced_split_json
        \<and> BeforeTrain env (s\<lparr>gradients_' := g, hessians_' := h, is_constant_hessian_' := c\<rparr>) = Inr s3
        \<and> num_leaves (config_' s) - 1 \<le> int (forced_nodes forced_split_json) \<longrightarrow>
        (\<exists>tree s'. Train env s g h c forced_split_json = Inr (tree, s')
           \<and> tree_num_leaves tree = 1 + int (forced_nodes forced_split_json)))"
proof (intro conjI impI)
  assume "is_null forced_split_json" "Train env s g h c forced_split_json = Inr (tree, s')"
  then show "tree_num_leaves tree \<le> max 1 (num_leaves (config_' s))"
    by (rule Train_without_template)
next
  assume "train_loop env k aborted tree0 l r d s0 = Inr (tree1, d1, s1)"
  then show "tree_num_leaves tree1 \<le> tree_num_leaves tree0 + int k"
    by (rule train_loop_leaves)
next
  assume "prepare_iteration env aborted s0 tree0 l r = Inr s2
        \<and> gain (best_split_per_leaf_' s2 ! ArgMax (best_split_per_leaf_' s2)) \<le> Some 0"
  then show "train_loop env (Suc k) aborted tree0 l r d s0 = Inr (tree0, d, s2)"
    using train_loop_break by blast
next
  assume "gather_never_negative env \<and> never_gated (config_' s) \<and> \<not> is_null forced_split_json
        \<and> BeforeTrain env (s\<lparr>gradients_' := g, hessians_' := h, is_constant_hessian_' := c\<rparr>) = Inr s3
        \<and> num_leaves (config_' s) - 1 \<le> int (forced_nodes forced_split_json)"
  then show "\<exists>tree s'. Train env s g h c forced_split_json = Inr (tree, s')
           \<and> tree_num_leaves tree = 1 + int (forced_nodes forced_split_json)"
    using Train_with_template by blast
qed

text \<open>
  The theorem at \<open>num_leaves = 2\<close>. Without a template and with a gated root the loop
  stops at once with the root-only tree. With the template \<open>ex_template\<close>, a forced root
  split whose left child is forced too, \<^verbatim>\<open>Train\<close> returns a tree of three leaves.
\<close>

lemma ex_gather_never_negative: "gather_never_negative ex_env"
  by (simp add: gather_never_negative_def ex_env_def ex_split_def)

lemma ex_learner_min0_fields:
  "config_' ex_learner_min0 = ex_config\<lparr>min_data_in_leaf := 0\<rparr>"
  "num_data_' ex_learner_min0 = 2" "num_features_' ex_learner_min0 = 1"
  "is_feature_used_' ex_learner_min0 = [True]"
  "histogram_pool_' ex_learner_min0 = ex_pool"
  "best_split_per_leaf_' ex_learner_min0 = [ex_split 1, SplitInfo_new]"
  "data_partition_' ex_learner_min0 = ex_partition2"
  "smaller_leaf_splits_' ex_learner_min0 = ex_leaf_splits"
  "larger_leaf_splits_' ex_learner_min0 = ex_leaf_splits"
  "gradients_' ex_learner_min0 = ex_ones" "hessians_' ex_learner_min0 = ex_ones"
  by (simp_all add: ex_learner_min0_def ex_learner2_def ex_learner_def)

lemma ex_BeforeTrain_min0:
  "BeforeTrain ex_env
     (ex_learner_min0\<lparr>gradients_' := ex_ones, hessians_' := ex_ones, is_constant_hessian_' := True\<rparr>)
   = Inr ex_prepared_min0"
proof -
  have same: "ex_learner_min0\<lparr>gradients_' := ex_ones, hessians_' := ex_ones, is_constant_hessian_' := True\<rparr>
      = ex_learner_min0"
    by (simp add: ex_learner_min0_def ex_learner2_def ex_learner_def)
  have cnt: "leaf_count (DataPartition_Init ex_partition2) 0 = 2"
    by (simp add: leaf_count_def DataPartition_Init_def ex_partition2_def)
  show ?thesis
    unfolding same BeforeTrain_def
    by (simp add: ex_learner_min0_fields ex_config_def Let_def cnt ex_prepared_min0_def upt_rec)
qed

lemma ex_train_without_template:
  "Train ex_env_neg ex_learner_min5p ex_ones ex_ones True JNull
     = Inr (Tree_new 2, pin_leaves 0 (- 1) ex_prepared)"
proof -
  have "train_loop ex_env_neg (Suc 0) False (Tree_new 2) 0 (- 1) 1 ex_prepared
     = Inr (Tree_new 2, 1, pin_leaves 0 (- 1) ex_prepared)"
    unfolding train_loop_after_pin [OF ex_prepared_gated] by (rule ex_resume)
  then show ?thesis
    by (simp add: Train_def ex_BeforeTrain Let_def ex_prepared_fields ex_config_def)
qed

lemma ex_pinned_gain:
  "gain (best_split_per_leaf_' (pin_leaves 0 (- 1) ex_prepared)
      ! ArgMax (best_split_per_leaf_' (pin_leaves 0 (- 1) ex_prepared))) \<le> Some 0"
  by (simp add: pin_leaves_def set_gain_kMinScore_def ex_prepared_fields
      ArgMax_def SplitInfo_gt_def SplitInfo_Reset_def ex_split_def SplitInfo_new_def)

theorem C3_witness:
  "is_null JNull
   \<and> Train ex_env_neg ex_learner_min5p ex_ones ex_ones True JNull
       = Inr (Tree_new 2, pin_leaves 0 (- 1) ex_prepared)
   \<and> tree_num_leaves (Tree_new 2) = 1
   \<and> prepare_iteration ex_env_neg False ex_prepared (Tree_new 2) 0 (- 1)
       = Inr (pin_leaves 0 (- 1) ex_prepared)
   \<and> train_loop ex_env_neg (Suc 0) False (Tree_new 2) 0 (- 1) 1 ex_prepared
       = Inr (Tree_new 2, 1, pin_leaves 0 (- 1) ex_prepared)
   \<and> gather_never_negative ex_env \<and> never_gated (config_' ex_learner_min0)
   \<and> \<not> is_null ex_template
   \<and> BeforeTrain ex_env
        (ex_learner_min0\<lparr>gradients_' := ex_ones, hessians_' := ex_ones, is_constant_hessian_' := True\<rparr>)
       = Inr ex_prepared_min0
   \<and> num_leaves (config_' ex_learner_min0) = 2 \<and> forced_nodes ex_template = 2
   \<and> (\<exists>tree s'. Train ex_env ex_learner_min0 ex_ones ex_ones True ex_template = Inr (tree, s')
         \<and> tree_num_leaves tree = 3)"
proof -
  note t = C3_forced_splits_exceed_num_leaves [where forced_split_json = JNull and env = ex_env_neg
      and s = ex_learner_min5p and g = ex_ones and h = ex_ones and c = True
      and tree = "Tree_new 2" and s' = "pin_leaves 0 (- 1) ex_prepared"
      and k = 0 and aborted = False and ?tree0.0 = "Tree_new 2" and l = 0 and r = "- 1"
      and d = 1 and ?s0.0 = ex_prepared and ?tree1.0 = "Tree_new 2" and ?d1.0 = 1
      and ?s1.0 = ex_prepared and ?s2.0 = "pin_leaves 0 (- 1) ex_prepared"]
  note u = C3_forced_splits_exceed_num_leaves [where forced_split_json = ex_template and env = ex_env
      and s = ex_learner_min0 and g = ex_ones and h = ex_ones and c = True
      and ?s3.0 = ex_prepared_min0]
  have p: "prepare_iteration ex_env_neg False ex_prepared (Tree_new 2) 0 (- 1)
       = Inr (pin_leaves 0 (- 1) ex_prepared)"
    by (rule prepare_iteration_gated [OF ex_prepared_gated])
  have brk: "train_loop ex_env_neg (Suc 0) False (Tree_new 2) 0 (- 1) 1 ex_prepared
       = Inr (Tree_new 2, 1, pin_leaves 0 (- 1) ex_prepared)"
    using t p ex_pinned_gain by blast
  have ng: "never_gated (config_' ex_learner_min0)"
    by (simp add: never_gated_def ex_learner_min0_fields ex_config_def int32_mul_def)
  have n: "\<not> is_null ex_template" "forced_nodes ex_template = 2"
    "num_leaves (config_' ex_learner_min0) = 2"
    by (simp_all add: ex_template_def ex_learner_min0_fields ex_config_def)
  have run: "\<exists>tree s'. Train ex_env ex_learner_min0 ex_ones ex_ones True ex_template = Inr (tree, s')
         \<and> tree_num_leaves tree = 3"
    using u ex_gather_never_negative ng n ex_BeforeTrain_min0 by simp
  show ?thesis
    using ex_train_without_template p brk ex_gather_never_negative ng n ex_BeforeTrain_min0 run
    by (simp add: Tree_new_def)
qed

subsection \<open>The search loop, feature by feature\<close>

lemma get_hist_set_hist:
  "get_hist (set_hist k f fh s) k' f' =
     (if k' = k \<and> f' = f \<and> hist_in_range s k f then fh else get_hist s k' f')"
proof -
  let ?xs = "slots (histogram_pool_' s)"
  have inner: "(?xs ! k)[f := fh] ! f' = (if f' = f \<and> f < length (?xs ! k) then fh else ?xs ! k ! f')"
    by (cases "f < length (?xs ! k)") (auto simp: nth_list_update list_update_beyond)
  have "?xs[k := (?xs ! k)[f := fh]] ! k' ! f'
      = (if k' = k \<and> f' = f \<and> k < length ?xs \<and> f < length (?xs ! k) then fh else ?xs ! k' ! f')"
    by (cases "k < length ?xs") (auto simp: nth_list_update list_update_beyond inner)
  then show ?thesis
    by (simp add: get_hist_def set_hist_def hist_in_range_def)
qed

lemma hist_shape_set_hist [simp]: "hist_shape (set_hist k f fh s) = hist_shape s"
proof -
  let ?xs = "slots (histogram_pool_' s)"
  have "(map length ?xs)[k := length (?xs ! k)] = map length ?xs"
    by (cases "k < length ?xs") (simp_all add: list_update_same_conv list_update_beyond)
  then show ?thesis
    by (simp add: hist_shape_def set_hist_def map_update)
qed

lemma hist_in_range_shape:
  "hist_shape s' = hist_shape s \<Longrightarrow> hist_in_range s' k f = hist_in_range s k f"
  unfolding hist_shape_def hist_in_range_def
  by (metis length_map nth_map)

lemma candidate_split_of:
  "candidate_split env s arr f r n ls = candidate_of env s (get_hist s arr f) f r n ls"
  by (simp add: candidate_split_def candidate_of_def)

lemma candidate_of_cong:
  "control_frame s s' \<Longrightarrow> candidate_of env s' fh f r n ls = candidate_of env s fh f r n ls"
  by (simp add: candidate_of_def control_frame_def)

lemma ComputeBestSplitForFeature_result:
  "snd (ComputeBestSplitForFeature env s arr f r u n ls b)
     = keep_best u (candidate_of env s (get_hist s arr f) f r n ls) b"
  "hist_in_range s arr f \<Longrightarrow>
   hist_data (get_hist (fst (ComputeBestSplitForFeature env s arr f r u n ls b)) arr f)
     = hist_data (get_hist s arr f)"
  "k \<noteq> arr \<or> f' \<noteq> f \<Longrightarrow>
   get_hist (fst (ComputeBestSplitForFeature env s arr f r u n ls b)) k f' = get_hist s k f'"
  "hist_shape (fst (ComputeBestSplitForFeature env s arr f r u n ls b)) = hist_shape s"
  by (auto simp: ComputeBestSplitForFeature_def Let_def keep_best_def candidate_split_of
      get_hist_set_hist)

lemma Subtract_cong: "hist_data b = hist_data b' \<Longrightarrow> Subtract a b = Subtract a b'"
  by (simp add: Subtract_def)

lemma ComputeBestSplitForFeature_fields:
  "smaller_leaf_splits_' (fst (ComputeBestSplitForFeature env s arr f r u n ls b)) = smaller_leaf_splits_' s"
  "larger_leaf_splits_' (fst (ComputeBestSplitForFeature env s arr f r u n ls b)) = larger_leaf_splits_' s"
  "larger_leaf_histogram_array_' (fst (ComputeBestSplitForFeature env s arr f r u n ls b))
     = larger_leaf_histogram_array_' s"
  using ComputeBestSplitForFeature_frame [of s env arr f r u n ls b]
  by (simp_all add: control_frame_def)

lemma set_hist_fields:
  "smaller_leaf_splits_' (set_hist k f fh s) = smaller_leaf_splits_' s"
  "larger_leaf_splits_' (set_hist k f fh s) = larger_leaf_splits_' s"
  "larger_leaf_histogram_array_' (set_hist k f fh s) = larger_leaf_histogram_array_' s"
  "smaller_leaf_histogram_array_' (set_hist k f fh s) = smaller_leaf_histogram_array_' s"
  by (simp_all add: set_hist_def)

lemma find_splits_iteration_effect:
  assumes sm: "smaller_leaf_histogram_array_' s = Some sm"
    and lg: "0 \<le> leaf_index (larger_leaf_splits_' s) \<longrightarrow>
               larger_leaf_histogram_array_' s = Some lg \<and> lg \<noteq> sm \<and> hist_in_range s lg f"
    and used: "used ! f"
    and rs: "hist_in_range s sm f"
  shows "\<exists>s'. find_splits_iteration env sub used snu lnu f (s, sb, lb)
       = Inr (s', sb[omp_get_thread_num env f :=
                      keep_best (snu ! f) (smaller_candidate env s sm f) (sb ! omp_get_thread_num env f)],
              if 0 \<le> leaf_index (larger_leaf_splits_' s)
              then lb[omp_get_thread_num env f :=
                      keep_best (lnu ! f) (larger_candidate env sub s sm lg f) (lb ! omp_get_thread_num env f)]
              else lb)
       \<and> control_frame s s' \<and> hist_shape s' = hist_shape s
       \<and> hist_data (get_hist s' sm f) = hist_data (fixed_smaller env s sm f)
       \<and> (0 \<le> leaf_index (larger_leaf_splits_' s) \<longrightarrow>
            hist_data (get_hist s' lg f) = hist_data (larger_hist env sub s sm lg f))
       \<and> (\<forall>k f'. f' \<noteq> f \<longrightarrow> get_hist s' k f' = get_hist s k f')"
proof -
  let ?tid = "omp_get_thread_num env f"
  let ?real = "RealFeatureIndex env f"
  define s1 where "s1 = set_hist sm f (fixed_smaller env s sm f) s"
  define cb1 where "cb1 = ComputeBestSplitForFeature env s1 sm f ?real (snu ! f)
      (num_data_in_leaf (smaller_leaf_splits_' s1)) (smaller_leaf_splits_' s1) (sb ! ?tid)"
  define s2 where "s2 = fst cb1"
  have f1: "control_frame s s1" by (simp add: s1_def)
  have h1: "get_hist s1 sm f = fixed_smaller env s sm f"
    using rs by (simp add: s1_def get_hist_set_hist)
  have o1: "get_hist s1 k f' = get_hist s k f'" if "k \<noteq> sm \<or> f' \<noteq> f" for k f'
    using that by (auto simp: s1_def get_hist_set_hist)
  have sh1: "hist_shape s1 = hist_shape s" by (simp add: s1_def)
  have r1: "hist_in_range s1 sm f" using rs hist_in_range_shape [OF sh1] by simp
  have ls1: "smaller_leaf_splits_' s1 = smaller_leaf_splits_' s" by (simp add: s1_def set_hist_fields)
  have best1: "snd cb1 = keep_best (snu ! f) (smaller_candidate env s sm f) (sb ! ?tid)"
    unfolding cb1_def ComputeBestSplitForFeature_result(1) h1 ls1 smaller_candidate_def
    by (simp add: candidate_of_cong [OF f1])
  have f2: "control_frame s1 s2"
    unfolding s2_def cb1_def by (rule ComputeBestSplitForFeature_frame)
  have f02: "control_frame s s2" using f1 f2 by (rule control_frame_trans)
  have h2: "hist_data (get_hist s2 sm f) = hist_data (fixed_smaller env s sm f)"
    unfolding s2_def cb1_def using ComputeBestSplitForFeature_result(2) [OF r1] h1 by simp
  have o2: "get_hist s2 k f' = get_hist s k f'" if "k \<noteq> sm \<or> f' \<noteq> f" for k f'
    unfolding s2_def cb1_def using that by (simp add: ComputeBestSplitForFeature_result(3) o1)
  have sh2: "hist_shape s2 = hist_shape s"
    unfolding s2_def cb1_def by (simp add: ComputeBestSplitForFeature_result(4) sh1)
  have start: "find_splits_iteration env sub used snu lnu f (s, sb, lb) =
      (if leaf_index (larger_leaf_splits_' s2) < 0 then Inr (s2, sb[?tid := snd cb1], lb)
       else (case larger_leaf_histogram_array_' s2 of
               None \<Rightarrow> Inl NullPointer
             | Some larger \<Rightarrow>
                (let s3 = (if sub
                          then set_hist larger f (Subtract (get_hist s2 larger f) (get_hist s2 sm f)) s2
                          else set_hist larger f
                                 ((get_hist s2 larger f)\<lparr>hist_data :=
                                    FixHistogram env f (sum_gradients (larger_leaf_splits_' s2))
                                      (sum_hessians (larger_leaf_splits_' s2))
                                      (hist_data (get_hist s2 larger f))\<rparr>) s2);
                     cb2 = ComputeBestSplitForFeature env s3 larger f ?real (lnu ! f)
                             (num_data_in_leaf (larger_leaf_splits_' s3)) (larger_leaf_splits_' s3)
                             (lb ! ?tid)
                 in Inr (fst cb2, sb[?tid := snd cb1], lb[?tid := snd cb2]))))"
    unfolding find_splits_iteration_def
    using sm used
    by (simp add: Let_def s2_def cb1_def s1_def fixed_smaller_def split_beta split: option.split)
  have ll2: "larger_leaf_splits_' s2 = larger_leaf_splits_' s"
    "larger_leaf_histogram_array_' s2 = larger_leaf_histogram_array_' s"
    using f02 by (simp_all add: control_frame_def)
  show ?thesis
  proof (cases "0 \<le> leaf_index (larger_leaf_splits_' s)")
    case False
    then show ?thesis
      unfolding start using f02 sh2 h2 o2 by (simp add: ll2 best1)
  next
    case True
    with lg have lgp: "larger_leaf_histogram_array_' s = Some lg" and ne: "lg \<noteq> sm"
      and rl: "hist_in_range s lg f"
      by simp_all
    define s3 where "s3 = set_hist lg f (larger_hist env sub s sm lg f) s2"
    define cb2 where "cb2 = ComputeBestSplitForFeature env s3 lg f ?real (lnu ! f)
        (num_data_in_leaf (larger_leaf_splits_' s3)) (larger_leaf_splits_' s3) (lb ! ?tid)"
    have lh: "(if sub
              then set_hist lg f (Subtract (get_hist s2 lg f) (get_hist s2 sm f)) s2
              else set_hist lg f
                     ((get_hist s2 lg f)\<lparr>hist_data :=
                        FixHistogram env f (sum_gradients (larger_leaf_splits_' s2))
                          (sum_hessians (larger_leaf_splits_' s2))
                          (hist_data (get_hist s2 lg f))\<rparr>) s2) = s3"
      unfolding s3_def larger_hist_def
      using ne Subtract_cong [OF h2, of "get_hist s lg f"] by (simp add: o2 ll2)
    have run: "find_splits_iteration env sub used snu lnu f (s, sb, lb)
        = Inr (fst cb2, sb[?tid := snd cb1], lb[?tid := snd cb2])"
      unfolding start using True by (simp add: ll2 lgp lh Let_def cb2_def)
    have f3: "control_frame s s3" unfolding s3_def using f02 by simp
    have sh3: "hist_shape s3 = hist_shape s" by (simp add: s3_def sh2)
    have r3: "hist_in_range s3 lg f" using rl hist_in_range_shape [OF sh3] by simp
    have r2: "hist_in_range s2 lg f" using rl hist_in_range_shape [OF sh2] by simp
    have h3: "get_hist s3 lg f = larger_hist env sub s sm lg f"
      using r2 by (simp add: s3_def get_hist_set_hist)
    have o3: "get_hist s3 k f' = get_hist s2 k f'" if "k \<noteq> lg \<or> f' \<noteq> f" for k f'
      using that by (auto simp: s3_def get_hist_set_hist)
    have ls3: "larger_leaf_splits_' s3 = larger_leaf_splits_' s" by (simp add: s3_def ll2 set_hist_fields)
    have best2: "snd cb2 = keep_best (lnu ! f) (larger_candidate env sub s sm lg f) (lb ! ?tid)"
      unfolding cb2_def ComputeBestSplitForFeature_result(1) h3 ls3 larger_candidate_def
      by (simp add: candidate_of_cong [OF f3])
    have f4: "control_frame s (fst cb2)"
      unfolding cb2_def using f3 ComputeBestSplitForFeature_frame control_frame_trans by blast
    have sh4: "hist_shape (fst cb2) = hist_shape s"
      unfolding cb2_def by (simp add: ComputeBestSplitForFeature_result(4) sh3)
    have h4l: "hist_data (get_hist (fst cb2) lg f) = hist_data (larger_hist env sub s sm lg f)"
      unfolding cb2_def using ComputeBestSplitForFeature_result(2) [OF r3] h3 by simp
    have h4s: "hist_data (get_hist (fst cb2) sm f) = hist_data (fixed_smaller env s sm f)"
      unfolding cb2_def using ne by (simp add: ComputeBestSplitForFeature_result(3) o3 h2)
    have o4: "get_hist (fst cb2) k f' = get_hist s k f'" if "f' \<noteq> f" for k f'
      unfolding cb2_def using that by (simp add: ComputeBestSplitForFeature_result(3) o3 o2)
    show ?thesis
      unfolding run using True f4 sh4 h4l h4s o4 by (simp add: best1 best2)
  qed
qed

lemma SplitInfo_gt_irrefl: "\<not> SplitInfo_gt a a"
  by (simp add: SplitInfo_gt_def)

lemma SplitInfo_gt_asym: "SplitInfo_gt a b \<Longrightarrow> \<not> SplitInfo_gt b a"
  by (auto simp: SplitInfo_gt_def split: if_splits)

lemma SplitInfo_gt_negtrans:
  "\<not> SplitInfo_gt a b \<Longrightarrow> \<not> SplitInfo_gt b c \<Longrightarrow> \<not> SplitInfo_gt a c"
  by (auto simp: SplitInfo_gt_def split: if_splits)

lemma keep_best_dominates:
  "\<not> SplitInfo_gt b (keep_best u c b)"
  "u \<Longrightarrow> \<not> SplitInfo_gt c (keep_best u c b)"
  by (auto simp: keep_best_def SplitInfo_gt_irrefl SplitInfo_gt_asym)

lemma ArgMax_scan_greatest:
  assumes "rest = drop i array" "cur < i" "i \<le> length array"
    and "\<forall>j < i. \<not> SplitInfo_gt (array ! j) (array ! cur)"
  shows "ArgMax_scan array rest i cur < length array
    \<and> (\<forall>j < length array. \<not> SplitInfo_gt (array ! j) (array ! ArgMax_scan array rest i cur))"
  using assms
proof (induction rest arbitrary: i cur)
  case Nil
  then have "i = length array" by simp
  with Nil show ?case by simp
next
  case (Cons x rest)
  from Cons.prems(1) have i: "i < length array"
    by (metis drop_all leI list.discI)
  with Cons.prems(1) have x: "x = array ! i" and r: "rest = drop (Suc i) array"
    by (simp_all add: Cons_nth_drop_Suc [symmetric])
  let ?cur = "if SplitInfo_gt x (array ! cur) then i else cur"
  have "\<forall>j < Suc i. \<not> SplitInfo_gt (array ! j) (array ! ?cur)"
  proof (intro allI impI)
    fix j assume j: "j < Suc i"
    show "\<not> SplitInfo_gt (array ! j) (array ! ?cur)"
    proof (cases "SplitInfo_gt x (array ! cur)")
      case True
      then have "\<not> SplitInfo_gt (array ! cur) (array ! i)"
        using SplitInfo_gt_asym x by blast
      moreover have "j < i \<Longrightarrow> \<not> SplitInfo_gt (array ! j) (array ! cur)"
        using Cons.prems(4) by simp
      ultimately show ?thesis
        using True j SplitInfo_gt_negtrans SplitInfo_gt_irrefl
        by (cases "j = i") (auto simp: less_Suc_eq)
    next
      case False
      then show ?thesis
        using j Cons.prems(4) x by (cases "j = i") (auto simp: less_Suc_eq)
    qed
  qed
  moreover have "?cur < Suc i" using Cons.prems(2) by simp
  moreover have "Suc i \<le> length array" using i by simp
  ultimately show ?case
    using Cons.IH [OF r] by simp
qed

lemma ArgMax_greatest:
  assumes "j < length array"
  shows "ArgMax array < length array" "\<not> SplitInfo_gt (array ! j) (array ! ArgMax array)"
proof -
  from assms obtain x rest where a: "array = x # rest" by (cases array) auto
  have "ArgMax_scan array rest 1 0 < length array
    \<and> (\<forall>j < length array. \<not> SplitInfo_gt (array ! j) (array ! ArgMax_scan array rest 1 0))"
    by (rule ArgMax_scan_greatest) (simp_all add: a SplitInfo_gt_irrefl)
  then show "ArgMax array < length array" "\<not> SplitInfo_gt (array ! j) (array ! ArgMax array)"
    using assms by (simp_all add: ArgMax_def a)
qed

lemma find_splits_iteration_skip:
  "\<not> used ! f \<Longrightarrow> find_splits_iteration env sub used snu lnu f st = Inr st"
  by (simp add: find_splits_iteration_def split_beta)

lemma closed_forms_cong:
  assumes "control_frame s s1" and "\<forall>k. get_hist s1 k g = get_hist s k g"
  shows "fixed_smaller env s1 sm g = fixed_smaller env s sm g"
    "larger_hist env sub s1 sm lg g = larger_hist env sub s sm lg g"
    "smaller_candidate env s1 sm g = smaller_candidate env s sm g"
    "larger_candidate env sub s1 sm lg g = larger_candidate env sub s sm lg g"
proof -
  from assms(1) have ls: "smaller_leaf_splits_' s1 = smaller_leaf_splits_' s"
    "larger_leaf_splits_' s1 = larger_leaf_splits_' s"
    by (simp_all add: control_frame_def)
  show a: "fixed_smaller env s1 sm g = fixed_smaller env s sm g"
    by (simp add: fixed_smaller_def ls assms(2))
  show b: "larger_hist env sub s1 sm lg g = larger_hist env sub s sm lg g"
    by (simp add: larger_hist_def ls assms(2) a)
  show "smaller_candidate env s1 sm g = smaller_candidate env s sm g"
    by (simp add: smaller_candidate_def a ls candidate_of_cong [OF assms(1)])
  show "larger_candidate env sub s1 sm lg g = larger_candidate env sub s sm lg g"
    by (simp add: larger_candidate_def b ls candidate_of_cong [OF assms(1)])
qed

lemma update_dominates:
  "\<not> SplitInfo_gt (xs ! t) (xs[i := keep_best u c (xs ! i)] ! t)"
  by (cases "i < length xs"; cases "t = i")
     (simp_all add: keep_best_dominates SplitInfo_gt_irrefl list_update_beyond)

lemma find_splits_loop_effect:
  assumes "search_ready s sm lg fs" and "distinct fs"
  shows "\<exists>st'. find_splits_loop env sub used snu lnu fs (s, sb, lb) = Inr st'
     \<and> search_result env sub used snu lnu sm lg fs (s, sb, lb) st'"
  using assms
proof (induction fs arbitrary: s sb lb)
  case Nil
  then show ?case by (simp add: search_result_def SplitInfo_gt_irrefl)
next
  case (Cons f fs)
  from Cons.prems have ready: "search_ready s sm lg fs" and d: "distinct fs" and nf: "f \<notin> set fs"
    by (auto simp: search_ready_def)
  show ?case
  proof (cases "used ! f")
    case False
    from Cons.IH [OF ready d, of sb lb] obtain s' sb' lb' where
      l: "find_splits_loop env sub used snu lnu fs (s, sb, lb) = Inr (s', sb', lb')"
      and r: "search_result env sub used snu lnu sm lg fs (s, sb, lb) (s', sb', lb')"
      by (metis prod_cases3)
    have "search_result env sub used snu lnu sm lg (f # fs) (s, sb, lb) (s', sb', lb')"
      using r False by (simp add: search_result_def)
    with l False show ?thesis
      by (simp add: find_splits_iteration_skip)
  next
    case True
    let ?tid = "omp_get_thread_num env f"
    let ?act = "0 \<le> leaf_index (larger_leaf_splits_' s)"
    let ?sb1 = "sb[?tid := keep_best (snu ! f) (smaller_candidate env s sm f) (sb ! ?tid)]"
    let ?lb1 = "if ?act
                then lb[?tid := keep_best (lnu ! f) (larger_candidate env sub s sm lg f) (lb ! ?tid)]
                else lb"
    from Cons.prems(1) have
      sm: "smaller_leaf_histogram_array_' s = Some sm"
      and lg: "?act \<longrightarrow> larger_leaf_histogram_array_' s = Some lg \<and> lg \<noteq> sm \<and> hist_in_range s lg f"
      and rs: "hist_in_range s sm f"
      by (simp_all add: search_ready_def)
    from find_splits_iteration_effect [OF sm lg True rs, of env sub snu lnu sb lb]
    obtain s1 where
      it: "find_splits_iteration env sub used snu lnu f (s, sb, lb) = Inr (s1, ?sb1, ?lb1)"
      and f1: "control_frame s s1" and sh1: "hist_shape s1 = hist_shape s"
      and hs: "hist_data (get_hist s1 sm f) = hist_data (fixed_smaller env s sm f)"
      and hl: "?act \<longrightarrow> hist_data (get_hist s1 lg f) = hist_data (larger_hist env sub s sm lg f)"
      and o1: "\<forall>k f'. f' \<noteq> f \<longrightarrow> get_hist s1 k f' = get_hist s k f'"
      by (elim exE conjE) (rule that)
    note c1 = control_frameD [OF f1]
    have ready1: "search_ready s1 sm lg fs"
      using ready hist_in_range_shape [OF sh1] by (simp add: search_ready_def c1)
    from Cons.IH [OF ready1 d, of ?sb1 ?lb1] obtain s' sb' lb' where
      l: "find_splits_loop env sub used snu lnu fs (s1, ?sb1, ?lb1) = Inr (s', sb', lb')"
      and r: "search_result env sub used snu lnu sm lg fs (s1, ?sb1, ?lb1) (s', sb', lb')"
      by (metis prod_cases3)
    from r have
      r1: "control_frame s1 s'" "hist_shape s' = hist_shape s1"
      and r2: "\<forall>g \<in> set fs. used ! g \<longrightarrow>
              hist_data (get_hist s' sm g) = hist_data (fixed_smaller env s1 sm g)
              \<and> (?act \<longrightarrow> hist_data (get_hist s' lg g) = hist_data (larger_hist env sub s1 sm lg g))"
      and r3: "\<forall>k g. g \<notin> set fs \<longrightarrow> get_hist s' k g = get_hist s1 k g"
      and r4: "\<forall>t. \<not> SplitInfo_gt (?sb1 ! t) (sb' ! t)" "\<forall>t. \<not> SplitInfo_gt (?lb1 ! t) (lb' ! t)"
      and r5: "length sb' = length sb" "length lb' = length lb"
      and r6: "\<forall>g \<in> set fs. used ! g \<and> snu ! g \<and> omp_get_thread_num env g < length sb \<longrightarrow>
              \<not> SplitInfo_gt (smaller_candidate env s1 sm g) (sb' ! omp_get_thread_num env g)"
      and r7: "?act \<longrightarrow>
             (\<forall>g \<in> set fs. used ! g \<and> lnu ! g \<and> omp_get_thread_num env g < length lb \<longrightarrow>
                \<not> SplitInfo_gt (larger_candidate env sub s1 sm lg g) (lb' ! omp_get_thread_num env g))"
      by (simp_all add: search_result_def c1 split: if_splits)
    have cong: "fixed_smaller env s1 sm g = fixed_smaller env s sm g"
      "larger_hist env sub s1 sm lg g = larger_hist env sub s sm lg g"
      "smaller_candidate env s1 sm g = smaller_candidate env s sm g"
      "larger_candidate env sub s1 sm lg g = larger_candidate env sub s sm lg g"
      if "g \<in> set fs" for g
    proof -
      from that nf have "g \<noteq> f" by auto
      with o1 have "\<forall>k. get_hist s1 k g = get_hist s k g" by simp
      from closed_forms_cong [OF f1 this] show
        "fixed_smaller env s1 sm g = fixed_smaller env s sm g"
        "larger_hist env sub s1 sm lg g = larger_hist env sub s sm lg g"
        "smaller_candidate env s1 sm g = smaller_candidate env s sm g"
        "larger_candidate env sub s1 sm lg g = larger_candidate env sub s sm lg g"
        by simp_all
    qed
    have a: "control_frame s s'" "hist_shape s' = hist_shape s"
      using f1 r1 sh1 control_frame_trans by auto
    have b: "\<forall>g \<in> set (f # fs). used ! g \<longrightarrow>
              hist_data (get_hist s' sm g) = hist_data (fixed_smaller env s sm g)
              \<and> (?act \<longrightarrow> hist_data (get_hist s' lg g) = hist_data (larger_hist env sub s sm lg g))"
      using r2 r3 nf hs hl by (auto simp: cong)
    have c: "\<forall>k g. g \<notin> set (f # fs) \<longrightarrow> get_hist s' k g = get_hist s k g"
      using r3 o1 by simp
    have m1: "\<not> SplitInfo_gt (sb ! t) (sb' ! t)" for t
      using update_dominates [of sb t ?tid] r4(1) SplitInfo_gt_negtrans by blast
    have m2: "\<not> SplitInfo_gt (lb ! t) (lb' ! t)" for t
    proof (cases ?act)
      case True
      then show ?thesis
        using update_dominates [of lb t ?tid] r4(2) SplitInfo_gt_negtrans by (simp, blast)
    next
      case False
      then show ?thesis using r4(2) by simp
    qed
    have e1: "\<not> SplitInfo_gt (smaller_candidate env s sm f) (sb' ! ?tid)"
      if "snu ! f" "?tid < length sb"
    proof -
      have "\<not> SplitInfo_gt (smaller_candidate env s sm f) (?sb1 ! ?tid)"
        using that by (simp add: keep_best_dominates)
      with r4(1) show ?thesis using SplitInfo_gt_negtrans by blast
    qed
    have e2: "\<not> SplitInfo_gt (larger_candidate env sub s sm lg f) (lb' ! ?tid)"
      if "?act" "lnu ! f" "?tid < length lb"
    proof -
      have "\<not> SplitInfo_gt (larger_candidate env sub s sm lg f) (?lb1 ! ?tid)"
        using that by (simp add: keep_best_dominates)
      with r4(2) show ?thesis using SplitInfo_gt_negtrans by blast
    qed
    have g1: "\<forall>g \<in> set (f # fs). used ! g \<and> snu ! g \<and> omp_get_thread_num env g < length sb \<longrightarrow>
              \<not> SplitInfo_gt (smaller_candidate env s sm g) (sb' ! omp_get_thread_num env g)"
      using r6 e1 by (auto simp: cong)
    have g2: "?act \<longrightarrow>
             (\<forall>g \<in> set (f # fs). used ! g \<and> lnu ! g \<and> omp_get_thread_num env g < length lb \<longrightarrow>
                \<not> SplitInfo_gt (larger_candidate env sub s sm lg g) (lb' ! omp_get_thread_num env g))"
      using r7 e2 by (auto simp: cong)
    have "search_result env sub used snu lnu sm lg (f # fs) (s, sb, lb) (s', sb', lb')"
      unfolding search_result_def using a b c m1 m2 r5 g1 g2 by simp
    with it l show ?thesis by simp
  qed
qed

subsection \<open>The best split of a leaf\<close>

lemma GetUsedFeatures_pool:
  "GetUsedFeatures env s lvl = Inr (ret, s') \<Longrightarrow> histogram_pool_' s' = histogram_pool_' s"
  by (auto simp: GetUsedFeatures_def Let_def split: if_splits sum.splits prod.splits)

lemma node_used_features_pool:
  "node_used_features env s = Inr (snu, lnu, s') \<Longrightarrow> histogram_pool_' s' = histogram_pool_' s"
  by (auto simp: node_used_features_def split: if_splits sum.splits dest!: GetUsedFeatures_pool)

lemma store_best_hist [simp]:
  "get_hist (store_best ls best s) k f = get_hist s k f"
  "larger_leaf_splits_' (store_best ls best s) = larger_leaf_splits_' s"
  by (simp_all add: store_best_def get_hist_def)

lemma SplitInfo_gt_iff:
  "SplitInfo_gt a b \<longleftrightarrow>
     gain a > gain b
     \<or> (gain a = gain b \<and> (feature a < feature b
          \<or> (feature a = feature b \<and> threshold a > threshold b)))"
  by (auto simp: SplitInfo_gt_def)

lemma feature_candidate_of [simp]: "feature (candidate_of env s fh f r n ls) = r"
  by (simp add: candidate_of_def Let_def split: option.splits)

lemma FindBestSplitsFromHistograms_effect:
  assumes ready: "search_ready s sm lg [0 ..< nat (num_features_' s)]"
    and tids: "\<forall>f. omp_get_thread_num env f < omp_num_threads env"
    and run: "FindBestSplitsFromHistograms env s used sub = Inr s'"
    and sleaf: "nat (leaf_index (smaller_leaf_splits_' s)) < length (best_split_per_leaf_' s)"
    and lleaf: "0 \<le> leaf_index (larger_leaf_splits_' s) \<longrightarrow>
                  nat (leaf_index (larger_leaf_splits_' s)) \<noteq> nat (leaf_index (smaller_leaf_splits_' s))
                  \<and> nat (leaf_index (larger_leaf_splits_' s)) < length (best_split_per_leaf_' s)"
  shows "\<exists>snu lnu s1. node_used_features env s = Inr (snu, lnu, s1)
    \<and> (\<forall>f < nat (num_features_' s). used ! f \<longrightarrow>
          hist_data (get_hist s' sm f) = hist_data (fixed_smaller env s sm f)
          \<and> (snu ! f \<longrightarrow>
                \<not> SplitInfo_gt (smaller_candidate env s sm f)
                     (best_split_per_leaf_' s' ! nat (leaf_index (smaller_leaf_splits_' s)))))
    \<and> (0 \<le> leaf_index (larger_leaf_splits_' s) \<longrightarrow>
         (\<forall>f < nat (num_features_' s). used ! f \<longrightarrow>
            hist_data (get_hist s' lg f) = hist_data (larger_hist env sub s sm lg f)
            \<and> (lnu ! f \<longrightarrow>
                  \<not> SplitInfo_gt (larger_candidate env sub s sm lg f)
                       (best_split_per_leaf_' s' ! nat (leaf_index (larger_leaf_splits_' s))))))"
proof -
  let ?n = "omp_num_threads env"
  let ?new = "replicate ?n SplitInfo_new"
  let ?act = "0 \<le> leaf_index (larger_leaf_splits_' s)"
  from run obtain snu lnu s1 where n: "node_used_features env s = Inr (snu, lnu, s1)"
    by (auto simp: FindBestSplitsFromHistograms_def Let_def split: sum.splits)
  note c1 = control_frameD [OF node_used_features_frame [OF n]]
  note p1 = node_used_features_pool [OF n]
  have gh: "get_hist s1 k f = get_hist s k f" for k f by (simp add: get_hist_def p1)
  have ready1: "search_ready s1 sm lg [0 ..< nat (num_features_' s1)]"
    using ready by (simp add: search_ready_def c1 hist_in_range_def p1)
  from find_splits_loop_effect [OF ready1, of env sub used snu lnu ?new ?new]
  obtain s2 sb lb where
    l: "find_splits_loop env sub used snu lnu [0 ..< nat (num_features_' s1)] (s1, ?new, ?new)
          = Inr (s2, sb, lb)"
    and r: "search_result env sub used snu lnu sm lg [0 ..< nat (num_features_' s1)]
              (s1, ?new, ?new) (s2, sb, lb)"
    by (metis distinct_upt prod_cases3)
  have cf: "fixed_smaller env s1 sm g = fixed_smaller env s sm g"
    "larger_hist env sub s1 sm lg g = larger_hist env sub s sm lg g"
    "smaller_candidate env s1 sm g = smaller_candidate env s sm g"
    "larger_candidate env sub s1 sm lg g = larger_candidate env sub s sm lg g" for g
    using closed_forms_cong [OF node_used_features_frame [OF n], where g = g] gh
    by simp_all
  from r have c2: "control_frame s1 s2"
    and hs: "\<forall>f < nat (num_features_' s). used ! f \<longrightarrow>
              hist_data (get_hist s2 sm f) = hist_data (fixed_smaller env s sm f)
              \<and> (?act \<longrightarrow> hist_data (get_hist s2 lg f) = hist_data (larger_hist env sub s sm lg f))"
    and len: "length sb = ?n" "length lb = ?n"
    and ds: "\<forall>f < nat (num_features_' s). used ! f \<and> snu ! f \<longrightarrow>
              \<not> SplitInfo_gt (smaller_candidate env s sm f) (sb ! omp_get_thread_num env f)"
    and dl: "?act \<longrightarrow> (\<forall>f < nat (num_features_' s). used ! f \<and> lnu ! f \<longrightarrow>
              \<not> SplitInfo_gt (larger_candidate env sub s sm lg f) (lb ! omp_get_thread_num env f))"
    using tids by (simp_all add: search_result_def c1 cf gh)
  note c2d = control_frameD [OF c2]
  let ?s3 = "store_best (smaller_leaf_splits_' s2) sb s2"
  have s': "s' = (if ?act then store_best (larger_leaf_splits_' s2) lb ?s3 else ?s3)"
    using run l
    by (auto simp: FindBestSplitsFromHistograms_def Let_def n c2d c1 split: if_splits)
  have bs: "best_split_per_leaf_' s' ! nat (leaf_index (smaller_leaf_splits_' s)) = sb ! ArgMax sb"
    using sleaf lleaf by (simp add: s' store_best_def c2d c1)
  have bl: "?act \<Longrightarrow>
      best_split_per_leaf_' s' ! nat (leaf_index (larger_leaf_splits_' s)) = lb ! ArgMax lb"
    using lleaf by (simp add: s' store_best_def c2d c1)
  have gs: "get_hist s' k f = get_hist s2 k f" for k f
    by (simp add: s')
  have ms: "\<not> SplitInfo_gt (sb ! omp_get_thread_num env f) (sb ! ArgMax sb)" for f
    using ArgMax_greatest(2) [of "omp_get_thread_num env f" sb] tids len by simp
  have ml: "\<not> SplitInfo_gt (lb ! omp_get_thread_num env f) (lb ! ArgMax lb)" for f
    using ArgMax_greatest(2) [of "omp_get_thread_num env f" lb] tids len by simp
  have A: "\<forall>f < nat (num_features_' s). used ! f \<longrightarrow>
          hist_data (get_hist s' sm f) = hist_data (fixed_smaller env s sm f)
          \<and> (snu ! f \<longrightarrow>
                \<not> SplitInfo_gt (smaller_candidate env s sm f)
                     (best_split_per_leaf_' s' ! nat (leaf_index (smaller_leaf_splits_' s))))"
    unfolding bs gs using hs ds ms SplitInfo_gt_negtrans by blast
  have B: "?act \<longrightarrow>
         (\<forall>f < nat (num_features_' s). used ! f \<longrightarrow>
            hist_data (get_hist s' lg f) = hist_data (larger_hist env sub s sm lg f)
            \<and> (lnu ! f \<longrightarrow>
                  \<not> SplitInfo_gt (larger_candidate env sub s sm lg f)
                       (best_split_per_leaf_' s' ! nat (leaf_index (larger_leaf_splits_' s)))))"
  proof
    assume act: ?act
    show "\<forall>f < nat (num_features_' s). used ! f \<longrightarrow>
            hist_data (get_hist s' lg f) = hist_data (larger_hist env sub s sm lg f)
            \<and> (lnu ! f \<longrightarrow>
                  \<not> SplitInfo_gt (larger_candidate env sub s sm lg f)
                       (best_split_per_leaf_' s' ! nat (leaf_index (larger_leaf_splits_' s))))"
      unfolding bl [OF act] gs using hs dl act ml SplitInfo_gt_negtrans by blast
  qed
  from n A B show ?thesis by blast
qed

text \<open>
  Two features whose inner order is the reverse of their real order, both with a
  candidate of gain 1: the search visits inner feature 0 first and then replaces its
  candidate by that of inner feature 1, whose real index is smaller.
\<close>

lemma ex_two_fields:
  "config_' ex_learner_two = ex_config" "num_features_' ex_learner_two = 2"
  "smaller_leaf_histogram_array_' ex_learner_two = Some 0"
  "larger_leaf_histogram_array_' ex_learner_two = None"
  "leaf_index (smaller_leaf_splits_' ex_learner_two) = 0"
  "leaf_index (larger_leaf_splits_' ex_learner_two) = - 1"
  "best_split_per_leaf_' ex_learner_two = [SplitInfo_new, SplitInfo_new]"
  "cegb_' ex_learner_two = None"
  "slots (histogram_pool_' ex_learner_two) = [[ex_histogram, ex_histogram], [ex_histogram, ex_histogram]]"
  by (simp_all add: ex_learner_two_def ex_learner_def ex_leaf_splits_def ex_pool_two_def)

lemma ex_swap_simps:
  "RealFeatureIndex ex_env_swap 0 = 1" "RealFeatureIndex ex_env_swap (Suc 0) = 0"
  "omp_get_thread_num ex_env_swap f = 0" "omp_num_threads ex_env_swap = Suc 0"
  "FindBestThreshold ex_env_swap f fh sg sh n c = (ex_split 1, True)"
  by (simp_all add: ex_env_swap_def ex_env_def)

lemma ex_two_candidate:
  "cegb_' s = None \<Longrightarrow>
   candidate_of ex_env_swap s fh f r n ls = (ex_split 1)\<lparr>feature := r\<rparr>"
  by (simp add: candidate_of_def ex_swap_simps)

lemma ex_two_ready: "search_ready ex_learner_two 0 lg [0 ..< nat (num_features_' ex_learner_two)]"
  by (auto simp: search_ready_def ex_two_fields hist_in_range_def less_Suc_eq numeral_2_eq_2)

lemma ex_two_search:
  "\<exists>s'. FindBestSplitsFromHistograms ex_env_swap ex_learner_two [True, True] False = Inr s'
     \<and> best_split_per_leaf_' s' = [(ex_split 1)\<lparr>feature := 0\<rparr>, SplitInfo_new]"
proof -
  let ?new = "[SplitInfo_new]"
  let ?c0 = "(ex_split 1)\<lparr>feature := 1\<rparr>"
  let ?c1 = "(ex_split 1)\<lparr>feature := 0\<rparr>"
  have n: "node_used_features ex_env_swap ex_learner_two = Inr ([True, True], [True, True], ex_learner_two)"
    by (simp add: node_used_features_def ex_two_fields ex_config_def numeral_2_eq_2)
  have up: "[0 ..< nat (num_features_' ex_learner_two)] = [0, Suc 0]"
    by (simp add: ex_two_fields numeral_2_eq_2 upt_rec)
  have r0: "hist_in_range ex_learner_two 0 0" "hist_in_range ex_learner_two 0 (Suc 0)"
    by (simp_all add: hist_in_range_def ex_two_fields)
  have k0: "keep_best True ?c0 SplitInfo_new = ?c0"
    by (simp add: keep_best_def SplitInfo_gt_def ex_split_def SplitInfo_new_def)
  have k1: "keep_best True ?c1 ?c0 = ?c1"
    by (simp add: keep_best_def SplitInfo_gt_def ex_split_def SplitInfo_new_def)
  from find_splits_iteration_effect [where s = ex_learner_two and sm = 0 and f = 0
      and used = "[True, True]" and env = ex_env_swap and sub = False and snu = "[True, True]"
      and lnu = "[True, True]" and sb = ?new and lb = ?new and lg = 0]
  obtain s1 where
    i0: "find_splits_iteration ex_env_swap False [True, True] [True, True] [True, True] 0
           (ex_learner_two, ?new, ?new) = Inr (s1, [?c0], ?new)"
    and f1: "control_frame ex_learner_two s1" and sh1: "hist_shape s1 = hist_shape ex_learner_two"
    by (auto simp: ex_two_fields r0 ex_swap_simps smaller_candidate_def ex_two_candidate k0)
  note c1 = control_frameD [OF f1]
  have r1: "hist_in_range s1 0 (Suc 0)"
    using hist_in_range_shape [OF sh1] r0 by simp
  have cg: "cegb_' s1 = None" using c1 by (simp add: ex_two_fields)
  from find_splits_iteration_effect [where s = s1 and sm = 0 and f = "Suc 0"
      and used = "[True, True]" and env = ex_env_swap and sub = False and snu = "[True, True]"
      and lnu = "[True, True]" and sb = "[?c0]" and lb = ?new and lg = 0]
  obtain s2 where
    i1: "find_splits_iteration ex_env_swap False [True, True] [True, True] [True, True] (Suc 0)
           (s1, [?c0], ?new) = Inr (s2, [?c1], ?new)"
    and f2: "control_frame s1 s2"
    by (auto simp: c1 ex_two_fields r1 ex_swap_simps smaller_candidate_def ex_two_candidate cg k1)
  note c2 = control_frameD [OF f2]
  have l: "find_splits_loop ex_env_swap False [True, True] [True, True] [True, True]
      [0 ..< 2] (ex_learner_two, ?new, ?new) = Inr (s2, [?c1], ?new)"
    using up by (simp add: i0 i1 ex_two_fields)
  show ?thesis
    unfolding FindBestSplitsFromHistograms_def
    by (simp add: n l ex_swap_simps Let_def store_best_def c2 c1 ex_two_fields ArgMax_def)
qed

lemma not_gt_consequences:
  assumes "\<not> SplitInfo_gt c b"
  shows "gain c \<le> gain b" "gain c = gain b \<Longrightarrow> feature b \<le> feature c"
  using assms by (auto simp: SplitInfo_gt_iff)

lemma feature_candidates [simp]:
  "feature (smaller_candidate env s sm f) = RealFeatureIndex env f"
  "feature (larger_candidate env sub s sm lg f) = RealFeatureIndex env f"
  by (simp_all add: smaller_candidate_def larger_candidate_def)

text \<open>
  Claim C1. \<^verbatim>\<open>ComputeBestSplitForFeature\<close> leaves the caller's best split alone when the
  feature is not used at the node; otherwise its candidate, the result of the threshold
  search with the real feature index in \<^verbatim>\<open>feature\<close> and the gain less the cost adjustment,
  replaces the best split exactly when it is strictly greater in the order of \<^verbatim>\<open>SplitInfo\<close>,
  the lexicographic order on the gain, the feature with the smaller one greater, and the
  threshold. After \<^verbatim>\<open>FindBestSplitsFromHistograms\<close>, the leaves having buffers of their own
  and the thread numbers being below the number of threads, no candidate evaluated for
  the smaller leaf is strictly greater than the best split stored for that leaf: its gain
  is not greater, and when the gains are equal the stored split has the smaller or the
  same \<^emph>\<open>real\<close> feature index; likewise for the larger leaf.
\<close>

theorem C1_best_split_order:
  "snd (ComputeBestSplitForFeature env s0 arr f0 real_fidx is_used n ls best_split)
     = (if is_used \<and> SplitInfo_gt (candidate_split env s0 arr f0 real_fidx n ls) best_split
        then candidate_split env s0 arr f0 real_fidx n ls else best_split)
   \<and> feature (candidate_split env s0 arr f0 real_fidx n ls) = real_fidx
   \<and> (SplitInfo_gt a b \<longleftrightarrow>
         gain a > gain b
         \<or> (gain a = gain b \<and> (feature a < feature b
              \<or> (feature a = feature b \<and> threshold a > threshold b))))
   \<and> (search_ready s sm lg [0 ..< nat (num_features_' s)]
        \<and> (\<forall>f. omp_get_thread_num env f < omp_num_threads env)
        \<and> FindBestSplitsFromHistograms env s used sub = Inr s'
        \<and> nat (leaf_index (smaller_leaf_splits_' s)) < length (best_split_per_leaf_' s)
        \<and> (0 \<le> leaf_index (larger_leaf_splits_' s) \<longrightarrow>
              nat (leaf_index (larger_leaf_splits_' s)) \<noteq> nat (leaf_index (smaller_leaf_splits_' s))
              \<and> nat (leaf_index (larger_leaf_splits_' s)) < length (best_split_per_leaf_' s))
        \<longrightarrow>
        (\<exists>snu lnu s1. node_used_features env s = Inr (snu, lnu, s1)
          \<and> (\<forall>f < nat (num_features_' s). used ! f \<and> snu ! f \<longrightarrow>
               \<not> SplitInfo_gt (smaller_candidate env s sm f)
                    (best_split_per_leaf_' s' ! nat (leaf_index (smaller_leaf_splits_' s)))
               \<and> gain (smaller_candidate env s sm f)
                   \<le> gain (best_split_per_leaf_' s' ! nat (leaf_index (smaller_leaf_splits_' s)))
               \<and> (gain (smaller_candidate env s sm f)
                    = gain (best_split_per_leaf_' s' ! nat (leaf_index (smaller_leaf_splits_' s)))
                   \<longrightarrow> feature (best_split_per_leaf_' s' ! nat (leaf_index (smaller_leaf_splits_' s)))
                         \<le> RealFeatureIndex env f))
          \<and> (0 \<le> leaf_index (larger_leaf_splits_' s) \<longrightarrow>
               (\<forall>f < nat (num_features_' s). used ! f \<and> lnu ! f \<longrightarrow>
                  \<not> SplitInfo_gt (larger_candidate env sub s sm lg f)
                       (best_split_per_leaf_' s' ! nat (leaf_index (larger_leaf_splits_' s)))
                  \<and> gain (larger_candidate env sub s sm lg f)
                      \<le> gain (best_split_per_leaf_' s' ! nat (leaf_index (larger_leaf_splits_' s)))
                  \<and> (gain (larger_candidate env sub s sm lg f)
                       = gain (best_split_per_leaf_' s' ! nat (leaf_index (larger_leaf_splits_' s)))
                      \<longrightarrow> feature (best_split_per_leaf_' s' ! nat (leaf_index (larger_leaf_splits_' s)))
                            \<le> RealFeatureIndex env f)))))"
proof (intro conjI impI)
  show "snd (ComputeBestSplitForFeature env s0 arr f0 real_fidx is_used n ls best_split)
     = (if is_used \<and> SplitInfo_gt (candidate_split env s0 arr f0 real_fidx n ls) best_split
        then candidate_split env s0 arr f0 real_fidx n ls else best_split)"
    by (simp add: ComputeBestSplitForFeature_result(1) keep_best_def candidate_split_of)
next
  show "feature (candidate_split env s0 arr f0 real_fidx n ls) = real_fidx"
    by (simp add: candidate_split_of)
next
  show "SplitInfo_gt a b \<longleftrightarrow>
         gain a > gain b
         \<or> (gain a = gain b \<and> (feature a < feature b
              \<or> (feature a = feature b \<and> threshold a > threshold b)))"
    by (rule SplitInfo_gt_iff)
next
  assume h: "search_ready s sm lg [0 ..< nat (num_features_' s)]
        \<and> (\<forall>f. omp_get_thread_num env f < omp_num_threads env)
        \<and> FindBestSplitsFromHistograms env s used sub = Inr s'
        \<and> nat (leaf_index (smaller_leaf_splits_' s)) < length (best_split_per_leaf_' s)
        \<and> (0 \<le> leaf_index (larger_leaf_splits_' s) \<longrightarrow>
              nat (leaf_index (larger_leaf_splits_' s)) \<noteq> nat (leaf_index (smaller_leaf_splits_' s))
              \<and> nat (leaf_index (larger_leaf_splits_' s)) < length (best_split_per_leaf_' s))"
  let ?ks = "best_split_per_leaf_' s' ! nat (leaf_index (smaller_leaf_splits_' s))"
  let ?kl = "best_split_per_leaf_' s' ! nat (leaf_index (larger_leaf_splits_' s))"
  from h FindBestSplitsFromHistograms_effect [of s sm lg env used sub s']
  obtain snu lnu s1 where n: "node_used_features env s = Inr (snu, lnu, s1)"
    and ds: "\<forall>f < nat (num_features_' s). used ! f \<and> snu ! f \<longrightarrow>
               \<not> SplitInfo_gt (smaller_candidate env s sm f) ?ks"
    and dl: "0 \<le> leaf_index (larger_leaf_splits_' s) \<longrightarrow>
               (\<forall>f < nat (num_features_' s). used ! f \<and> lnu ! f \<longrightarrow>
                  \<not> SplitInfo_gt (larger_candidate env sub s sm lg f) ?kl)"
    by blast
  have A: "\<forall>f < nat (num_features_' s). used ! f \<and> snu ! f \<longrightarrow>
               \<not> SplitInfo_gt (smaller_candidate env s sm f) ?ks
               \<and> gain (smaller_candidate env s sm f) \<le> gain ?ks
               \<and> (gain (smaller_candidate env s sm f) = gain ?ks
                   \<longrightarrow> feature ?ks \<le> RealFeatureIndex env f)"
    using ds not_gt_consequences [of "smaller_candidate env s sm _" ?ks] by auto
  have B: "0 \<le> leaf_index (larger_leaf_splits_' s) \<longrightarrow>
               (\<forall>f < nat (num_features_' s). used ! f \<and> lnu ! f \<longrightarrow>
                  \<not> SplitInfo_gt (larger_candidate env sub s sm lg f) ?kl
                  \<and> gain (larger_candidate env sub s sm lg f) \<le> gain ?kl
                  \<and> (gain (larger_candidate env sub s sm lg f) = gain ?kl
                      \<longrightarrow> feature ?kl \<le> RealFeatureIndex env f))"
    using dl not_gt_consequences [of "larger_candidate env sub s sm lg _" ?kl] by auto
  from n A B show "\<exists>snu lnu s1. node_used_features env s = Inr (snu, lnu, s1)
          \<and> (\<forall>f < nat (num_features_' s). used ! f \<and> snu ! f \<longrightarrow>
               \<not> SplitInfo_gt (smaller_candidate env s sm f) ?ks
               \<and> gain (smaller_candidate env s sm f) \<le> gain ?ks
               \<and> (gain (smaller_candidate env s sm f) = gain ?ks
                   \<longrightarrow> feature ?ks \<le> RealFeatureIndex env f))
          \<and> (0 \<le> leaf_index (larger_leaf_splits_' s) \<longrightarrow>
               (\<forall>f < nat (num_features_' s). used ! f \<and> lnu ! f \<longrightarrow>
                  \<not> SplitInfo_gt (larger_candidate env sub s sm lg f) ?kl
                  \<and> gain (larger_candidate env sub s sm lg f) \<le> gain ?kl
                  \<and> (gain (larger_candidate env sub s sm lg f) = gain ?kl
                      \<longrightarrow> feature ?kl \<le> RealFeatureIndex env f)))"
    by blast
qed

lemma ex_two_candidates:
  "smaller_candidate ex_env_swap ex_learner_two 0 0 = (ex_split 1)\<lparr>feature := 1\<rparr>"
  "smaller_candidate ex_env_swap ex_learner_two 0 (Suc 0) = (ex_split 1)\<lparr>feature := 0\<rparr>"
  by (simp_all add: smaller_candidate_def ex_two_candidate ex_two_fields ex_swap_simps)

theorem C1_witness:
  "search_ready ex_learner_two 0 0 [0 ..< nat (num_features_' ex_learner_two)]
   \<and> omp_get_thread_num ex_env_swap 0 < omp_num_threads ex_env_swap
   \<and> nat (leaf_index (smaller_leaf_splits_' ex_learner_two))
       < length (best_split_per_leaf_' ex_learner_two)
   \<and> leaf_index (larger_leaf_splits_' ex_learner_two) < 0
   \<and> (\<exists>s'. FindBestSplitsFromHistograms ex_env_swap ex_learner_two [True, True] False = Inr s'
         \<and> best_split_per_leaf_' s' ! 0 = (ex_split 1)\<lparr>feature := 0\<rparr>
         \<and> \<not> SplitInfo_gt (smaller_candidate ex_env_swap ex_learner_two 0 0)
               (best_split_per_leaf_' s' ! 0)
         \<and> \<not> SplitInfo_gt (smaller_candidate ex_env_swap ex_learner_two 0 (Suc 0))
               (best_split_per_leaf_' s' ! 0))"
proof -
  from ex_two_search obtain s' where
    run: "FindBestSplitsFromHistograms ex_env_swap ex_learner_two [True, True] False = Inr s'"
    and best: "best_split_per_leaf_' s' = [(ex_split 1)\<lparr>feature := 0\<rparr>, SplitInfo_new]"
    by blast
  have n: "node_used_features ex_env_swap ex_learner_two = Inr ([True, True], [True, True], ex_learner_two)"
    by (simp add: node_used_features_def ex_two_fields ex_config_def numeral_2_eq_2)
  have pre: "nat (leaf_index (smaller_leaf_splits_' ex_learner_two))
       < length (best_split_per_leaf_' ex_learner_two)"
    "leaf_index (larger_leaf_splits_' ex_learner_two) < 0"
    "\<forall>f. omp_get_thread_num ex_env_swap f < omp_num_threads ex_env_swap"
    by (simp_all add: ex_two_fields ex_swap_simps)
  have hyp: "search_ready ex_learner_two 0 0 [0 ..< nat (num_features_' ex_learner_two)]
        \<and> (\<forall>f. omp_get_thread_num ex_env_swap f < omp_num_threads ex_env_swap)
        \<and> FindBestSplitsFromHistograms ex_env_swap ex_learner_two [True, True] False = Inr s'
        \<and> nat (leaf_index (smaller_leaf_splits_' ex_learner_two))
            < length (best_split_per_leaf_' ex_learner_two)
        \<and> (0 \<le> leaf_index (larger_leaf_splits_' ex_learner_two) \<longrightarrow>
              nat (leaf_index (larger_leaf_splits_' ex_learner_two))
                \<noteq> nat (leaf_index (smaller_leaf_splits_' ex_learner_two))
              \<and> nat (leaf_index (larger_leaf_splits_' ex_learner_two))
                  < length (best_split_per_leaf_' ex_learner_two))"
    using ex_two_ready [of 0] run pre by simp
  from C1_best_split_order [where s = ex_learner_two and sm = 0 and lg = 0 and env = ex_env_swap
      and used = "[True, True]" and sub = False and s' = s',
      THEN conjunct2, THEN conjunct2, THEN conjunct2, THEN mp, OF hyp]
  obtain snu lnu s1 where
    n': "node_used_features ex_env_swap ex_learner_two = Inr (snu, lnu, s1)"
    and d: "\<forall>f < nat (num_features_' ex_learner_two). [True, True] ! f \<and> snu ! f \<longrightarrow>
          \<not> SplitInfo_gt (smaller_candidate ex_env_swap ex_learner_two 0 f)
               (best_split_per_leaf_' s' ! nat (leaf_index (smaller_leaf_splits_' ex_learner_two)))"
    by blast
  from n n' have snu: "snu = [True, True]" by simp
  from d [rule_format, of 0] d [rule_format, of "Suc 0"]
  have "\<not> SplitInfo_gt (smaller_candidate ex_env_swap ex_learner_two 0 0)
               (best_split_per_leaf_' s' ! 0)"
    "\<not> SplitInfo_gt (smaller_candidate ex_env_swap ex_learner_two 0 (Suc 0))
               (best_split_per_leaf_' s' ! 0)"
    by (simp_all add: snu ex_two_fields)
  with run best pre ex_two_ready [of 0] show ?thesis
    by auto
qed

text \<open>
  So on equal gains the split kept is not the one of the smaller inner feature index.
\<close>

theorem C1_counterexample:
  "\<exists>s'. FindBestSplitsFromHistograms ex_env_swap ex_learner_two [True, True] False = Inr s'
     \<and> gain (smaller_candidate ex_env_swap ex_learner_two 0 0)
         = gain (smaller_candidate ex_env_swap ex_learner_two 0 1)
     \<and> best_split_per_leaf_' s' ! 0 = smaller_candidate ex_env_swap ex_learner_two 0 1
     \<and> best_split_per_leaf_' s' ! 0 \<noteq> smaller_candidate ex_env_swap ex_learner_two 0 0
     \<and> InnerFeatureIndex ex_env_swap (feature (best_split_per_leaf_' s' ! 0)) = 1
     \<and> InnerFeatureIndex ex_env_swap (feature (smaller_candidate ex_env_swap ex_learner_two 0 0)) = 0"
proof -
  from ex_two_search obtain s' where
    run: "FindBestSplitsFromHistograms ex_env_swap ex_learner_two [True, True] False = Inr s'"
    and best: "best_split_per_leaf_' s' = [(ex_split 1)\<lparr>feature := 0\<rparr>, SplitInfo_new]"
    by blast
  have i: "InnerFeatureIndex ex_env_swap 0 = 1" "InnerFeatureIndex ex_env_swap 1 = 0"
    by (simp_all add: ex_env_swap_def)
  from run best show ?thesis
    by (auto simp: ex_two_candidates ex_split_def SplitInfo_new_def i)
qed

subsection \<open>ForceSplits: the abort on a negative gain\<close>

lemma ForceSplits_body_pass:
  assumes "prepare_iteration env False (fs_learner st) (fs_tree st) (fs_left_leaf st) (fs_right_leaf st) = Inr s1"
    and "gather_forced env s1 (fs_left st)
       (if left_smaller st then smaller_leaf_histogram_array_' s1 else larger_leaf_histogram_array_' s1)
       (if left_smaller st then smaller_leaf_splits_' s1 else larger_leaf_splits_' s1)
       (fs_left_leaf st) (forceSplitMap st) = Inr m1"
    and "gather_forced env s1 (fs_right st)
       (if left_smaller st then larger_leaf_histogram_array_' s1 else smaller_leaf_histogram_array_' s1)
       (if left_smaller st then larger_leaf_splits_' s1 else smaller_leaf_splits_' s1)
       (fs_right_leaf st) m1 = Inr m2"
  shows "ForceSplits_body env pair st =
     Inr (case m2 (snd pair) of
            None \<Rightarrow> (False, st\<lparr>fs_learner := s1, forceSplitMap := m2, aborted_last_force_split := True\<rparr>)
          | Some info \<Rightarrow> (True, apply_forced env (fst pair) (snd pair) info
                               (st\<lparr>fs_learner := s1, forceSplitMap := m2\<rparr>)))"
  using assms by (cases "left_smaller st") (simp_all add: ForceSplits_body_eq split: option.splits)




text \<open>
  The theorem at a forced root split of gain \<open>-1\<close> over two examples, with nothing to
  gate the search: the pass finds the best split of the root (gain 1), gathers the forced
  split, records nothing for the root and aborts; \<^verbatim>\<open>Train\<close> resumes and its growth loop
  splits the root with the split that the aborted pass has found.
\<close>

lemma split_leaf_eq:
  "split_leaf env inner leaf info s tree =
     (s\<lparr>data_partition_' :=
          DataPartition_Split (data_partition_' s) leaf
            (goes_left env inner (threshold_words env inner info) (default_left info))
            (tree_num_leaves tree)\<rparr>,
      info\<lparr>left_count :=
             leaf_count (DataPartition_Split (data_partition_' s) leaf
               (goes_left env inner (threshold_words env inner info) (default_left info))
               (tree_num_leaves tree)) leaf,
           right_count :=
             leaf_count (DataPartition_Split (data_partition_' s) leaf
               (goes_left env inner (threshold_words env inner info) (default_left info))
               (tree_num_leaves tree)) (tree_num_leaves tree)\<rparr>,
      snd (Tree_Split tree leaf (feature info) (left_output info) (right_output info)),
      tree_num_leaves tree)"
  by (simp add: split_leaf_def Let_def NextLeafId_def Tree_Split_def)








subsection \<open>Pinned leaves, forced splits and cost-efficient boosting\<close>

lemma ex_BeforeTrain_pos:
  "BeforeTrain ex_env
     (ex_learner_min5p\<lparr>gradients_' := ex_ones, hessians_' := ex_ones, is_constant_hessian_' := True\<rparr>)
   = Inr ex_prepared"
proof -
  have same: "ex_learner_min5p\<lparr>gradients_' := ex_ones, hessians_' := ex_ones, is_constant_hessian_' := True\<rparr>
      = ex_learner_min5p"
    by (simp add: ex_learner_min5p_def ex_learner_min5_def ex_learner2_def ex_learner_def)
  have cnt: "leaf_count (DataPartition_Init ex_partition2) 0 = 2"
    by (simp add: leaf_count_def DataPartition_Init_def ex_partition2_def)
  show ?thesis
    unfolding same BeforeTrain_def
    by (simp add: ex_learner_min5p_fields ex_config_def Let_def cnt ex_prepared_def upt_rec)
qed

lemma ex_pinned_root:
  "best_split_per_leaf_' (pin_leaves 0 (- 1) ex_prepared)
     = [SplitInfo_Reset (ex_split 1), SplitInfo_Reset SplitInfo_new]"
  "smaller_leaf_histogram_array_' (pin_leaves 0 (- 1) ex_prepared) = Some 0"
  by (simp_all add: pin_leaves_def set_gain_kMinScore_def ex_prepared_fields SplitInfo_Reset_def)

lemma ex_forced_gated_root:
  "\<exists>tree s'. Train ex_env ex_learner_min5p ex_ones ex_ones True ex_root_template = Inr (tree, s')
     \<and> tree_splits tree = [(0, 0)] \<and> tree_num_leaves tree = 2
     \<and> gain (best_split_per_leaf_' s' ! 0) = kMinScore"
proof -
  let ?sP = "pin_leaves 0 (- 1) ex_prepared"
  let ?st = "\<lparr>fs_tree = Tree_new 2, fs_learner = ex_prepared, fs_left_leaf = 0,
     fs_right_leaf = - 1, fs_cur_depth = 1, fs_left = ex_root_template, fs_right = JNull,
     left_smaller = True, forceSplitMap = Map.empty, result_count = 0,
     aborted_last_force_split = False\<rparr>"
  let ?gs = "gathered_split ex_env ?sP ex_root_template 0 (smaller_leaf_splits_' ?sP)"
  have n: "\<not> is_null ex_root_template" "left_of ex_root_template = JNull"
    "right_of ex_root_template = JNull"
    by (simp_all add: ex_root_template_def)
  have gs: "gain ?gs = Some 1" "feature ?gs = 0"
    by (simp_all add: gathered_split_def ex_env_def ex_split_def ex_root_template_def)
  have p: "prepare_iteration ex_env False (fs_learner ?st) (fs_tree ?st) (fs_left_leaf ?st)
      (fs_right_leaf ?st) = Inr ?sP"
    using prepare_iteration_gated [OF ex_prepared_gated, of ex_env] by simp
  have g1: "gather_forced ex_env ?sP (fs_left ?st)
       (if left_smaller ?st then smaller_leaf_histogram_array_' ?sP
        else larger_leaf_histogram_array_' ?sP)
       (if left_smaller ?st then smaller_leaf_splits_' ?sP else larger_leaf_splits_' ?sP)
       (fs_left_leaf ?st) (forceSplitMap ?st) = Inr [0 \<mapsto> ?gs]"
    by (simp add: ex_pinned_root gather_forced_result [OF n(1)] gs)
  have g2: "gather_forced ex_env ?sP (fs_right ?st)
       (if left_smaller ?st then larger_leaf_histogram_array_' ?sP
        else smaller_leaf_histogram_array_' ?sP)
       (if left_smaller ?st then larger_leaf_splits_' ?sP else smaller_leaf_splits_' ?sP)
       (fs_right_leaf ?st) [0 \<mapsto> ?gs] = Inr [0 \<mapsto> ?gs]"
    by (simp add: gather_forced_null)
  define st1 where "st1 = apply_forced ex_env ex_root_template 0 ?gs
      (?st\<lparr>fs_learner := ?sP, forceSplitMap := [0 \<mapsto> ?gs]\<rparr>)"
  have body: "ForceSplits_body ex_env (ex_root_template, 0) ?st = Inr (True, st1)"
    unfolding ForceSplits_body_pass [OF p g1 g2] by (simp add: st1_def)
  have af: "result_count st1 = 1" "\<not> aborted_last_force_split st1"
    "config_' (fs_learner st1) = ex_config\<lparr>min_data_in_leaf := 5\<rparr>"
    "tree_num_leaves (fs_tree st1) = 2"
    unfolding st1_def
    by (simp_all add: apply_forced_frame apply_forced_config pin_leaves_frame ex_prepared_fields
        Tree_new_def)
  have tr: "fs_tree st1 = snd (Tree_Split (Tree_new 2) 0 0 (left_output ?gs) (right_output ?gs))"
    "best_split_per_leaf_' (fs_learner st1) = best_split_per_leaf_' ?sP"
    unfolding st1_def apply_forced_def split_leaf_eq
    by (simp_all add: Let_def gs init_children_frame)
  have loop: "ForceSplits_loop ex_env [(ex_root_template, 0)] ?st = Inr st1"
    by (simp add: body push_children_def n)
  have fs: "ForceSplits ex_env ex_prepared (Tree_new (num_leaves (config_' ex_prepared)))
      ex_root_template 0 (- 1) 1 = Inr st1"
    using loop by (simp add: ForceSplits_def ex_prepared_fields ex_config_def)
  have "Train ex_env ex_learner_min5p ex_ones ex_ones True ex_root_template
      = Inr (fs_tree st1, fs_learner st1)"
    unfolding Train_forced [OF n(1) ex_BeforeTrain_pos fs]
    by (simp add: af ex_config_def)
  moreover have "tree_splits (fs_tree st1) = [(0, 0)]"
    by (simp add: tr Tree_Split_def Tree_new_def)
  moreover have "gain (best_split_per_leaf_' (fs_learner st1) ! 0) = kMinScore"
    by (simp add: tr ex_pinned_root SplitInfo_Reset_def)
  ultimately show ?thesis using af(4) by blast
qed

lemma ex_cegb_fields:
  "config_' ex_learner_cegb = ex_config\<lparr>num_leaves := 5, min_data_in_leaf := 5\<rparr>"
  "data_partition_' ex_learner_cegb = ex_partition3"
  "best_split_per_leaf_' ex_learner_cegb
     = [ex_split 3, ex_split 1, SplitInfo_new, SplitInfo_new, SplitInfo_new]"
  "cegb_' ex_learner_cegb = Some (CEGB [])"
  by (simp_all add: ex_learner_cegb_def ex_learner_def)

lemma ex_hook_simps:
  "InnerFeatureIndex ex_env_hook = (\<lambda>r. r)"
  "is_numerical_bin ex_env_hook = (\<lambda>f. True)"
  "goes_left ex_env_hook = (\<lambda>f words dl i. i mod 2 = 0)"
  "UpdateLeafBestSplits ex_env_hook = (\<lambda>c t l best. (best[0 := ex_split 5], c))"
  "UpdateConstraints ex_env_hook = (\<lambda>num l r m ro lo c. c)"
  by (simp_all add: ex_env_hook_def ex_env_def)

lemma ex_cegb_gated: "\<not> fst (BeforeFindBestSplit ex_learner_cegb ex_tree3 0 2)"
  unfolding BeforeFindBestSplit_false_iff
  by (simp add: ex_cegb_fields ex_config_def int32_mul_def GetGlobalDataCountInLeaf_def
      leaf_count_def ex_partition3_def ex_run3_def)

lemma ex_cegb_pinned:
  "best_split_per_leaf_' (pin_leaves 0 2 ex_learner_cegb)
     = [ex_split 3\<lparr>gain := kMinScore\<rparr>, ex_split 1, SplitInfo_new, SplitInfo_new, SplitInfo_new]"
  by (simp add: pin_leaves_def set_gain_kMinScore_def ex_cegb_fields SplitInfo_new_def)

lemma ex_argmax_first:
  "ArgMax [ex_split 3\<lparr>gain := kMinScore\<rparr>, ex_split 1, SplitInfo_new, SplitInfo_new, SplitInfo_new] = 1"
  by (simp add: ArgMax_def SplitInfo_gt_def ex_split_def SplitInfo_new_def)

lemma ex_argmax_second:
  "ArgMax [ex_split 5, ex_split 1\<lparr>gain := kMinScore\<rparr>, SplitInfo_new, SplitInfo_new\<lparr>gain := kMinScore\<rparr>, SplitInfo_new] = 0"
  by (simp add: ArgMax_def SplitInfo_gt_def ex_split_def SplitInfo_new_def)

lemma ex_hook_Split:
  assumes c: "cegb_' s = Some c"
    and f: "feature (best_split_per_leaf_' s ! nat b) = 0"
    and b: "(best_split_per_leaf_' s)[0 := ex_split 5] ! nat b = ex_split g"
    and l: "leaf_run (data_partition_' s) b = [2 * j, Suc (2 * j)]"
    and nb: "b \<noteq> tree_num_leaves tree"
  shows "\<exists>s'. Split ex_env_hook s tree b
        = Inr (s', snd (Tree_Split tree b 0 0 0), b, tree_num_leaves tree)
      \<and> best_split_per_leaf_' s' = ((best_split_per_leaf_' s)[0 := ex_split 5])[nat b := ex_split g]
      \<and> config_' s' = config_' s \<and> cegb_' s' = Some c
      \<and> leaf_count (data_partition_' s') b = 1
      \<and> leaf_count (data_partition_' s') (tree_num_leaves tree) = 1
      \<and> (\<forall>x. x \<noteq> b \<and> x \<noteq> tree_num_leaves tree \<longrightarrow>
            leaf_run (data_partition_' s') x = leaf_run (data_partition_' s) x)"
proof -
  let ?cu = "cegb_update ex_env_hook tree b s"
  let ?dp = "DataPartition_Split (data_partition_' s) b (\<lambda>i. i mod 2 = 0) (tree_num_leaves tree)"
  have cu: "?cu = s\<lparr>best_split_per_leaf_' := (best_split_per_leaf_' s)[0 := ex_split 5],
      cegb_' := Some c\<rparr>"
    by (simp add: cegb_update_def c ex_hook_simps)
  have cnt: "leaf_count ?dp b = 1" "leaf_count ?dp (tree_num_leaves tree) = 1"
    using nb by (simp_all add: leaf_count_def DataPartition_Split_def l)
  have other: "\<forall>x. x \<noteq> b \<and> x \<noteq> tree_num_leaves tree \<longrightarrow>
      leaf_run ?dp x = leaf_run (data_partition_' s) x"
    by (simp add: DataPartition_Split_def)
  have info: "ex_split g\<lparr>left_count := 1, right_count := 1\<rparr> = ex_split g"
    by (simp add: ex_split_def)
  have sl: "split_leaf ex_env_hook (InnerFeatureIndex ex_env_hook (feature (best_split_per_leaf_' s ! nat b)))
      b (best_split_per_leaf_' ?cu ! nat b) ?cu tree
      = (?cu\<lparr>data_partition_' := ?dp\<rparr>, ex_split g, snd (Tree_Split tree b 0 0 0), tree_num_leaves tree)"
    unfolding split_leaf_eq
    by (simp add: cu ex_hook_simps f b cnt info) (simp add: ex_split_def SplitInfo_new_def)
  show ?thesis
    unfolding Split_cases [OF sl]
    using other by (simp add: ex_split_def init_children_frame cu cnt)
qed

lemma ex_hook_grows:
  "\<exists>tree' d' s'. train_loop ex_env_hook 2 False ex_tree3 0 2 1 ex_learner_cegb = Inr (tree', d', s')
     \<and> tree_splits tree' = tree_splits ex_tree3 @ [(1, 0), (0, 0)]"
proof -
  define sp where "sp = pin_leaves 0 2 ex_learner_cegb"
  have sp: "cegb_' sp = Some (CEGB [])"
    "config_' sp = ex_config\<lparr>num_leaves := 5, min_data_in_leaf := 5\<rparr>"
    "data_partition_' sp = ex_partition3"
    "best_split_per_leaf_' sp
       = [ex_split 3\<lparr>gain := kMinScore\<rparr>, ex_split 1, SplitInfo_new, SplitInfo_new, SplitInfo_new]"
    by (simp_all add: sp_def pin_leaves_frame ex_cegb_fields ex_cegb_pinned)
  define t1 where "t1 = snd (Tree_Split ex_tree3 1 0 0 0)"
  have t1: "tree_num_leaves t1 = 4" "tree_splits t1 = tree_splits ex_tree3 @ [(1, 0)]"
    by (simp_all add: t1_def Tree_Split_def ex_tree3_def Let_def)
  have "\<exists>s1. Split ex_env_hook sp ex_tree3 1 = Inr (s1, t1, 1, 3)
    \<and> best_split_per_leaf_' s1
       = [ex_split 5, ex_split 1, SplitInfo_new, SplitInfo_new, SplitInfo_new]
    \<and> config_' s1 = ex_config\<lparr>num_leaves := 5, min_data_in_leaf := 5\<rparr>
    \<and> cegb_' s1 = Some (CEGB [])
    \<and> leaf_count (data_partition_' s1) 1 = 1 \<and> leaf_count (data_partition_' s1) 3 = 1
    \<and> leaf_run (data_partition_' s1) 0 = [0, 1]"
    using ex_hook_Split [of sp "CEGB []" 1 1 1 ex_tree3]
    by (fastforce simp: sp t1_def ex_split_def ex_partition3_def ex_run3_def ex_tree3_def)
  then obtain s1 where s1: "Split ex_env_hook sp ex_tree3 1 = Inr (s1, t1, 1, 3)"
    "best_split_per_leaf_' s1
       = [ex_split 5, ex_split 1, SplitInfo_new, SplitInfo_new, SplitInfo_new]"
    "config_' s1 = ex_config\<lparr>num_leaves := 5, min_data_in_leaf := 5\<rparr>"
    "cegb_' s1 = Some (CEGB [])"
    "leaf_count (data_partition_' s1) 1 = 1" "leaf_count (data_partition_' s1) 3 = 1"
    "leaf_run (data_partition_' s1) 0 = [0, 1]"
    by (elim exE conjE) (rule that)
  have g1: "\<not> fst (BeforeFindBestSplit s1 t1 1 3)"
    unfolding BeforeFindBestSplit_false_iff
    by (simp add: s1 ex_config_def int32_mul_def GetGlobalDataCountInLeaf_def)
  define sq where "sq = pin_leaves 1 3 s1"
  have sq: "cegb_' sq = Some (CEGB [])"
    "leaf_run (data_partition_' sq) 0 = [0, 1]"
    "best_split_per_leaf_' sq
       = [ex_split 5, ex_split 1\<lparr>gain := kMinScore\<rparr>, SplitInfo_new,
          SplitInfo_new\<lparr>gain := kMinScore\<rparr>, SplitInfo_new]"
    by (simp_all add: sq_def pin_leaves_frame s1 pin_leaves_def set_gain_kMinScore_def)
  define t2 where "t2 = snd (Tree_Split t1 0 0 0 0)"
  have t2: "tree_splits t2 = tree_splits ex_tree3 @ [(1, 0), (0, 0)]"
    by (simp add: t2_def Tree_Split_def t1 Let_def)
  have "\<exists>s2. Split ex_env_hook sq t1 0 = Inr (s2, t2, 0, 4)"
    using ex_hook_Split [of sq "CEGB []" 0 5 0 t1]
    by (auto simp: sq t1 t2_def ex_split_def)
  then obtain s2 where s2: "Split ex_env_hook sq t1 0 = Inr (s2, t2, 0, 4)" ..
  have gn: "\<And>g. gain (ex_split g) = Some g"
    by (simp add: ex_split_def)
  have step2: "train_loop ex_env_hook (Suc 0) False t1 1 3 (max 1 (leaf_depth t1 1)) s1
      = Inr (t2, max (max 1 (leaf_depth t1 1)) (leaf_depth t2 0), s2)"
    unfolding train_loop_after_pin [OF g1]
    by (simp add: prepare_iteration_aborted sq [unfolded sq_def] ex_argmax_second
        s2 [unfolded sq_def] gn Let_def)
  have "train_loop ex_env_hook 2 False ex_tree3 0 2 1 ex_learner_cegb
      = Inr (t2, max (max 1 (leaf_depth t1 1)) (leaf_depth t2 0), s2)"
    unfolding numeral_2_eq_2 train_loop_after_pin [OF ex_cegb_gated]
    by (simp add: train_loop.simps(2) [of _ "Suc 0"] prepare_iteration_aborted
          sp [unfolded sp_def] ex_argmax_first s1(1) [unfolded sp_def] gn Let_def step2
          del: train_loop.simps)
  with t2 show ?thesis by blast
qed

text \<open>
  Claim C4, with its last clause restricted. \<^verbatim>\<open>BeforeFindBestSplit\<close> returns false
  exactly when the depth limit is positive and reached by the left leaf, or both children
  have fewer examples than \<^verbatim>\<open>min_data_in_leaf * 2\<close>, the product of two 32-bit
  \<^verbatim>\<open>int\<close>s. It then does nothing but set the gain of the best split of the left leaf, and
  of the right leaf when that is not \<open>-1\<close>, to \<^verbatim>\<open>kMinScore\<close>; when it returns true it
  leaves \<^verbatim>\<open>best_split_per_leaf_\<close> as it was. A leaf \<open>p\<close> pinned in an iteration of the
  growth loop of \<^verbatim>\<open>Train\<close> is not split in that iteration or in any later one of the
  loop, and its gain is still \<^verbatim>\<open>kMinScore\<close> when the loop ends, provided that
  cost-efficient boosting is off. Without that proviso, and for the passes of
  \<^verbatim>\<open>ForceSplits\<close>, the clause "never selected for splitting again" fails, as the three runs after the
  example show.
\<close>

theorem C4_gating_pins_leaves:
  "(\<not> fst (BeforeFindBestSplit s tree l r) \<longleftrightarrow>
      (0 < max_depth (config_' s) \<and> max_depth (config_' s) \<le> leaf_depth tree l)
      \<or> (GetGlobalDataCountInLeaf s r < int32_mul (min_data_in_leaf (config_' s)) 2
         \<and> GetGlobalDataCountInLeaf s l < int32_mul (min_data_in_leaf (config_' s)) 2))
   \<and> (\<not> fst (BeforeFindBestSplit s tree l r) \<longrightarrow>
        snd (BeforeFindBestSplit s tree l r) = pin_leaves l r s
        \<and> pin_leaves l r s = s\<lparr>best_split_per_leaf_' := best_split_per_leaf_' (pin_leaves l r s)\<rparr>
        \<and> (nat l < length (best_split_per_leaf_' s) \<longrightarrow>
              gain (best_split_per_leaf_' (pin_leaves l r s) ! nat l) = kMinScore)
        \<and> (0 \<le> r \<and> nat r < length (best_split_per_leaf_' s) \<longrightarrow>
              gain (best_split_per_leaf_' (pin_leaves l r s) ! nat r) = kMinScore)
        \<and> (\<forall>i. i \<noteq> nat l \<and> (0 \<le> r \<longrightarrow> i \<noteq> nat r) \<longrightarrow>
              best_split_per_leaf_' (pin_leaves l r s) ! i = best_split_per_leaf_' s ! i))
   \<and> (fst (BeforeFindBestSplit s tree l r) \<longrightarrow>
        best_split_per_leaf_' (snd (BeforeFindBestSplit s tree l r)) = best_split_per_leaf_' s)
   \<and> (\<not> fst (BeforeFindBestSplit s tree l r) \<and> (p = l \<or> (p = r \<and> 0 \<le> r))
        \<and> 0 \<le> p \<and> p < tree_num_leaves tree \<and> nat p < length (best_split_per_leaf_' s)
        \<and> cegb_' s = None
        \<and> train_loop env (Suc k) False tree l r d s = Inr (tree', d', s') \<longrightarrow>
        (\<exists>new. tree_splits tree' = tree_splits tree @ new \<and> p \<notin> fst ` set new)
        \<and> gain (best_split_per_leaf_' s' ! nat p) = kMinScore)"
proof (intro conjI impI allI)
  show "(\<not> fst (BeforeFindBestSplit s tree l r)) =
      (0 < max_depth (config_' s) \<and> max_depth (config_' s) \<le> leaf_depth tree l
      \<or> GetGlobalDataCountInLeaf s r < int32_mul (min_data_in_leaf (config_' s)) 2
         \<and> GetGlobalDataCountInLeaf s l < int32_mul (min_data_in_leaf (config_' s)) 2)"
    by (rule BeforeFindBestSplit_false_iff)
next
  assume "\<not> fst (BeforeFindBestSplit s tree l r)"
  then show "snd (BeforeFindBestSplit s tree l r) = pin_leaves l r s"
    by (rule BeforeFindBestSplit_false)
next
  show "pin_leaves l r s = s\<lparr>best_split_per_leaf_' := best_split_per_leaf_' (pin_leaves l r s)\<rparr>"
    by (rule pin_leaves_effect(6))
next
  assume "nat l < length (best_split_per_leaf_' s)"
  then show "gain (best_split_per_leaf_' (pin_leaves l r s) ! nat l) = kMinScore"
    by (rule pin_leaves_effect(2))
next
  assume "0 \<le> r \<and> nat r < length (best_split_per_leaf_' s)"
  then show "gain (best_split_per_leaf_' (pin_leaves l r s) ! nat r) = kMinScore"
    by (simp add: pin_leaves_effect(3))
next
  fix i assume "i \<noteq> nat l \<and> (0 \<le> r \<longrightarrow> i \<noteq> nat r)"
  then show "best_split_per_leaf_' (pin_leaves l r s) ! i = best_split_per_leaf_' s ! i"
    by (simp add: pin_leaves_effect(5))
next
  assume "fst (BeforeFindBestSplit s tree l r)"
  then show "best_split_per_leaf_' (snd (BeforeFindBestSplit s tree l r)) = best_split_per_leaf_' s"
    by (intro prepared_frameD(1) BeforeFindBestSplit_true)
next
  assume a: "\<not> fst (BeforeFindBestSplit s tree l r) \<and> (p = l \<or> (p = r \<and> 0 \<le> r))
        \<and> 0 \<le> p \<and> p < tree_num_leaves tree \<and> nat p < length (best_split_per_leaf_' s)
        \<and> cegb_' s = None
        \<and> train_loop env (Suc k) False tree l r d s = Inr (tree', d', s')"
  have pinned: "gain (best_split_per_leaf_' (pin_leaves l r s) ! nat p) = kMinScore"
  proof (cases "p = l")
    case True
    with a show ?thesis by (simp add: pin_leaves_effect(2))
  next
    case False
    with a have "p = r" "0 \<le> r" "nat r < length (best_split_per_leaf_' s)" by auto
    then show ?thesis by (simp add: pin_leaves_effect(3))
  qed
  from a have ng: "\<not> fst (BeforeFindBestSplit s tree l r)"
    and "train_loop env (Suc k) False tree l r d s = Inr (tree', d', s')"
    by simp_all
  then have run: "train_loop env (Suc k) True tree l r d (pin_leaves l r s) = Inr (tree', d', s')"
    by (simp only: train_loop_after_pin [OF ng])
  have "(\<exists>new. tree_splits tree' = tree_splits tree @ new \<and> p \<notin> fst ` set new)
        \<and> gain (best_split_per_leaf_' s' ! nat p) = kMinScore"
    using train_loop_pinned [OF run pinned] a by (simp add: pin_leaves_frame)
  then show "\<exists>new. tree_splits tree' = tree_splits tree @ new \<and> p \<notin> fst ` set new"
    "gain (best_split_per_leaf_' s' ! nat p) = kMinScore"
    by simp_all
qed

lemma ex_min5_gated: "\<not> fst (BeforeFindBestSplit ex_learner_min5 ex_tree 0 (- 1))"
  unfolding BeforeFindBestSplit_false_iff
  by (simp add: ex_learner_min5_def ex_learner2_def ex_learner_def ex_config_def int32_mul_def
      GetGlobalDataCountInLeaf_def leaf_count_def ex_partition2_def ex_run2_def)

lemma ex_min5_pinned:
  "best_split_per_leaf_' (pin_leaves 0 (- 1) ex_learner_min5)
   = [ex_split 1\<lparr>gain := kMinScore\<rparr>, SplitInfo_new]"
  by (simp add: pin_leaves_def set_gain_kMinScore_def ex_learner_min5_def ex_learner2_def ex_learner_def)

lemma ex_min5_loop:
  "train_loop ex_env (Suc 0) False ex_tree 0 (- 1) 1 ex_learner_min5
   = Inr (ex_tree, 1, pin_leaves 0 (- 1) ex_learner_min5)"
  unfolding train_loop_after_pin [OF ex_min5_gated]
  by (simp add: prepare_iteration_aborted ex_min5_pinned ArgMax_def SplitInfo_gt_def
      ex_split_def SplitInfo_new_def Let_def)

text \<open>
  The theorem at a root with two examples and \<open>min_data_in_leaf = 5\<close>: the root is
  pinned, the loop stops without a split, and the gain of the root is \<^verbatim>\<open>kMinScore\<close>.
\<close>

theorem C4_witness:
  "\<not> fst (BeforeFindBestSplit ex_learner_min5 ex_tree 0 (- 1))
   \<and> (0::int) < tree_num_leaves ex_tree \<and> nat 0 < length (best_split_per_leaf_' ex_learner_min5)
   \<and> cegb_' ex_learner_min5 = None
   \<and> train_loop ex_env (Suc 0) False ex_tree 0 (- 1) 1 ex_learner_min5
       = Inr (ex_tree, 1, pin_leaves 0 (- 1) ex_learner_min5)
   \<and> gain (best_split_per_leaf_' (pin_leaves 0 (- 1) ex_learner_min5) ! nat 0) = kMinScore"
proof -
  have h: "(0::int) < tree_num_leaves ex_tree" "nat 0 < length (best_split_per_leaf_' ex_learner_min5)"
    "cegb_' ex_learner_min5 = None"
    by (simp_all add: ex_tree_def ex_learner_min5_def ex_learner2_def ex_learner_def)
  show ?thesis
    using C4_gating_pins_leaves [of ex_learner_min5 ex_tree 0 "- 1" 0 ex_env 0 1 ex_tree 1
        "pin_leaves 0 (- 1) ex_learner_min5"]
      ex_min5_gated h ex_min5_loop
    by simp
qed

lemma ex_big_not_gated:
  "fst (BeforeFindBestSplit ex_learner_big ex_tree 0 (- 1))"
  "GetGlobalDataCountInLeaf ex_learner_big 0 = 2"
  "GetGlobalDataCountInLeaf ex_learner_big (- 1) = 0"
  "min_data_in_leaf (config_' ex_learner_big) = 1073741824"
proof -
  show c: "GetGlobalDataCountInLeaf ex_learner_big 0 = 2"
    "GetGlobalDataCountInLeaf ex_learner_big (- 1) = 0"
    "min_data_in_leaf (config_' ex_learner_big) = 1073741824"
    by (simp_all add: ex_learner_big_def ex_learner2_def ex_learner_def ex_config_def
        GetGlobalDataCountInLeaf_def leaf_count_def ex_partition2_def ex_run2_def)
  have "\<not> \<not> fst (BeforeFindBestSplit ex_learner_big ex_tree 0 (- 1))"
    unfolding BeforeFindBestSplit_false_iff c
    by (simp add: int32_mul_def ex_learner_big_def ex_learner2_def ex_learner_def ex_config_def)
  then show "fst (BeforeFindBestSplit ex_learner_big ex_tree 0 (- 1))" by simp
qed

text \<open>
  Three runs against the claim as written. First, \<^verbatim>\<open>Train\<close> with a forced root split,
  two examples and \<open>min_data_in_leaf = 5\<close>: the pass of \<^verbatim>\<open>ForceSplits\<close> calls
  \<^verbatim>\<open>BeforeFindBestSplit\<close>, which returns false and pins the root, and then splits the
  root all the same; the gain of the root is still \<^verbatim>\<open>kMinScore\<close> when \<^verbatim>\<open>Train\<close> returns.
  Second, the growth loop with cost-efficient boosting: leaves 0 and 2 are pinned, leaf 1
  is split, the update of the best splits in \<^verbatim>\<open>Split\<close> stores a split of positive gain
  for leaf 0, and the next iteration splits leaf 0. Third, \<open>min_data_in_leaf = 2^30\<close>:
  both counts are below \<open>2 * min_data_in_leaf\<close>, the 32-bit product is \<open>- 2^31\<close>, and
  \<^verbatim>\<open>BeforeFindBestSplit\<close> returns true.
\<close>

theorem C4_counterexample:
  "(BeforeTrain ex_env
      (ex_learner_min5p\<lparr>gradients_' := ex_ones, hessians_' := ex_ones, is_constant_hessian_' := True\<rparr>)
      = Inr ex_prepared
    \<and> \<not> fst (BeforeFindBestSplit ex_prepared (Tree_new 2) 0 (- 1))
    \<and> gain (best_split_per_leaf_' (pin_leaves 0 (- 1) ex_prepared) ! 0) = kMinScore
    \<and> \<not> isl (Train ex_env ex_learner_min5p ex_ones ex_ones True ex_root_template)
    \<and> tree_splits (fst (projr (Train ex_env ex_learner_min5p ex_ones ex_ones True ex_root_template)))
        = [(0, 0)]
    \<and> tree_num_leaves (fst (projr (Train ex_env ex_learner_min5p ex_ones ex_ones True ex_root_template)))
        = 2
    \<and> gain (best_split_per_leaf_'
          (snd (projr (Train ex_env ex_learner_min5p ex_ones ex_ones True ex_root_template))) ! 0)
        = kMinScore)
   \<and> (cegb_' ex_learner_cegb \<noteq> None
    \<and> \<not> fst (BeforeFindBestSplit ex_learner_cegb ex_tree3 0 2)
    \<and> gain (best_split_per_leaf_' (pin_leaves 0 2 ex_learner_cegb) ! 0) = kMinScore
    \<and> tree_splits ex_tree3 = [(0, 0), (0, 0)]
    \<and> \<not> isl (train_loop ex_env_hook 2 False ex_tree3 0 2 1 ex_learner_cegb)
    \<and> tree_splits (fst (projr (train_loop ex_env_hook 2 False ex_tree3 0 2 1 ex_learner_cegb)))
        = [(0, 0), (0, 0), (1, 0), (0, 0)])
   \<and> (GetGlobalDataCountInLeaf ex_learner_big 0 < 2 * min_data_in_leaf (config_' ex_learner_big)
    \<and> GetGlobalDataCountInLeaf ex_learner_big (- 1) < 2 * min_data_in_leaf (config_' ex_learner_big)
    \<and> fst (BeforeFindBestSplit ex_learner_big ex_tree 0 (- 1)))"
proof -
  have "gain (best_split_per_leaf_' (pin_leaves 0 (- 1) ex_prepared) ! 0) = kMinScore"
    by (simp add: ex_pinned_root SplitInfo_Reset_def)
  moreover have "gain (best_split_per_leaf_' (pin_leaves 0 2 ex_learner_cegb) ! 0) = kMinScore"
    by (simp add: ex_cegb_pinned)
  moreover have "cegb_' ex_learner_cegb \<noteq> None"
    by (simp add: ex_cegb_fields)
  moreover from ex_forced_gated_root obtain tree s' where
    "Train ex_env ex_learner_min5p ex_ones ex_ones True ex_root_template = Inr (tree, s')"
    "tree_splits tree = [(0, 0)]" "tree_num_leaves tree = 2"
    "gain (best_split_per_leaf_' s' ! 0) = kMinScore"
    by (elim exE conjE) (rule that)
  moreover from ex_hook_grows obtain tree' d' s'' where
    "train_loop ex_env_hook 2 False ex_tree3 0 2 1 ex_learner_cegb = Inr (tree', d', s'')"
    "tree_splits tree' = tree_splits ex_tree3 @ [(1, 0), (0, 0)]"
    by (elim exE conjE) (rule that)
  moreover have "tree_splits ex_tree3 = [(0, 0), (0, 0)]"
    by (simp add: ex_tree3_def)
  ultimately show ?thesis
    using ex_BeforeTrain_pos ex_prepared_gated ex_cegb_gated
    by (simp add: ex_big_not_gated del: not_None_eq)
qed

subsection \<open>The histogram of the larger leaf by subtraction\<close>







lemma touch_fields [simp]:
  "slots (touch k p) = slots p" "slot_leaf (touch k p) = slot_leaf p"
  "last_used_time (touch k p) = (last_used_time p)[k := Suc (cur_time p)]"
  "cur_time (touch k p) = Suc (cur_time p)"
  by (simp_all add: touch_def)



















end
